theory Spec2Isabelle
  imports Complex_Main
begin

section \<open>JavaScript values\<close>

text \<open>
  A JavaScript string is a sequence of UTF-16 code units; \<open>length\<close>, \<open>substring\<close>
  and \<open>includes\<close> count and compare code units. The Hebrew letters of the corpus lie in
  the basic plane (U+05D0 .. U+05EA), one code unit each. Token counts, lengths and indexes
  are whole JavaScript numbers below \<open>2^53\<close>, on which the arithmetic of doubles is exact;
  they are modelled as \<open>int\<close> and \<open>nat\<close>. Every other number is a double, see below.
\<close>

type_synonym jsstring = "nat list"

definition ascii :: "string \<Rightarrow> jsstring" where
  "ascii s = map of_char s"

text \<open>Exceptions of the source: a thrown \<open>TypeError\<close> and the router's
  \<open>Error('Master index not loaded')\<close>.\<close>

datatype error = TypeError | MasterIndexNotLoaded

subsection \<open>Double-precision numbers\<close>

text \<open>
  A JavaScript number is an IEEE 754 binary64 value. A finite double is modelled by the real
  number it denotes, and \<open>fl x\<close> is the double nearest to the real number \<open>x\<close>, a tie
  going to the even significand: the value of the decimal literal \<open>x\<close> and of every
  arithmetic operation whose exact result is \<open>x\<close>. For \<open>a > 0\<close>, \<open>expo a\<close> is the
  exponent \<open>e\<close> with \<open>2^e \<le> a < 2^(e + 1)\<close>; the significand has 53 bits, so the doubles
  next to \<open>a\<close> are the multiples of \<open>2^(e - 52)\<close>. The numbers of the source are
  counts and their quotients, the weights and embedding components read from the index
  files, and sums and products of these with decimal literals. The exponent range is not
  bounded in the model: overflow to \<open>Infinity\<close> and the subnormal numbers need magnitudes
  beyond \<open>2^1023\<close> and below \<open>2^-1022\<close> and are left aside. \<open>NaN\<close> arises in the
  source only as the quotient \<open>0 / 0\<close> of two counts and is modelled there by \<open>None\<close>.
\<close>

definition pow2 :: "int \<Rightarrow> real" where
  "pow2 e = (if 0 \<le> e then 2 ^ nat e else 1 / 2 ^ nat (- e))"

function expoUp :: "real \<Rightarrow> nat \<Rightarrow> nat" where
  "expoUp a k = (if a < 2 ^ (k + 1) then k else expoUp a (k + 1))"
  by pat_completeness auto
termination
proof (relation "measure (\<lambda>(a, k). nat \<lceil>a\<rceil> - k)")
  show "wf (measure (\<lambda>(a, k). nat \<lceil>a\<rceil> - k))" by simp
next
  fix a :: real and k :: nat
  assume "\<not> a < 2 ^ (k + 1)"
  then have "2 ^ (k + 1) \<le> a" by simp
  moreover have "real (k + 1) < 2 ^ (k + 1)"
    by (metis of_nat_less_two_power)
  ultimately have "real (k + 1) < a" by linarith
  then have "int (k + 1) < \<lceil>a\<rceil>" by linarith
  then show "((a, k + 1), (a, k)) \<in> measure (\<lambda>(a, k). nat \<lceil>a\<rceil> - k)"
    by simp
qed

function expoDown :: "real \<Rightarrow> nat \<Rightarrow> nat" where
  "expoDown a k = (if a \<le> 0 \<or> 1 \<le> a * 2 ^ k then k else expoDown a (k + 1))"
  by pat_completeness auto
termination
proof (relation "measure (\<lambda>(a, k). nat \<lceil>1 / a\<rceil> - k)")
  show "wf (measure (\<lambda>(a, k). nat \<lceil>1 / a\<rceil> - k))" by simp
next
  fix a :: real and k :: nat
  assume "\<not> (a \<le> 0 \<or> 1 \<le> a * 2 ^ k)"
  then have a: "0 < a" and "a * 2 ^ k < 1" by auto
  then have "2 ^ k < 1 / a" by (simp add: field_simps)
  moreover have "real k < 2 ^ k"
    by (metis of_nat_less_two_power)
  ultimately have "real k < 1 / a" by linarith
  then have "int k < \<lceil>1 / a\<rceil>" by linarith
  then show "((a, k + 1), (a, k)) \<in> measure (\<lambda>(a, k). nat \<lceil>1 / a\<rceil> - k)"
    by simp
qed

declare expoUp.simps [simp del] expoDown.simps [simp del]

definition expo :: "real \<Rightarrow> int" where
  "expo a = (if 1 \<le> a then int (expoUp a 0) else - int (expoDown a 1))"

text \<open>Rounding to the nearest whole number, a tie going to the even one.\<close>

definition roundEven :: "real \<Rightarrow> int" where
  "roundEven y =
     (if y - of_int \<lfloor>y\<rfloor> < 1 / 2 then \<lfloor>y\<rfloor>
      else if 1 / 2 < y - of_int \<lfloor>y\<rfloor> then \<lfloor>y\<rfloor> + 1
      else if even \<lfloor>y\<rfloor> then \<lfloor>y\<rfloor> else \<lfloor>y\<rfloor> + 1)"

definition fl :: "real \<Rightarrow> real" where
  "fl x =
     (if x = 0 then 0
      else sgn x * (of_int (roundEven (\<bar>x\<bar> / pow2 (expo \<bar>x\<bar> - 52))) * pow2 (expo \<bar>x\<bar> - 52)))"

text \<open>The operations \<open>+\<close>, \<open>*\<close> and \<open>/\<close> on doubles (the divisor not 0).\<close>

definition dadd :: "real \<Rightarrow> real \<Rightarrow> real" where
  "dadd x y = fl (x + y)"

definition dmul :: "real \<Rightarrow> real \<Rightarrow> real" where
  "dmul x y = fl (x * y)"

definition ddiv :: "real \<Rightarrow> real \<Rightarrow> real" where
  "ddiv x y = fl (x / y)"

subsection \<open>Strings and arrays\<close>

fun startsWith :: "jsstring \<Rightarrow> jsstring \<Rightarrow> bool" where
  "startsWith _ [] = True"
| "startsWith [] (p # ps) = False"
| "startsWith (c # cs) (p # ps) = (c = p \<and> startsWith cs ps)"

text \<open>\<open>text.includes(pat)\<close>: \<open>pat\<close> occurs as a contiguous run of code units.\<close>

fun js_includes :: "jsstring \<Rightarrow> jsstring \<Rightarrow> bool" where
  "js_includes [] pat = (pat = [])"
| "js_includes (c # cs) pat = (startsWith (c # cs) pat \<or> js_includes cs pat)"

text \<open>\<open>parts.join(sep)\<close>.\<close>

fun join :: "jsstring \<Rightarrow> jsstring list \<Rightarrow> jsstring" where
  "join sep [] = []"
| "join sep [x] = x"
| "join sep (x # y # ys) = x @ sep @ join sep (y # ys)"

text \<open>The decimal digits of a number inside a template literal.\<close>

function showNat :: "nat \<Rightarrow> jsstring" where
  "showNat n = (if n < 10 then [48 + n] else showNat (n div 10) @ [48 + n mod 10])"
  by pat_completeness auto
termination
  by (relation "measure id") auto

declare showNat.simps [simp del]

text \<open>\<open>[...new Set(xs)]\<close>: the first occurrence of every element, in order.\<close>

fun dedup :: "'a list \<Rightarrow> 'a list" where
  "dedup [] = []"
| "dedup (x # xs) = x # dedup (filter (\<lambda>y. y \<noteq> x) xs)"

text \<open>The character classes of the regular expressions: \<open>\s\<close>, \<open>\d\<close> and the range
  from alef to tav (U+05D0 .. U+05EA).\<close>

definition isSpace :: "nat \<Rightarrow> bool" where
  "isSpace c = (c \<in> set [9, 10, 11, 12, 13, 32, 160, 5760, 8232, 8233, 8239, 8287, 12288, 65279]
                \<or> (8192 \<le> c \<and> c \<le> 8202))"

definition isDigit :: "nat \<Rightarrow> bool" where
  "isDigit c = (48 \<le> c \<and> c \<le> 57)"

definition isHebrewLetter :: "nat \<Rightarrow> bool" where
  "isHebrewLetter c = (1488 \<le> c \<and> c \<le> 1514)"

text \<open>\<open>/^lit\s+[cls]+/.test(s)\<close>: the literal, then at least one white-space unit, then a
  unit of the class. No unit of either class is white space, so the match exists exactly when
  the unit after the longest white-space run is in the class.\<close>

definition testHeading :: "jsstring \<Rightarrow> (nat \<Rightarrow> bool) \<Rightarrow> jsstring \<Rightarrow> bool" where
  "testHeading lit cls s =
     (startsWith s lit \<and>
      (case drop (length lit) s of
         [] \<Rightarrow> False
       | c # rest \<Rightarrow> isSpace c \<and>
           (case dropWhile isSpace rest of [] \<Rightarrow> False | d # _ \<Rightarrow> cls d)))"

section \<open>Semantic chunker (semanticChunker.ts)\<close>

subsection \<open>Data\<close>

text \<open>A section of a book as the extractor delivers it. An absent \<open>title\<close>,
  \<open>englishText\<close> or \<open>frenchText\<close> is the empty string: the chunker reads them only
  through \<open>x || y\<close>, which treats \<open>undefined\<close> and \<open>''\<close> alike.\<close>

record Section =
  sec_id :: jsstring
  sec_title :: jsstring
  hebrewText :: jsstring
  englishText :: jsstring
  frenchText :: jsstring
  reference :: jsstring
  sec_index :: int

record Book =
  book_id :: jsstring
  book_title :: jsstring
  book_hebrewTitle :: jsstring
  sections :: "Section list"

datatype UnitType = Torah | Story | Prayer | SectionUnit

record SemanticUnit =
  unit_id :: jsstring
  unit_type :: UnitType
  unit_sections :: "Section list"
  unit_tokenCount :: int
  unit_themes :: "jsstring list"

text \<open>\<open>overlapRatio\<close> is a double; \<open>maxTokens\<close> and \<open>minTokens\<close> are whole numbers.
  The callers in the repository pass no options.\<close>

record ChunkingOptions =
  maxTokens :: int
  minTokens :: int
  overlapRatio :: real
  preserveSemanticUnits :: bool

definition DEFAULT_OPTIONS :: ChunkingOptions where
  "DEFAULT_OPTIONS =
     \<lparr>maxTokens = 75000, minTokens = 50000, overlapRatio = fl (1 / 10), preserveSemanticUnits = True\<rparr>"

subsection \<open>Token estimate and theme dictionaries\<close>

text \<open>\<open>Math.ceil(text.length / 4)\<close>.\<close>

definition estimateTokens :: "jsstring \<Rightarrow> int" where
  "estimateTokens text = (int (length text) + 3) div 4"

text \<open>The theme table of \<open>extractThemes\<close>, in the order of its object literal: each theme
  with its trigger words, as UTF-16 code units.\<close>

definition themeKeywords :: "(jsstring \<times> jsstring list) list" where
  "themeKeywords =
    [([1514, 1508, 1497, 1500, 1492],
        [[1514, 1508, 1497, 1500, 1492], [1500, 1492, 1514, 1508, 1500, 1500], [1514, 1508, 1500, 1492]]),
     ([1513, 1502, 1495, 1492],
        [[1513, 1502, 1495, 1492], [1500, 1513, 1502, 1493, 1495], [1513, 1502, 1495]]),
     ([1488, 1502, 1493, 1504, 1492],
        [[1488, 1502, 1493, 1504, 1492], [1500, 1492, 1488, 1502, 1497, 1503], [1502, 1488, 1502, 1497, 1503]]),
     ([1514, 1513, 1493, 1489, 1492],
        [[1514, 1513, 1493, 1489, 1492], [1500, 1513, 1493, 1489], [1495, 1494, 1512, 1492]]),
     ([1510, 1491, 1497, 1511],
        [[1510, 1491, 1497, 1511], [1510, 1491, 1497, 1511, 1497, 1501], [1492, 1510, 1491, 1497, 1511]]),
     ([1514, 1493, 1512, 1492],
        [[1514, 1493, 1512, 1492], [1500, 1500, 1502, 1493, 1491], [1500, 1497, 1502, 1493, 1491]]),
     ([1492, 1514, 1489, 1493, 1491, 1491, 1493, 1514],
        [[1492, 1514, 1489, 1493, 1491, 1491, 1493, 1514], [1500, 1492, 1514, 1489, 1493, 1491, 1491],
         [1489, 1493, 1491, 1491]])]"

definition prayerThemes :: "(jsstring \<times> jsstring list) list" where
  "prayerThemes =
    [([1492, 1493, 1491, 1488, 1492],
        [[1514, 1493, 1491, 1492], [1500, 1492, 1493, 1491, 1493, 1514], [1502, 1493, 1491, 1492]]),
     ([1489, 1511, 1513, 1492],
        [[1489, 1511, 1513, 1492], [1500, 1489, 1511, 1513], [1502, 1489, 1511, 1513]]),
     ([1513, 1489, 1495],
        [[1513, 1489, 1495], [1500, 1513, 1489, 1495], [1502, 1513, 1489, 1495]]),
     ([1493, 1497, 1491, 1493, 1497],
        [[1493, 1497, 1491, 1493, 1497], [1500, 1492, 1514, 1493, 1493, 1491, 1493, 1514],
         [1502, 1514, 1493, 1493, 1491, 1492]])]"

text \<open>The loop over \<open>Object.entries(table)\<close>: a theme is pushed when one of its words
  occurs in the text.\<close>

definition themesOf :: "(jsstring \<times> jsstring list) list \<Rightarrow> jsstring \<Rightarrow> jsstring list" where
  "themesOf table text = map fst (filter (\<lambda>(theme, kws). list_ex (js_includes text) kws) table)"

definition extractThemes :: "jsstring \<Rightarrow> jsstring list" where
  "extractThemes text = themesOf themeKeywords text"

definition extractPrayerThemes :: "jsstring \<Rightarrow> jsstring list" where
  "extractPrayerThemes text = dedup (extractThemes text @ themesOf prayerThemes text)"

subsection \<open>Boundary heuristics\<close>

text \<open>\<open>isTorahStart\<close> tests the title, or the first 50 code units of the Hebrew text when
  the title is empty, against the three numbering patterns.\<close>

definition isTorahStart :: "Section \<Rightarrow> bool" where
  "isTorahStart s =
     (let subject = (if sec_title s \<noteq> [] then sec_title s else take 50 (hebrewText s))
      in testHeading [1514, 1493, 1512, 1492] isHebrewLetter subject
         \<or> testHeading (ascii ''Torah'') isDigit subject
         \<or> testHeading [1505, 1497, 1502, 1503] isHebrewLetter subject)"

definition storyMarkers :: "jsstring list" where
  "storyMarkers =
     [[1502, 1506, 1513, 1492], [1492, 1497, 1492, 32, 1508, 1506, 1501],
      [1502, 1506, 1513, 1492, 32, 1489], ascii ''Once there was'', ascii ''Story of'']"

definition isStoryStart :: "Section \<Rightarrow> bool" where
  "isStoryStart s = list_ex (js_includes (take 100 (hebrewText s))) storyMarkers"

definition prayerMarkers :: "jsstring list" where
  "prayerMarkers =
     [[1512, 1489, 1493, 1504, 1493, 32, 1513, 1500, 32, 1506, 1493, 1500, 1501],
      [1497, 1492, 1497, 32, 1512, 1510, 1493, 1503], [1514, 1508, 1497, 1500, 1492],
      ascii ''Master of the Universe'']"

definition isPrayerStart :: "Section \<Rightarrow> bool" where
  "isPrayerStart s = list_ex (js_includes (take 100 (hebrewText s))) prayerMarkers"

subsection \<open>Unit identification\<close>

text \<open>
  \<open>identifyTorahUnits\<close>, \<open>identifyStoryUnits\<close> and \<open>identifyPrayerUnits\<close> are the same
  loop over \<open>book.sections\<close> with a different boundary test and a different unit
  constructor. The loop state is the list \<open>units\<close> and the open unit (\<open>null\<close> is
  \<open>None\<close>). A section that starts no unit while no unit is open falls through both
  branches of the source's \<open>if ... else if (current)\<close> and is not stored anywhere.
\<close>

fun unitLoop ::
  "(Section \<Rightarrow> bool) \<Rightarrow> (nat \<Rightarrow> Section \<Rightarrow> SemanticUnit) \<Rightarrow> Section list \<Rightarrow>
   SemanticUnit list \<Rightarrow> SemanticUnit option \<Rightarrow> SemanticUnit list" where
  "unitLoop isStart newUnit [] units current =
     (case current of Some c \<Rightarrow> units @ [c] | None \<Rightarrow> units)"
| "unitLoop isStart newUnit (s # rest) units current =
     (if isStart s then
        (let units' = (case current of Some c \<Rightarrow> units @ [c] | None \<Rightarrow> units)
         in unitLoop isStart newUnit rest units' (Some (newUnit (length units' + 1) s)))
      else
        (case current of
           Some c \<Rightarrow>
             unitLoop isStart newUnit rest units
               (Some (c\<lparr>unit_sections := unit_sections c @ [s],
                        unit_tokenCount := unit_tokenCount c + estimateTokens (hebrewText s)\<rparr>))
         | None \<Rightarrow> unitLoop isStart newUnit rest units None))"

definition newTorah :: "nat \<Rightarrow> Section \<Rightarrow> SemanticUnit" where
  "newTorah n s =
     \<lparr>unit_id = ascii ''torah_'' @ showNat n, unit_type = Torah, unit_sections = [s],
      unit_tokenCount = estimateTokens (hebrewText s), unit_themes = extractThemes (hebrewText s)\<rparr>"

definition newStory :: "nat \<Rightarrow> Section \<Rightarrow> SemanticUnit" where
  "newStory n s =
     \<lparr>unit_id = ascii ''story_'' @ showNat n, unit_type = Story, unit_sections = [s],
      unit_tokenCount = estimateTokens (hebrewText s), unit_themes = extractThemes (hebrewText s)\<rparr>"

definition newPrayer :: "nat \<Rightarrow> Section \<Rightarrow> SemanticUnit" where
  "newPrayer n s =
     \<lparr>unit_id = ascii ''prayer_'' @ showNat n, unit_type = Prayer, unit_sections = [s],
      unit_tokenCount = estimateTokens (hebrewText s),
      unit_themes = extractPrayerThemes (hebrewText s)\<rparr>"

definition identifyTorahUnits :: "Book \<Rightarrow> SemanticUnit list" where
  "identifyTorahUnits book = unitLoop isTorahStart newTorah (sections book) [] None"

definition identifyStoryUnits :: "Book \<Rightarrow> SemanticUnit list" where
  "identifyStoryUnits book = unitLoop isStoryStart newStory (sections book) [] None"

definition identifyPrayerUnits :: "Book \<Rightarrow> SemanticUnit list" where
  "identifyPrayerUnits book = unitLoop isPrayerStart newPrayer (sections book) [] None"

text \<open>\<open>identifyDefaultUnits\<close>: every 10 consecutive sections form one unit.\<close>

definition newDefaultUnit :: "nat \<Rightarrow> Section list \<Rightarrow> SemanticUnit" where
  "newDefaultUnit n secs =
     \<lparr>unit_id = ascii ''unit_'' @ showNat n, unit_type = SectionUnit, unit_sections = secs,
      unit_tokenCount = foldl (\<lambda>sum s. sum + estimateTokens (hebrewText s)) 0 secs,
      unit_themes = extractThemes (join [32] (map hebrewText secs))\<rparr>"

function defaultLoop :: "Section list \<Rightarrow> SemanticUnit list \<Rightarrow> SemanticUnit list" where
  "defaultLoop secs units =
     (if secs = [] then units
      else defaultLoop (drop 10 secs) (units @ [newDefaultUnit (length units + 1) (take 10 secs)]))"
  by pat_completeness auto
termination
  by (relation "measure (\<lambda>(secs, units). length secs)") auto

declare defaultLoop.simps [simp del]

definition identifyDefaultUnits :: "Book \<Rightarrow> SemanticUnit list" where
  "identifyDefaultUnits book = defaultLoop (sections book) []"

text \<open>The dispatch on the book id: a book whose id names one of the three families is
  handled by that family's heuristic alone.\<close>

definition identifySemanticUnits :: "Book \<Rightarrow> SemanticUnit list" where
  "identifySemanticUnits book =
     (if js_includes (book_id book) (ascii ''likutey_moharan'') then identifyTorahUnits book
      else if js_includes (book_id book) (ascii ''sippurei_maasiyot'') then identifyStoryUnits book
      else if js_includes (book_id book) (ascii ''tefilot'') then identifyPrayerUnits book
      else identifyDefaultUnits book)"

subsection \<open>Splitting a large unit and grouping units\<close>

text \<open>\<open>targetSize = Math.floor(options.maxTokens * 0.8)\<close>.\<close>

definition targetSize :: "ChunkingOptions \<Rightarrow> int" where
  "targetSize opts = \<lfloor>dmul (of_int (maxTokens opts)) (fl (8 / 10))\<rfloor>"

definition splitPart :: "SemanticUnit \<Rightarrow> nat \<Rightarrow> Section list \<Rightarrow> int \<Rightarrow> SemanticUnit" where
  "splitPart unit n secs tokens =
     \<lparr>unit_id = unit_id unit @ ascii ''_part'' @ showNat n, unit_type = unit_type unit,
      unit_sections = secs, unit_tokenCount = tokens, unit_themes = unit_themes unit\<rparr>"

text \<open>The loop of \<open>splitLargeUnit\<close> over \<open>unit.sections\<close>; its state is \<open>chunks\<close>,
  \<open>currentSections\<close> and \<open>currentTokens\<close>. The cut is made only between sections.\<close>

fun splitLoop ::
  "SemanticUnit \<Rightarrow> int \<Rightarrow> Section list \<Rightarrow> SemanticUnit list \<Rightarrow> Section list \<Rightarrow> int \<Rightarrow>
   SemanticUnit list \<times> Section list \<times> int" where
  "splitLoop unit target [] chunks cur tokens = (chunks, cur, tokens)"
| "splitLoop unit target (s # rest) chunks cur tokens =
     (let sectionTokens = estimateTokens (hebrewText s) in
      if tokens + sectionTokens > target \<and> cur \<noteq> [] then
        splitLoop unit target rest
          (chunks @ [splitPart unit (length chunks + 1) cur tokens]) [s] sectionTokens
      else splitLoop unit target rest chunks (cur @ [s]) (tokens + sectionTokens))"

definition splitLargeUnit :: "SemanticUnit \<Rightarrow> ChunkingOptions \<Rightarrow> SemanticUnit list" where
  "splitLargeUnit unit opts =
     (case splitLoop unit (targetSize opts) (unit_sections unit) [] [] 0 of
        (chunks, cur, tokens) \<Rightarrow>
          if cur \<noteq> [] then chunks @ [splitPart unit (length chunks + 1) cur tokens] else chunks)"

text \<open>The loop of \<open>groupUnitsIntoChunks\<close>; its state is \<open>groups\<close>, \<open>currentGroup\<close> and
  \<open>currentTokens\<close>.\<close>

fun groupLoop ::
  "ChunkingOptions \<Rightarrow> SemanticUnit list \<Rightarrow> SemanticUnit list list \<Rightarrow> SemanticUnit list \<Rightarrow> int \<Rightarrow>
   SemanticUnit list list \<times> SemanticUnit list \<times> int" where
  "groupLoop opts [] groups cur tokens = (groups, cur, tokens)"
| "groupLoop opts (u # rest) groups cur tokens =
     (if unit_tokenCount u > maxTokens opts then
        groupLoop opts rest
          ((if cur \<noteq> [] then groups @ [cur] else groups) @ map (\<lambda>p. [p]) (splitLargeUnit u opts))
          [] (if cur \<noteq> [] then 0 else tokens)
      else if tokens + unit_tokenCount u > maxTokens opts then
        groupLoop opts rest (if cur \<noteq> [] then groups @ [cur] else groups) [u] (unit_tokenCount u)
      else groupLoop opts rest groups (cur @ [u]) (tokens + unit_tokenCount u))"

text \<open>The token count of a group, \<open>units.reduce((sum, u) => sum + u.tokenCount, 0)\<close>, as
  \<open>groupUnitsIntoChunks\<close> computes it for the last group and \<open>createChunk\<close> for the field
  \<open>metadata.tokenCount\<close>.\<close>

definition groupTokens :: "SemanticUnit list \<Rightarrow> int" where
  "groupTokens g = foldl (\<lambda>sum u. sum + unit_tokenCount u) 0 g"

definition groupUnitsIntoChunks :: "SemanticUnit list \<Rightarrow> ChunkingOptions \<Rightarrow> SemanticUnit list list" where
  "groupUnitsIntoChunks units opts =
     (case groupLoop opts units [] [] 0 of
        (groups, cur, tokens) \<Rightarrow>
          if cur \<noteq> [] then
            (if tokens < minTokens opts \<and> groups \<noteq> [] then
               (if groupTokens (last groups) + tokens \<le> maxTokens opts
                then butlast groups @ [last groups @ cur]
                else groups @ [cur])
             else groups @ [cur])
          else groups)"

text \<open>The sections a group contributes to its chunk's primary content,
  \<open>units.flatMap(u => u.sections)\<close>.\<close>

definition allSections :: "SemanticUnit list \<Rightarrow> Section list" where
  "allSections g = concat (map unit_sections g)"

subsection \<open>Chunks\<close>

text \<open>The \<open>Chunk\<close> interface, with \<open>content\<close> and \<open>metadata\<close> flattened into one
  record. An absent optional field is \<open>None\<close>.\<close>

record Citation =
  cit_source :: jsstring
  cit_text :: jsstring

record Chunk =
  chunk_id :: jsstring
  chunk_bookId :: jsstring
  chunk_sectionId :: jsstring
  hebrew :: jsstring
  english :: "jsstring option"
  french :: "jsstring option"
  chunk_reference :: jsstring
  startIndex :: int
  endIndex :: int
  tokenCount :: int
  themes :: "jsstring list"
  citations :: "Citation list"
  context_before :: "jsstring option"
  context_after :: "jsstring option"
  embedding :: "real list option"

text \<open>\<open>getOverlapContext\<close>: whole texts are taken from the near end of the adjacent group
  while they fit into the overlap budget; the first text that does not fit is cut and
  marked with \<open>'...'\<close> at the position
  \<open>Math.floor(text.length * ((maxTokens - tokens) / textTokens))\<close>. A negative position is
  treated by \<open>substring\<close> as 0. For an empty text the quotient has divisor 0 and the
  product is \<open>NaN\<close>, which \<open>substring\<close> treats as 0 as well; the text has no unit to
  take.\<close>

datatype Position = AtStart | AtEnd

definition cutLength :: "jsstring \<Rightarrow> int \<Rightarrow> int \<Rightarrow> nat" where
  "cutLength text budget tokens =
     (if text = [] then 0
      else nat \<lfloor>dmul (real (length text))
                    (ddiv (real_of_int (budget - tokens)) (real_of_int (estimateTokens text)))\<rfloor>)"

fun overlapStart :: "jsstring list \<Rightarrow> int \<Rightarrow> jsstring \<Rightarrow> int \<Rightarrow> jsstring" where
  "overlapStart [] budget context tokens = context"
| "overlapStart (text # rest) budget context tokens =
     (if tokens + estimateTokens text > budget
      then context @ take (cutLength text budget tokens) text @ ascii ''...''
      else overlapStart rest budget (context @ text @ [10]) (tokens + estimateTokens text))"

fun overlapEnd :: "jsstring list \<Rightarrow> int \<Rightarrow> jsstring \<Rightarrow> int \<Rightarrow> jsstring" where
  "overlapEnd [] budget context tokens = context"
| "overlapEnd (text # rest) budget context tokens =
     (if tokens + estimateTokens text > budget
      then ascii ''...'' @ drop (length text - cutLength text budget tokens) text @ context
      else overlapEnd rest budget (text @ [10] @ context) (tokens + estimateTokens text))"

definition getOverlapContext :: "SemanticUnit list \<Rightarrow> int \<Rightarrow> Position \<Rightarrow> jsstring" where
  "getOverlapContext units budget position =
     (let texts = map hebrewText (allSections units) in
      case position of
        AtStart \<Rightarrow> overlapStart texts budget [] 0
      | AtEnd \<Rightarrow> overlapEnd (rev texts) budget [] 0)"

definition extractUniqueThemes :: "SemanticUnit list \<Rightarrow> jsstring list" where
  "extractUniqueThemes units = dedup (concat (map unit_themes units))"

text \<open>
  \<open>extractCitations\<close> runs \<open>text.matchAll(pattern)\<close> for two regular expressions:
  \<open>/\(([^)]+)\)/g\<close> and a pattern for quoted text that is written without the \<open>g\<close> flag.
  \<open>String.prototype.matchAll\<close> throws a \<open>TypeError\<close> when its regular expression is
  not global (ECMAScript 2020, String.prototype.matchAll, step 2.b.iii), before any
  matching takes place. \<open>parenCaptures\<close> gives group 1 of every match of the first pattern.
\<close>

datatype CitationPattern = Parenthesised | Quoted

fun isGlobal :: "CitationPattern \<Rightarrow> bool" where
  "isGlobal Parenthesised = True"
| "isGlobal Quoted = False"

function parenCaptures :: "jsstring \<Rightarrow> jsstring list" where
  "parenCaptures [] = []"
| "parenCaptures (c # cs) =
     (if c = 40 \<and> takeWhile (\<lambda>d. d \<noteq> 41) cs \<noteq> [] \<and> dropWhile (\<lambda>d. d \<noteq> 41) cs \<noteq> []
      then takeWhile (\<lambda>d. d \<noteq> 41) cs # parenCaptures (tl (dropWhile (\<lambda>d. d \<noteq> 41) cs))
      else parenCaptures cs)"
  by pat_completeness auto
termination
  by (relation "measure length") (auto simp: less_Suc_eq_le le_trans [OF diff_le_self length_dropWhile_le])

text \<open>The captures of the quoted-text pattern are never computed; the function is total
  only to give \<open>matchAll\<close> a value on its unreachable branch.\<close>

definition captures :: "CitationPattern \<Rightarrow> jsstring \<Rightarrow> jsstring list" where
  "captures p text = (case p of Parenthesised \<Rightarrow> parenCaptures text | Quoted \<Rightarrow> [])"

definition matchAll :: "CitationPattern \<Rightarrow> jsstring \<Rightarrow> error + jsstring list" where
  "matchAll p text = (if isGlobal p then Inr (captures p text) else Inl TypeError)"

definition citationSources :: "jsstring list" where
  "citationSources =
     [[1514, 1492, 1500, 1497, 1501], [1502, 1513, 1500, 1497], [1489, 1512, 1488, 1513, 1497, 1514],
      [1513, 1502, 1493, 1514], [1493, 1497, 1511, 1512, 1488], [1489, 1502, 1491, 1489, 1512],
      [1491, 1489, 1512, 1497, 1501]]"

definition citationsOf :: "jsstring list \<Rightarrow> Citation list" where
  "citationsOf caps =
     map (\<lambda>c. \<lparr>cit_source = c, cit_text = c\<rparr>)
       (filter (\<lambda>c. list_ex (js_includes c) citationSources) caps)"

fun citationLoop :: "CitationPattern list \<Rightarrow> jsstring \<Rightarrow> Citation list \<Rightarrow> error + Citation list" where
  "citationLoop [] text acc = Inr acc"
| "citationLoop (p # ps) text acc =
     (case matchAll p text of
        Inl e \<Rightarrow> Inl e
      | Inr caps \<Rightarrow> citationLoop ps text (acc @ citationsOf caps))"

definition extractCitations :: "jsstring \<Rightarrow> error + Citation list" where
  "extractCitations text = citationLoop [Parenthesised, Quoted] text []"

text \<open>\<open>generateChunkId\<close>; the first 8 hexadecimal digits of the MD5 digest are a parameter
  \<open>md5hex\<close> of the model.\<close>

definition generateChunkId :: "(jsstring \<Rightarrow> jsstring) \<Rightarrow> jsstring \<Rightarrow> nat \<Rightarrow> jsstring \<Rightarrow> jsstring" where
  "generateChunkId md5hex bookId i content =
     bookId @ ascii ''_chunk_'' @ showNat i @ ascii ''_'' @ md5hex (take 100 content)"

text \<open>\<open>generateReference\<close> and the fields read from \<open>units[0]\<close> and \<open>allSections[0]\<close>:
  reading a property of \<open>undefined\<close> throws a \<open>TypeError\<close>.\<close>

definition generateReference :: "SemanticUnit list \<Rightarrow> error + jsstring" where
  "generateReference units =
     (case units of
        [] \<Rightarrow> Inl TypeError
      | u # _ \<Rightarrow>
          (case (unit_sections u, unit_sections (last units)) of
             (f # _, l # ls) \<Rightarrow>
               Inr (if reference f = reference (last (l # ls)) then reference f
                    else reference f @ ascii '' - '' @ reference (last (l # ls)))
           | _ \<Rightarrow> Inl TypeError))"

definition createChunk ::
  "(jsstring \<Rightarrow> jsstring) \<Rightarrow> jsstring \<Rightarrow> SemanticUnit list \<Rightarrow> nat \<Rightarrow> SemanticUnit list option \<Rightarrow>
   SemanticUnit list option \<Rightarrow> ChunkingOptions \<Rightarrow> error + Chunk" where
  "createChunk md5hex bookId units i prevUnits nextUnits opts =
     (let secs = allSections units;
          overlapTokens = \<lfloor>dmul (real_of_int (maxTokens opts)) (overlapRatio opts)\<rfloor>;
          beforeContext = (case prevUnits of Some p \<Rightarrow> getOverlapContext p overlapTokens AtEnd | None \<Rightarrow> []);
          afterContext = (case nextUnits of Some n \<Rightarrow> getOverlapContext n overlapTokens AtStart | None \<Rightarrow> []);
          heText = join [10, 10] (map hebrewText secs);
          enText = join [10, 10] (map englishText secs);
          frText = join [10, 10] (map frenchText secs)
      in case extractCitations heText of
           Inl e \<Rightarrow> Inl e
         | Inr cits \<Rightarrow>
             (case (units, secs, generateReference units) of
                (u # _, s # _, Inr ref) \<Rightarrow>
                  Inr \<lparr>chunk_id = generateChunkId md5hex bookId i heText,
                       chunk_bookId = bookId,
                       chunk_sectionId = unit_id u,
                       hebrew = heText,
                       english = (if enText = [] then None else Some enText),
                       french = (if frText = [] then None else Some frText),
                       chunk_reference = ref,
                       startIndex = sec_index s,
                       endIndex = sec_index (last secs),
                       tokenCount = groupTokens units,
                       themes = extractUniqueThemes units,
                       citations = cits,
                       context_before = (if beforeContext = [] then None else Some beforeContext),
                       context_after = (if afterContext = [] then None else Some afterContext),
                       embedding = None\<rparr>
              | _ \<Rightarrow> Inl TypeError))"

text \<open>\<open>chunkBook\<close>: \<open>groupedUnits\<close> and the loop that turns group \<open>i\<close> into a chunk, with
  its neighbours \<open>groupedUnits[i - 1]\<close> and \<open>groupedUnits[i + 1]\<close> (\<open>undefined\<close> outside the
  array). An exception of \<open>createChunk\<close> ends the call.\<close>

definition groupedUnits :: "Book \<Rightarrow> ChunkingOptions \<Rightarrow> SemanticUnit list list" where
  "groupedUnits book opts = groupUnitsIntoChunks (identifySemanticUnits book) opts"

function chunkLoop ::
  "(jsstring \<Rightarrow> jsstring) \<Rightarrow> jsstring \<Rightarrow> SemanticUnit list list \<Rightarrow> ChunkingOptions \<Rightarrow> nat \<Rightarrow>
   Chunk list \<Rightarrow> error + Chunk list" where
  "chunkLoop md5hex bookId groups opts i chunks =
     (if i < length groups then
        (case createChunk md5hex bookId (groups ! i) i
                (if i = 0 then None else Some (groups ! (i - 1)))
                (if i + 1 < length groups then Some (groups ! (i + 1)) else None) opts of
           Inl e \<Rightarrow> Inl e
         | Inr c \<Rightarrow> chunkLoop md5hex bookId groups opts (i + 1) (chunks @ [c]))
      else Inr chunks)"
  by pat_completeness auto
termination
  by (relation "measure (\<lambda>(md5hex, bookId, groups, opts, i, chunks). length groups - i)") auto

declare chunkLoop.simps [simp del]

text \<open>The caller's \<open>Partial<ChunkingOptions>\<close> is spread over the defaults.\<close>

record PartialOptions =
  opt_maxTokens :: "int option"
  opt_minTokens :: "int option"
  opt_overlapRatio :: "real option"
  opt_preserveSemanticUnits :: "bool option"

definition mergeOptions :: "PartialOptions \<Rightarrow> ChunkingOptions" where
  "mergeOptions p =
     \<lparr>maxTokens = (case opt_maxTokens p of Some v \<Rightarrow> v | None \<Rightarrow> maxTokens DEFAULT_OPTIONS),
      minTokens = (case opt_minTokens p of Some v \<Rightarrow> v | None \<Rightarrow> minTokens DEFAULT_OPTIONS),
      overlapRatio = (case opt_overlapRatio p of Some v \<Rightarrow> v | None \<Rightarrow> overlapRatio DEFAULT_OPTIONS),
      preserveSemanticUnits =
        (case opt_preserveSemanticUnits p of Some v \<Rightarrow> v
         | None \<Rightarrow> preserveSemanticUnits DEFAULT_OPTIONS)\<rparr>"

definition chunkBook :: "(jsstring \<Rightarrow> jsstring) \<Rightarrow> Book \<Rightarrow> PartialOptions \<Rightarrow> error + Chunk list" where
  "chunkBook md5hex book options =
     chunkLoop md5hex (book_id book) (groupedUnits book (mergeOptions options)) (mergeOptions options) 0 []"

subsection \<open>Quantities used in the statements about the chunker\<close>

text \<open>The summed token estimate of a list of sections; the properties every part of
  \<open>splitLargeUnit\<close> has; and a group within the \<open>maxTokens\<close> budget.\<close>

definition sectionTokens :: "Section list \<Rightarrow> int" where
  "sectionTokens secs = sum_list (map (\<lambda>s. estimateTokens (hebrewText s)) secs)"

definition partOk :: "int \<Rightarrow> SemanticUnit \<Rightarrow> bool" where
  "partOk t p = (unit_tokenCount p = sectionTokens (unit_sections p) \<and> unit_sections p \<noteq> [] \<and>
      (unit_tokenCount p \<le> t \<or> length (unit_sections p) = 1))"

definition fitsBudget :: "ChunkingOptions \<Rightarrow> SemanticUnit list \<Rightarrow> bool" where
  "fitsBudget opts g = (groupTokens g \<le> maxTokens opts)"

section \<open>The three index tiers (indexBuilder.ts)\<close>

subsection \<open>Data\<close>

text \<open>
  A JavaScript object used as a dictionary (\<open>Record<string, T>\<close>) and a \<open>Map\<close> are lists
  of key-value pairs with distinct keys in insertion order: the own properties of the
  object, the entries of the map. A \<open>Date\<close> is its time stamp. An
  entry \<open>bookId:count\<close> of the global search index is kept as the pair of its
  components, which is what \<open>ref.split(':')\<close> and \<open>parseInt\<close> recover for a book id
  without a colon.
\<close>

type_synonym 'v dict = "(jsstring \<times> 'v) list"

fun mapSet :: "jsstring \<Rightarrow> 'v \<Rightarrow> 'v dict \<Rightarrow> 'v dict" where
  "mapSet k v [] = [(k, v)]"
| "mapSet k v ((k', v') # rest) = (if k' = k then (k, v) # rest else (k', v') # mapSet k v rest)"

definition mapGet :: "'v dict \<Rightarrow> jsstring \<Rightarrow> 'v option" where
  "mapGet m k = map_of m k"

text \<open>
  Reading \<open>obj[key]\<close> on a dictionary object, as the router does on the indexes it has
  parsed from JSON: an own property gives its value; otherwise a property name of
  \<open>Object.prototype\<close> gives the inherited value, a function or, for \<open>__proto__\<close>, the
  prototype object, which is truthy and not iterable; any other key gives \<open>undefined\<close>.
  The index builder fills its dictionaries from the words and themes of the corpus; its
  model leaves aside a corpus in which one of these twelve names occurs as a word or theme.
\<close>

definition objectPrototypeNames :: "jsstring list" where
  "objectPrototypeNames =
     [ascii ''constructor'', ascii ''__defineGetter__'', ascii ''__defineSetter__'',
      ascii ''hasOwnProperty'', ascii ''__lookupGetter__'', ascii ''__lookupSetter__'',
      ascii ''isPrototypeOf'', ascii ''propertyIsEnumerable'', ascii ''toString'', ascii ''valueOf'',
      ascii ''__proto__'', ascii ''toLocaleString'']"

datatype 'v property = Own 'v | Inherited | Undefined

definition recordGet :: "'v dict \<Rightarrow> jsstring \<Rightarrow> 'v property" where
  "recordGet obj key =
     (case mapGet obj key of
        Some v \<Rightarrow> Own v
      | None \<Rightarrow> if key \<in> set objectPrototypeNames then Inherited else Undefined)"

record BookSummary =
  bs_id :: jsstring
  bs_title :: jsstring
  bs_hebrewTitle :: jsstring
  bs_sections :: nat
  bs_chunks :: nat
  bs_totalTokens :: int
  bs_themes :: "jsstring list"
  bs_summary :: jsstring
  keywordEmbeddings :: "real list list option"

record BookReference =
  ref_bookId :: jsstring
  weight :: real

record MasterIndex =
  version :: jsstring
  mi_created :: nat
  totalBooks :: nat
  mi_totalTokens :: int
  books :: "BookSummary list"
  searchIndex :: "(jsstring \<times> nat) list dict"
  thematicMap :: "BookReference list dict"

record SectionInfo =
  si_id :: jsstring
  si_title :: jsstring
  si_themes :: "jsstring list"
  si_summary :: jsstring
  si_chunkIds :: "jsstring list"
  si_tokenCount :: int
  si_keywords :: "jsstring list"
  si_embedding :: "real list option"

datatype NodeType = PartNode | ChapterNode | SectionNode | TorahNode | PrayerNode | StoryNode

datatype HierarchyNode =
  HierarchyNode (hn_id: jsstring) (hn_type: NodeType) (hn_title: jsstring)
    (hn_children: "HierarchyNode list option") (hn_chunkIds: "jsstring list")

record ChunkReference =
  cr_id :: jsstring
  cr_sectionId :: jsstring
  cr_reference :: jsstring
  cr_summary :: jsstring
  cr_keywords :: "jsstring list"
  cr_themes :: "jsstring list"
  cr_tokenCount :: int
  cr_embedding :: "real list option"

datatype RefType = QuoteRef | ThemeRef | ConceptRef

record CrossReference =
  fromSection :: jsstring
  toSection :: jsstring
  xr_type :: RefType
  strength :: real

record BookIndex =
  bi_bookId :: jsstring
  bi_title :: jsstring
  bi_hebrewTitle :: jsstring
  bi_created :: nat
  bi_sections :: "SectionInfo list"
  bi_hierarchy :: "HierarchyNode list"
  bi_chunks :: "ChunkReference list"
  bi_thematicMap :: "jsstring list dict"
  crossReferences :: "CrossReference list"
  bi_totalTokens :: int

record ChunkIndex =
  ci_chunkId :: jsstring
  ci_bookId :: jsstring
  ci_created :: nat
  ci_reference :: jsstring
  ci_tokenCount :: int
  ci_themes :: "jsstring list"
  ci_keywords :: "jsstring list"
  ci_citations :: "Citation list"
  relatedChunks :: "jsstring list"
  ci_embedding :: "real list option"
  bm25Vector :: "real dict"

subsection \<open>Helpers shared by the index builder and the router\<close>

text \<open>\<open>s.split(/\s+/)\<close>: the pieces between maximal runs of white space; a leading or
  trailing run leaves an empty piece. The flag says that the previous unit was white
  space.\<close>

fun splitWs :: "bool \<Rightarrow> jsstring \<Rightarrow> jsstring \<Rightarrow> jsstring list" where
  "splitWs sp cur [] = [cur]"
| "splitWs sp cur (c # cs) =
     (if isSpace c then (if sp then splitWs True cur cs else cur # splitWs True [] cs)
      else splitWs False (cur @ [c]) cs)"

definition splitWhitespace :: "jsstring \<Rightarrow> jsstring list" where
  "splitWhitespace s = splitWs False [] s"

text \<open>\<open>xs.sort((a, b) => b.score - a.score)\<close>: a stable sort by descending score.\<close>

definition sortByScoreDesc :: "('a \<Rightarrow> real) \<Rightarrow> 'a list \<Rightarrow> 'a list" where
  "sortByScoreDesc f xs = sort_key (\<lambda>x. - f x) xs"

text \<open>
  The quotient of two counts, a double. JavaScript gives \<open>NaN\<close> for \<open>0 / 0\<close>; every
  quotient of the source has a numerator that is at most the denominator, so a zero
  denominator comes with a zero numerator.
\<close>

definition countRatio :: "nat \<Rightarrow> nat \<Rightarrow> real option" where
  "countRatio n d = (if d = 0 then None else Some (ddiv (real n) (real d)))"

subsection \<open>Property order of a dictionary object\<close>

text \<open>
  The own properties of a JavaScript object are enumerated with the array-index keys first,
  in ascending numeric order, and the other keys after them in insertion order. An array
  index is the canonical decimal string of a whole number below \<open>2^32 - 1\<close>.
  \<open>recordSet\<close> is the assignment \<open>obj[k] = v\<close>; the list it maintains is
  \<open>Object.entries(obj)\<close>.
\<close>

definition digitsValue :: "jsstring \<Rightarrow> nat" where
  "digitsValue k = foldl (\<lambda>v c. 10 * v + (c - 48)) 0 k"

definition isArrayIndex :: "jsstring \<Rightarrow> bool" where
  "isArrayIndex k =
     (case k of
        [] \<Rightarrow> False
      | c # cs \<Rightarrow> list_all isDigit k \<and> (cs = [] \<or> c \<noteq> 48) \<and> digitsValue k < 4294967295)"

fun insertIndexKey :: "jsstring \<Rightarrow> 'v \<Rightarrow> 'v dict \<Rightarrow> 'v dict" where
  "insertIndexKey k v [] = [(k, v)]"
| "insertIndexKey k v ((k', v') # rest) =
     (if isArrayIndex k' \<and> digitsValue k' < digitsValue k then (k', v') # insertIndexKey k v rest
      else (k, v) # (k', v') # rest)"

definition recordSet :: "jsstring \<Rightarrow> 'v \<Rightarrow> 'v dict \<Rightarrow> 'v dict" where
  "recordSet k v d =
     (if mapGet d k \<noteq> None then mapSet k v d
      else if isArrayIndex k then insertIndexKey k v d
      else d @ [(k, v)])"

subsection \<open>Keywords and term frequencies\<close>

text \<open>\<open>countOccurrences\<close>: \<open>counts[item] = (counts[item] || 0) + 1\<close> for every item.\<close>

definition countOf :: "nat dict \<Rightarrow> jsstring \<Rightarrow> nat" where
  "countOf counts item = (case mapGet counts item of Some n \<Rightarrow> n | None \<Rightarrow> 0)"

definition countOccurrences :: "jsstring list \<Rightarrow> nat dict" where
  "countOccurrences items = foldl (\<lambda>counts item. recordSet item (countOf counts item + 1) counts) [] items"

definition stopWords :: "jsstring list" where
  "stopWords =
     [[1488, 1514], [1513, 1500], [1506, 1500], [1488, 1500], [1502, 1503], [1506, 1501],
      [1492, 1493, 1488], [1492, 1497, 1488], [1492, 1501], [1492, 1503]]"

text \<open>\<open>extractKeywords\<close>: the words that are no stop words and longer than two code units,
  by descending frequency (a stable sort), at most 50.\<close>

definition extractKeywords :: "jsstring \<Rightarrow> jsstring list" where
  "extractKeywords text =
     map fst
       (take 50
          (sortByScoreDesc (\<lambda>e. real (snd e))
             (filter (\<lambda>(word, n). word \<notin> set stopWords \<and> length word > 2)
                (countOccurrences (splitWhitespace text)))))"

text \<open>\<open>buildBM25Vector\<close>: the counts of the words longer than two code units, divided by
  the largest count. With no such word the vector is empty and nothing is divided.\<close>

definition buildBM25Vector :: "jsstring \<Rightarrow> real dict" where
  "buildBM25Vector text =
     (let vector = countOccurrences (filter (\<lambda>w. length w > 2) (splitWhitespace text));
          maxCount = foldl max 0 (map snd vector)
      in map (\<lambda>(word, n). (word, ddiv (real n) (real maxCount))) vector)"

subsection \<open>Level 3: Chunk Indexes\<close>

text \<open>Every \<open>new Date()\<close> of a build is a reading of the wall clock. The model numbers
  the readings of one call of \<open>buildAllIndexes\<close> in the order in which they are made;
  \<open>clock k\<close> is reading number \<open>k\<close>.\<close>

type_synonym clock = "nat \<Rightarrow> nat"

definition buildChunkIndex :: "nat \<Rightarrow> Chunk \<Rightarrow> ChunkIndex" where
  "buildChunkIndex now chunk =
     \<lparr>ci_chunkId = chunk_id chunk, ci_bookId = chunk_bookId chunk, ci_created = now,
      ci_reference = chunk_reference chunk, ci_tokenCount = tokenCount chunk,
      ci_themes = themes chunk, ci_keywords = extractKeywords (hebrew chunk),
      ci_citations = citations chunk, relatedChunks = [], ci_embedding = embedding chunk,
      bm25Vector = buildBM25Vector (hebrew chunk)\<rparr>"

text \<open>
  \<open>findRelatedChunks\<close>. For two chunk indexes, \<open>themeScore\<close> and \<open>keywordScore\<close> are
  the number of common entries divided by the larger of the two lengths, and the
  similarity is \<open>(themeScore * 0.6) + (keywordScore * 0.4)\<close>. When both lists are empty
  the quotient is \<open>NaN\<close>, the sum is \<open>NaN\<close> and the comparison \<open>totalScore > 0.3\<close> is
  false. The loops run over \<open>Array.from(chunkIndexes.values())\<close>, the chunk indexes of
  all books.
\<close>

definition themeScore :: "ChunkIndex \<Rightarrow> ChunkIndex \<Rightarrow> real option" where
  "themeScore chunk other =
     countRatio (length (filter (\<lambda>t. t \<in> set (ci_themes other)) (ci_themes chunk)))
       (max (length (ci_themes chunk)) (length (ci_themes other)))"

definition keywordScore :: "ChunkIndex \<Rightarrow> ChunkIndex \<Rightarrow> real option" where
  "keywordScore chunk other =
     countRatio (length (filter (\<lambda>k. k \<in> set (ci_keywords other)) (ci_keywords chunk)))
       (max (length (ci_keywords chunk)) (length (ci_keywords other)))"

definition similarity :: "ChunkIndex \<Rightarrow> ChunkIndex \<Rightarrow> real option" where
  "similarity chunk other =
     (case (themeScore chunk other, keywordScore chunk other) of
        (Some ts, Some ks) \<Rightarrow> Some (dadd (dmul ts (fl (6 / 10))) (dmul ks (fl (4 / 10))))
      | _ \<Rightarrow> None)"

fun relatedLoop :: "ChunkIndex \<Rightarrow> ChunkIndex list \<Rightarrow> (jsstring \<times> real) list \<Rightarrow> (jsstring \<times> real) list" where
  "relatedLoop chunk [] related = related"
| "relatedLoop chunk (other # rest) related =
     relatedLoop chunk rest
       (if ci_chunkId other = ci_chunkId chunk then related
        else (case similarity chunk other of
                Some totalScore \<Rightarrow>
                  if totalScore > fl (3 / 10) then related @ [(ci_chunkId other, totalScore)] else related
              | None \<Rightarrow> related))"

definition topRelated :: "ChunkIndex \<Rightarrow> ChunkIndex list \<Rightarrow> (jsstring \<times> real) list" where
  "topRelated chunk chunks = take 5 (sortByScoreDesc snd (relatedLoop chunk chunks []))"

definition findRelatedChunks :: "ChunkIndex dict \<Rightarrow> ChunkIndex dict" where
  "findRelatedChunks chunkIndexes =
     map (\<lambda>(key, chunk). (key, chunk\<lparr>relatedChunks := map fst (topRelated chunk (map snd chunkIndexes))\<rparr>))
       chunkIndexes"

text \<open>\<open>buildChunkIndexes\<close>: the chunks of all books, in the order of the map, each with
  its own reading of the clock, starting at reading \<open>t\<close>.\<close>

definition allChunks :: "Chunk list dict \<Rightarrow> Chunk list" where
  "allChunks chunksMap = concat (map snd chunksMap)"

definition buildChunkIndexes :: "clock \<Rightarrow> nat \<Rightarrow> Chunk list dict \<Rightarrow> ChunkIndex dict" where
  "buildChunkIndexes clock t chunksMap =
     findRelatedChunks
       (foldl (\<lambda>m (k, chunk). mapSet (chunk_id chunk) (buildChunkIndex (clock (t + k)) chunk) m) []
          (enumerate 0 (allChunks chunksMap)))"

subsection \<open>Level 2: Book Indexes\<close>

definition generateSectionSummary :: "SectionInfo \<Rightarrow> jsstring" where
  "generateSectionSummary section =
     si_title section @ ascii '': '' @ join (ascii '', '') (take 3 (si_themes section))"

definition newSectionInfo :: "jsstring \<Rightarrow> SectionInfo" where
  "newSectionInfo sectionId =
     \<lparr>si_id = sectionId, si_title = ascii ''Section '' @ sectionId, si_themes = [], si_summary = [],
      si_chunkIds = [], si_tokenCount = 0, si_keywords = [], si_embedding = None\<rparr>"

fun sectionInfoLoop :: "Chunk list \<Rightarrow> SectionInfo dict \<Rightarrow> SectionInfo dict" where
  "sectionInfoLoop [] sectionsMap = sectionsMap"
| "sectionInfoLoop (chunk # rest) sectionsMap =
     sectionInfoLoop rest
       (let section = (case mapGet sectionsMap (chunk_sectionId chunk) of
                         Some s \<Rightarrow> s | None \<Rightarrow> newSectionInfo (chunk_sectionId chunk))
        in mapSet (chunk_sectionId chunk)
             (section\<lparr>si_chunkIds := si_chunkIds section @ [chunk_id chunk],
                      si_tokenCount := si_tokenCount section + tokenCount chunk,
                      si_themes := si_themes section @ themes chunk,
                      si_keywords := si_keywords section @ extractKeywords (hebrew chunk)\<rparr>)
             sectionsMap)"

definition finishSection :: "SectionInfo \<Rightarrow> SectionInfo" where
  "finishSection section =
     (let deduplicated = section\<lparr>si_themes := dedup (si_themes section),
                                 si_keywords := take 20 (dedup (si_keywords section))\<rparr>
      in deduplicated\<lparr>si_summary := generateSectionSummary deduplicated\<rparr>)"

definition buildSectionInfo :: "Book \<Rightarrow> Chunk list \<Rightarrow> SectionInfo list" where
  "buildSectionInfo book chunks = map (finishSection \<circ> snd) (sectionInfoLoop chunks [])"

text \<open>
  \<open>buildTorahHierarchy\<close>. A node is created with \<open>chunkIds: section.chunkIds\<close>, the array
  of the section itself, and \<open>currentTorah.chunkIds.push(...)\<close> for the following sections
  appends to that shared array: the section that opened the node sees the same growth. The
  loop therefore carries the sections as well, and the position of the section whose array
  the open node shares.
\<close>

definition isTorahTitle :: "SectionInfo \<Rightarrow> bool" where
  "isTorahTitle section =
     (js_includes (si_title section) (ascii ''Torah'')
      \<or> js_includes (si_title section) [1514, 1493, 1512, 1492])"

fun torahHierarchyLoop ::
  "SectionInfo list \<Rightarrow> nat \<Rightarrow> SectionInfo list \<Rightarrow> HierarchyNode list \<Rightarrow> (HierarchyNode \<times> nat) option \<Rightarrow>
   nat \<Rightarrow> HierarchyNode list \<times> SectionInfo list" where
  "torahHierarchyLoop [] i secs torahs current torahNumber =
     (case current of Some (node, opened) \<Rightarrow> (torahs @ [node], secs) | None \<Rightarrow> (torahs, secs))"
| "torahHierarchyLoop (section # rest) i secs torahs current torahNumber =
     (if isTorahTitle section then
        torahHierarchyLoop rest (i + 1) secs
          (case current of Some (node, opened) \<Rightarrow> torahs @ [node] | None \<Rightarrow> torahs)
          (Some (HierarchyNode (ascii ''torah_'' @ showNat torahNumber) TorahNode (si_title section)
                   (Some []) (si_chunkIds section), i))
          (torahNumber + 1)
      else
        (case current of
           Some (node, opened) \<Rightarrow>
             torahHierarchyLoop rest (i + 1)
               (secs[opened := (secs ! opened)\<lparr>si_chunkIds := hn_chunkIds node @ si_chunkIds section\<rparr>])
               torahs
               (Some (HierarchyNode (hn_id node) (hn_type node) (hn_title node) (hn_children node)
                        (hn_chunkIds node @ si_chunkIds section), opened))
               torahNumber
         | None \<Rightarrow> torahHierarchyLoop rest (i + 1) secs torahs None torahNumber))"

definition buildTorahHierarchy :: "SectionInfo list \<Rightarrow> HierarchyNode list \<times> SectionInfo list" where
  "buildTorahHierarchy secs = torahHierarchyLoop secs 0 secs [] None 1"

definition isStorySection :: "SectionInfo \<Rightarrow> bool" where
  "isStorySection section =
     (ascii ''story'' \<in> set (si_themes section)
      \<or> js_includes (si_title section) [1502, 1506, 1513, 1492])"

definition buildStoryHierarchy :: "SectionInfo list \<Rightarrow> HierarchyNode list" where
  "buildStoryHierarchy secs =
     map (\<lambda>(k, section). HierarchyNode (ascii ''story_'' @ showNat k) StoryNode (si_title section) None
                            (si_chunkIds section))
       (enumerate 1 (filter isStorySection secs))"

definition buildPrayerHierarchy :: "SectionInfo list \<Rightarrow> HierarchyNode list" where
  "buildPrayerHierarchy secs =
     map (\<lambda>(k, section). HierarchyNode (ascii ''prayer_'' @ showNat k) PrayerNode (si_title section) None
                            (si_chunkIds section))
       (enumerate 1 secs)"

definition buildHierarchy :: "Book \<Rightarrow> SectionInfo list \<Rightarrow> HierarchyNode list \<times> SectionInfo list" where
  "buildHierarchy book secs =
     (if js_includes (book_id book) (ascii ''likutey_moharan'') then buildTorahHierarchy secs
      else if js_includes (book_id book) (ascii ''sippurei_maasiyot'') then (buildStoryHierarchy secs, secs)
      else if js_includes (book_id book) (ascii ''tefilot'') then (buildPrayerHierarchy secs, secs)
      else (map (\<lambda>section. HierarchyNode (si_id section) SectionNode (si_title section) None
                              (si_chunkIds section)) secs,
            secs))"

definition generateChunkSummary :: "Chunk \<Rightarrow> jsstring" where
  "generateChunkSummary chunk = chunk_reference chunk @ ascii '': '' @ take 100 (hebrew chunk) @ ascii ''...''"

definition buildChunkReference :: "Chunk \<Rightarrow> ChunkReference" where
  "buildChunkReference chunk =
     \<lparr>cr_id = chunk_id chunk, cr_sectionId = chunk_sectionId chunk,
      cr_reference = chunk_reference chunk, cr_summary = generateChunkSummary chunk,
      cr_keywords = take 10 (extractKeywords (hebrew chunk)), cr_themes = themes chunk,
      cr_tokenCount = tokenCount chunk, cr_embedding = embedding chunk\<rparr>"

definition addToList :: "jsstring \<Rightarrow> 'v \<Rightarrow> 'v list dict \<Rightarrow> 'v list dict" where
  "addToList key v d = recordSet key ((case mapGet d key of Some vs \<Rightarrow> vs | None \<Rightarrow> []) @ [v]) d"

definition buildThematicMap :: "Chunk list \<Rightarrow> jsstring list dict" where
  "buildThematicMap chunks =
     foldl (\<lambda>m chunk. foldl (\<lambda>m' theme. addToList theme (chunk_id chunk) m') m (themes chunk)) [] chunks"

text \<open>\<open>findCrossReferences\<close>: the thematic links of every pair of sections \<open>i < j\<close>, then
  the links from a chunk to every other chunk whose Hebrew text contains the source of one
  of its citations.\<close>

definition themeLink :: "SectionInfo \<Rightarrow> SectionInfo \<Rightarrow> CrossReference list" where
  "themeLink a b =
     (let commonThemes = filter (\<lambda>t. t \<in> set (si_themes b)) (si_themes a) in
      if length commonThemes > 0 then
        [\<lparr>fromSection = si_id a, toSection = si_id b, xr_type = ThemeRef,
          strength = ddiv (real (length commonThemes))
                       (real (max (length (si_themes a)) (length (si_themes b))))\<rparr>]
      else [])"

fun themeLinks :: "SectionInfo list \<Rightarrow> CrossReference list" where
  "themeLinks [] = []"
| "themeLinks (a # rest) = concat (map (themeLink a) rest) @ themeLinks rest"

definition quoteLinks :: "Chunk list \<Rightarrow> CrossReference list" where
  "quoteLinks chunks =
     concat (map (\<lambda>chunk.
       concat (map (\<lambda>citation.
         map (\<lambda>sourceChunk.
                \<lparr>fromSection = chunk_sectionId chunk, toSection = chunk_sectionId sourceChunk,
                 xr_type = QuoteRef, strength = fl (8 / 10)\<rparr>)
           (filter (\<lambda>c. js_includes (hebrew c) (cit_source citation) \<and> chunk_id c \<noteq> chunk_id chunk) chunks))
         (citations chunk))) chunks)"

definition findCrossReferences :: "SectionInfo list \<Rightarrow> Chunk list \<Rightarrow> CrossReference list" where
  "findCrossReferences secs chunks = themeLinks secs @ quoteLinks chunks"

definition buildBookIndex :: "nat \<Rightarrow> Book \<Rightarrow> Chunk list \<Rightarrow> BookIndex" where
  "buildBookIndex now book chunks =
     (let secs = buildSectionInfo book chunks;
          (hierarchy, secs') = buildHierarchy book secs
      in \<lparr>bi_bookId = book_id book, bi_title = book_title book, bi_hebrewTitle = book_hebrewTitle book,
          bi_created = now, bi_sections = secs', bi_hierarchy = hierarchy,
          bi_chunks = map buildChunkReference chunks, bi_thematicMap = buildThematicMap chunks,
          crossReferences = findCrossReferences secs' chunks,
          bi_totalTokens = foldl (\<lambda>sum chunk. sum + tokenCount chunk) 0 chunks\<rparr>)"

definition compressBookIndex :: "BookIndex \<Rightarrow> BookIndex" where
  "compressBookIndex index =
     index\<lparr>bi_chunks := map (\<lambda>c. c\<lparr>cr_summary := take 50 (cr_summary c),
                                      cr_keywords := take 5 (cr_keywords c)\<rparr>) (bi_chunks index),
           bi_sections := map (\<lambda>s. s\<lparr>si_keywords := take 10 (si_keywords s),
                                        si_summary := take 50 (si_summary s)\<rparr>) (bi_sections index)\<rparr>"

text \<open>
  \<open>estimateIndexSize(index)\<close> is \<open>Math.ceil(JSON.stringify(index).length / 4)\<close>. The
  length of the JSON text of an index is a parameter of the model (\<open>jsonLength\<close>): the text
  prints every double in its shortest decimal form and escapes strings, which the model
  does not compute.
\<close>

definition estimateIndexSize :: "('a \<Rightarrow> nat) \<Rightarrow> 'a \<Rightarrow> nat" where
  "estimateIndexSize jsonLength index = (jsonLength index + 3) div 4"

text \<open>\<open>buildBookIndexes\<close>: one Book Index per book, in the order of \<open>books\<close>, book number
  \<open>k\<close> with clock reading \<open>t + k\<close>; an index above 200000 estimated tokens is
  compressed. \<open>bookStep\<close> is the body of the loop. The source also hands the chunk indexes
  of the book to \<open>buildBookIndex\<close>, which does not read them; the model leaves that
  argument out.\<close>

definition bookStep ::
  "(BookIndex \<Rightarrow> nat) \<Rightarrow> clock \<Rightarrow> nat \<Rightarrow> Chunk list dict \<Rightarrow> BookIndex dict \<Rightarrow> nat \<times> Book \<Rightarrow>
   BookIndex dict" where
  "bookStep jsonLength clock t chunksMap =
     (\<lambda>bookIndexes (k, book).
        (let chunks = (case mapGet chunksMap (book_id book) of Some cs \<Rightarrow> cs | None \<Rightarrow> []);
             bookIndex = buildBookIndex (clock (t + k)) book chunks
         in mapSet (book_id book)
              (if estimateIndexSize jsonLength bookIndex > 200000 then compressBookIndex bookIndex
               else bookIndex) bookIndexes))"

definition buildBookIndexes ::
  "(BookIndex \<Rightarrow> nat) \<Rightarrow> clock \<Rightarrow> nat \<Rightarrow> Book list \<Rightarrow> Chunk list dict \<Rightarrow> BookIndex dict" where
  "buildBookIndexes jsonLength clock t bookList chunksMap =
     foldl (bookStep jsonLength clock t chunksMap) [] (enumerate 0 bookList)"

subsection \<open>Level 1: the Master Index\<close>

definition extractTopThemes :: "BookIndex \<Rightarrow> jsstring list" where
  "extractTopThemes bookIndex =
     map fst
       (take 10
          (sortByScoreDesc (\<lambda>e. real (snd e))
             (foldl (\<lambda>themeCounts (theme, chunkIds). recordSet theme (length chunkIds) themeCounts) []
                (bi_thematicMap bookIndex))))"

definition generateBookSummary :: "Book \<Rightarrow> BookIndex \<Rightarrow> jsstring" where
  "generateBookSummary book bookIndex =
     book_hebrewTitle book @ ascii '': '' @ showNat (length (bi_sections bookIndex))
     @ ascii '' sections, '' @ showNat (length (bi_chunks bookIndex))
     @ ascii '' chunks. Main themes: '' @ join (ascii '', '') (extractTopThemes bookIndex)"

definition updateGlobalSearchIndex ::
  "(jsstring \<times> nat) list dict \<Rightarrow> jsstring \<Rightarrow> BookIndex \<Rightarrow> (jsstring \<times> nat) list dict" where
  "updateGlobalSearchIndex index bookId bookIndex =
     (let withThemes =
            foldl (\<lambda>idx (theme, chunkIds). addToList theme (bookId, length chunkIds) idx) index
              (bi_thematicMap bookIndex);
          keywordCounts = countOccurrences (concat (map cr_keywords (bi_chunks bookIndex)))
      in foldl (\<lambda>idx (keyword, n). if n > 5 then addToList keyword (bookId, n) idx else idx) withThemes
           keywordCounts)"

definition updateGlobalThematicMap ::
  "BookReference list dict \<Rightarrow> jsstring \<Rightarrow> BookIndex \<Rightarrow> BookReference list dict" where
  "updateGlobalThematicMap m bookId bookIndex =
     foldl (\<lambda>m' (theme, chunkIds).
              addToList theme
                \<lparr>ref_bookId = bookId,
                 weight = ddiv (real (length chunkIds)) (real (length (bi_chunks bookIndex)))\<rparr> m')
       m (bi_thematicMap bookIndex)"

text \<open>The loop of \<open>buildMasterIndex\<close> over \<open>books\<close>; its state is \<open>bookSummaries\<close>,
  \<open>globalSearchIndex\<close>, \<open>globalThematicMap\<close> and \<open>totalTokens\<close>. A book without a
  Book Index is skipped.\<close>

fun masterLoop ::
  "BookIndex dict \<Rightarrow> Book list \<Rightarrow>
   BookSummary list \<times> (jsstring \<times> nat) list dict \<times> BookReference list dict \<times> int \<Rightarrow>
   BookSummary list \<times> (jsstring \<times> nat) list dict \<times> BookReference list dict \<times> int" where
  "masterLoop bookIndexes [] state = state"
| "masterLoop bookIndexes (book # rest) (bookSummaries, globalSearchIndex, globalThematicMap, tokens) =
     masterLoop bookIndexes rest
       (case mapGet bookIndexes (book_id book) of
          None \<Rightarrow> (bookSummaries, globalSearchIndex, globalThematicMap, tokens)
        | Some bookIndex \<Rightarrow>
            (bookSummaries @
               [\<lparr>bs_id = book_id book, bs_title = book_title book,
                 bs_hebrewTitle = book_hebrewTitle book,
                 bs_sections = length (bi_sections bookIndex), bs_chunks = length (bi_chunks bookIndex),
                 bs_totalTokens = bi_totalTokens bookIndex, bs_themes = extractTopThemes bookIndex,
                 bs_summary = generateBookSummary book bookIndex, keywordEmbeddings = Some []\<rparr>],
             updateGlobalSearchIndex globalSearchIndex (book_id book) bookIndex,
             updateGlobalThematicMap globalThematicMap (book_id book) bookIndex,
             tokens + bi_totalTokens bookIndex))"

definition compressMasterIndex :: "MasterIndex \<Rightarrow> MasterIndex" where
  "compressMasterIndex index =
     index\<lparr>books := map (\<lambda>b. b\<lparr>bs_summary := take 100 (bs_summary b), bs_themes := take 5 (bs_themes b)\<rparr>)
                       (books index),
           searchIndex := map (\<lambda>(keyword, refs). (keyword, take 10 refs)) (searchIndex index)\<rparr>"

definition buildMasterIndex ::
  "(MasterIndex \<Rightarrow> nat) \<Rightarrow> nat \<Rightarrow> Book list \<Rightarrow> BookIndex dict \<Rightarrow> MasterIndex" where
  "buildMasterIndex jsonLength now bookList bookIndexes =
     (case masterLoop bookIndexes bookList ([], [], [], 0) of
        (bookSummaries, globalSearchIndex, globalThematicMap, tokens) \<Rightarrow>
          (let masterIdx =
                 \<lparr>version = ascii ''1.0.0'', mi_created = now, totalBooks = length bookList,
                  mi_totalTokens = tokens, books = bookSummaries, searchIndex = globalSearchIndex,
                  thematicMap = globalThematicMap\<rparr>
           in if estimateIndexSize jsonLength masterIdx > 100000 then compressMasterIndex masterIdx
              else masterIdx))"

subsection \<open>All three levels\<close>

text \<open>
  \<open>buildAllIndexes\<close>: the Chunk Indexes first, then the Book Indexes, then the Master
  Index. The chunk indexes take the first clock readings, one per chunk, the book indexes
  the next, one per book, and the Master Index the last. The directory creation and the
  file writes around the three builds are not modelled; when one of them fails the call
  throws instead of returning.
\<close>

record AllIndexes =
  ai_masterIndex :: MasterIndex
  ai_bookIndexes :: "BookIndex dict"
  ai_chunkIndexes :: "ChunkIndex dict"

definition buildAllIndexes ::
  "(MasterIndex \<Rightarrow> nat) \<Rightarrow> (BookIndex \<Rightarrow> nat) \<Rightarrow> clock \<Rightarrow> Book list \<Rightarrow> Chunk list dict \<Rightarrow> AllIndexes" where
  "buildAllIndexes masterJsonLength bookJsonLength clock bookList chunksMap =
     (let chunkIdxs = buildChunkIndexes clock 0 chunksMap;
          bookIdxs = buildBookIndexes bookJsonLength clock (length (allChunks chunksMap)) bookList chunksMap;
          masterIdx = buildMasterIndex masterJsonLength
                        (clock (length (allChunks chunksMap) + length bookList)) bookList bookIdxs
      in \<lparr>ai_masterIndex = masterIdx, ai_bookIndexes = bookIdxs, ai_chunkIndexes = chunkIdxs\<rparr>)"

subsection \<open>Quantities used in the statements about the index builder\<close>

text \<open>An index with its build time stamp set to a fixed value: what two builds are
  compared on.\<close>

definition eraseBook :: "BookIndex \<Rightarrow> BookIndex" where
  "eraseBook b = b\<lparr>bi_created := 0\<rparr>"

definition eraseMaster :: "MasterIndex \<Rightarrow> MasterIndex" where
  "eraseMaster m = m\<lparr>mi_created := 0\<rparr>"

definition eraseBooks :: "BookIndex dict \<Rightarrow> BookIndex dict" where
  "eraseBooks m = map (\<lambda>(key, b). (key, eraseBook b)) m"

section \<open>Hierarchical router (hierarchicalRouter.ts)\<close>

subsection \<open>Data and state\<close>

record BookScore =
  bsc_bookId :: jsstring
  bsc_title :: jsstring
  score :: real
  reason :: jsstring

record SectionCandidate =
  sc_bookId :: jsstring
  sc_sectionId :: jsstring
  sc_score :: real
  sc_chunkIds :: "jsstring list"

text \<open>\<open>confidence\<close> is a JavaScript number: \<open>None\<close> stands for \<open>NaN\<close>.\<close>

record RouteResult =
  rr_query :: jsstring
  rr_books :: "BookScore list"
  rr_sections :: "SectionCandidate list"
  rr_chunks :: "Chunk list"
  totalTokens :: int
  confidence :: "real option"
  fromCache :: bool
  strategy :: jsstring

datatype Language = Hebrew | French | English

text \<open>
  The caller's \<open>SearchOptions\<close>, which \<open>route\<close> spreads over its defaults. An absent
  field leaves the default; a field that is present replaces it, also when its value is
  \<open>undefined\<close>, as in \<open>{ maxTokens: req.body.maxTokens }\<close> for a request without
  \<open>maxTokens\<close>.
\<close>

datatype 'a field = Absent | IsUndefined | Given 'a

record SearchOptions =
  so_maxTokens :: "int field"
  so_minConfidence :: "real field"
  so_language :: "Language field"
  so_useCache :: "bool field"

text \<open>
  The fields of the router object and the services it talks to: the loaded indexes, the
  chunk files on disk (\<open>None\<close> for a file that is missing or does not parse), the in-memory
  chunk cache, the Redis cache (\<open>None\<close> when Redis is not connected) and the embedding
  provider (\<open>None\<close> when there is no provider or the request fails). The Redis key of a
  query is \<open>route:\<close> followed by the MD5 digest of the query, and the cache of the model
  maps a query to the entry under its key. Writing the entry of one query is taken not to
  change the entry of another query, that is, the digests of the two to differ, and the
  expiry of entries after an hour is not modelled. Redis holds the JSON text of a result;
  the model holds the result, which \<open>JSON.parse\<close> gives back from that text when its
  numbers are finite.
\<close>

record RouterState =
  masterIndex :: "MasterIndex option"
  bookIndexes :: "jsstring \<Rightarrow> BookIndex option"
  chunkFiles :: "jsstring \<Rightarrow> jsstring \<Rightarrow> Chunk option"
  chunksCache :: "jsstring \<Rightarrow> Chunk option"
  redis :: "(jsstring \<Rightarrow> RouteResult option) option"
  embedder :: "jsstring \<Rightarrow> real list option"

definition MAX_CONTEXT_TOKENS :: int where
  "MAX_CONTEXT_TOKENS = 900000"

subsection \<open>Query keywords\<close>

text \<open>\<open>String.prototype.toLowerCase\<close> belongs to the engine and follows the Unicode
  tables of its version. It is a parameter \<open>toLowerCase\<close> of the functions that call it,
  so that what is proved of them holds for whatever the engine's function is.\<close>

text \<open>\<open>query.match(/[U+0590-U+05FF]+/g) || []\<close>: the maximal runs of units of the Hebrew
  block.\<close>

definition isHebrewBlock :: "nat \<Rightarrow> bool" where
  "isHebrewBlock c = (1424 \<le> c \<and> c \<le> 1535)"

fun hebrewRuns :: "jsstring \<Rightarrow> jsstring \<Rightarrow> jsstring list" where
  "hebrewRuns cur [] = (if cur = [] then [] else [cur])"
| "hebrewRuns cur (c # cs) =
     (if isHebrewBlock c then hebrewRuns (cur @ [c]) cs
      else if cur = [] then hebrewRuns [] cs
      else cur # hebrewRuns [] cs)"

definition themeMap :: "(jsstring \<times> jsstring list) list" where
  "themeMap =
     [(ascii ''joie'', [[1513, 1502, 1495, 1492], ascii ''simcha'']),
      ([112, 114, 105, 232, 114, 101], [[1514, 1508, 1497, 1500, 1492], ascii ''tefila'']),
      (ascii ''foi'', [[1488, 1502, 1493, 1504, 1492], ascii ''emuna'']),
      (ascii ''repentance'', [[1514, 1513, 1493, 1489, 1492], ascii ''teshuva'']),
      (ascii ''torah'', [[1514, 1493, 1512, 1492], ascii ''torah'']),
      (ascii ''tsadik'', [[1510, 1491, 1497, 1511], ascii ''tzadik'']),
      (ascii ''hitbodedout'', [[1492, 1514, 1489, 1493, 1491, 1491, 1493, 1514], ascii ''hitbodedut''])]"

definition detectThematicKeywords :: "(jsstring \<Rightarrow> jsstring) \<Rightarrow> jsstring \<Rightarrow> jsstring list" where
  "detectThematicKeywords toLowerCase query =
     concat (map snd (filter (\<lambda>(french, hebrew). js_includes (toLowerCase query) french) themeMap))"

definition extractQueryKeywords :: "(jsstring \<Rightarrow> jsstring) \<Rightarrow> jsstring \<Rightarrow> jsstring list" where
  "extractQueryKeywords toLowerCase query =
     (let words = filter (\<lambda>w. length w > 2) (splitWhitespace (toLowerCase query));
          hebrewKeywords = hebrewRuns [] query;
          thematicKeywords = detectThematicKeywords toLowerCase query
      in dedup (words @ hebrewKeywords @ thematicKeywords))"

subsection \<open>Level 1: the Master Index\<close>

text \<open>\<open>m.get(k) || 0\<close> on a \<open>Map<string, number>\<close>.\<close>

definition getOr0 :: "real dict \<Rightarrow> jsstring \<Rightarrow> real" where
  "getOr0 m k = (case mapGet m k of Some v \<Rightarrow> v | None \<Rightarrow> 0)"

text \<open>
  The lexical and the thematic pass read \<open>searchIndex[keyword]\<close> and
  \<open>thematicMap[keyword]\<close> and, when the value is truthy, iterate over it with \<open>for ... of\<close>.
  An array, also an empty one, is truthy. For a keyword that is no own property but a
  property name of \<open>Object.prototype\<close> the value is truthy and not iterable, and the loop
  throws a \<open>TypeError\<close>.
\<close>

fun addLexicalRefs :: "(jsstring \<times> nat) list \<Rightarrow> real dict \<Rightarrow> real dict" where
  "addLexicalRefs [] m = m"
| "addLexicalRefs ((bookId, count) # refs) m =
     addLexicalRefs refs (mapSet bookId (dadd (getOr0 m bookId) (ddiv (real count) 100)) m)"

fun lexicalLoop :: "MasterIndex \<Rightarrow> jsstring list \<Rightarrow> real dict \<Rightarrow> error + real dict" where
  "lexicalLoop mi [] m = Inr m"
| "lexicalLoop mi (keyword # rest) m =
     (case recordGet (searchIndex mi) keyword of
        Own bookRefs \<Rightarrow> lexicalLoop mi rest (addLexicalRefs bookRefs m)
      | Inherited \<Rightarrow> Inl TypeError
      | Undefined \<Rightarrow> lexicalLoop mi rest m)"

definition lexicalMatches :: "MasterIndex \<Rightarrow> jsstring list \<Rightarrow> error + real dict" where
  "lexicalMatches mi queryKeywords = lexicalLoop mi queryKeywords []"

fun addThematicRefs :: "BookReference list \<Rightarrow> real dict \<Rightarrow> real dict" where
  "addThematicRefs [] m = m"
| "addThematicRefs (r # refs) m =
     addThematicRefs refs (mapSet (ref_bookId r) (dadd (getOr0 m (ref_bookId r)) (weight r)) m)"

fun thematicLoop :: "MasterIndex \<Rightarrow> jsstring list \<Rightarrow> real dict \<Rightarrow> error + real dict" where
  "thematicLoop mi [] m = Inr m"
| "thematicLoop mi (keyword # rest) m =
     (case recordGet (thematicMap mi) keyword of
        Own bookRefs \<Rightarrow> thematicLoop mi rest (addThematicRefs bookRefs m)
      | Inherited \<Rightarrow> Inl TypeError
      | Undefined \<Rightarrow> thematicLoop mi rest m)"

definition thematicMatches :: "MasterIndex \<Rightarrow> jsstring list \<Rightarrow> error + real dict" where
  "thematicMatches mi queryKeywords = thematicLoop mi queryKeywords []"

text \<open>\<open>cosineSimilarity\<close>, with the three sums of its loop, each accumulated from 0 in
  the order of the components; \<open>Math.sqrt\<close> is the correctly rounded square root.\<close>

definition dotProduct :: "real list \<Rightarrow> real list \<Rightarrow> real" where
  "dotProduct v w = foldl (\<lambda>acc (x, y). dadd acc (dmul x y)) 0 (zip v w)"

definition cosineSimilarity :: "real list \<Rightarrow> real list \<Rightarrow> real" where
  "cosineSimilarity vec1 vec2 =
     (if length vec1 \<noteq> length vec2 then 0
      else
        (let norm1 = fl (sqrt (dotProduct vec1 vec1));
             norm2 = fl (sqrt (dotProduct vec2 vec2))
         in if norm1 = 0 \<or> norm2 = 0 then 0
            else ddiv (dotProduct vec1 vec2) (dmul norm1 norm2)))"

text \<open>\<open>Math.max(...xs)\<close> of a non-empty array, given as head and tail.\<close>

definition maxOf :: "real \<Rightarrow> real list \<Rightarrow> real" where
  "maxOf x xs = foldl max x xs"

text \<open>
  The semantic pass runs only behind the test
  \<open>queryEmbedding && this.masterIndex.books[0]?.keywordEmbeddings\<close>: a query embedding was
  obtained and the first book summary has a \<open>keywordEmbeddings\<close> field. An array is truthy
  even when it is empty, so the field only has to be present. Inside the pass a book gets a
  score when its own list is present and not empty.
\<close>

definition semanticGate :: "MasterIndex \<Rightarrow> real list option \<Rightarrow> bool" where
  "semanticGate mi queryEmbedding =
     (queryEmbedding \<noteq> None \<and>
      (case books mi of [] \<Rightarrow> False | first # _ \<Rightarrow> keywordEmbeddings first \<noteq> None))"

fun semanticLoop :: "real list \<Rightarrow> BookSummary list \<Rightarrow> real dict \<Rightarrow> real dict" where
  "semanticLoop q [] m = m"
| "semanticLoop q (book # rest) m =
     semanticLoop q rest
       (case keywordEmbeddings book of
          Some (emb # embs) \<Rightarrow>
            mapSet (bs_id book) (maxOf (cosineSimilarity q emb) (map (cosineSimilarity q) embs)) m
        | _ \<Rightarrow> m)"

definition semanticMatches :: "MasterIndex \<Rightarrow> real list option \<Rightarrow> real dict" where
  "semanticMatches mi queryEmbedding =
     (case queryEmbedding of
        Some q \<Rightarrow> if semanticGate mi queryEmbedding then semanticLoop q (books mi) [] else []
      | None \<Rightarrow> [])"

definition explainBookRelevance :: "BookSummary \<Rightarrow> real \<Rightarrow> real \<Rightarrow> real \<Rightarrow> jsstring" where
  "explainBookRelevance book lexicalScore thematicScore semanticScore =
     (let reasons =
            (if lexicalScore > fl (2 / 10) then [ascii ''Strong keyword match''] else [])
            @ (if thematicScore > fl (3 / 10)
               then [ascii ''Relevant themes: '' @ join (ascii '', '') (take 3 (bs_themes book))] else [])
            @ (if semanticScore > fl (5 / 10) then [ascii ''High semantic similarity''] else [])
      in if join (ascii ''; '') reasons = [] then ascii ''General relevance''
         else join (ascii ''; '') reasons)"

text \<open>The weighted combination of the three signals of one book id,
  \<open>(lexicalScore * 0.3) + (thematicScore * 0.3) + (semanticScore * 0.4)\<close>.\<close>

definition level1Score :: "real \<Rightarrow> real \<Rightarrow> real \<Rightarrow> real" where
  "level1Score lexicalScore thematicScore semanticScore =
     dadd (dadd (dmul lexicalScore (fl (3 / 10))) (dmul thematicScore (fl (3 / 10))))
       (dmul semanticScore (fl (4 / 10)))"

fun combineLoop ::
  "MasterIndex \<Rightarrow> real dict \<Rightarrow> real dict \<Rightarrow> real dict \<Rightarrow> jsstring list \<Rightarrow> BookScore list \<Rightarrow>
   BookScore list" where
  "combineLoop mi lexical thematic semantic [] bookScores = bookScores"
| "combineLoop mi lexical thematic semantic (bookId # rest) bookScores =
     combineLoop mi lexical thematic semantic rest
       (let totalScore = level1Score (getOr0 lexical bookId) (getOr0 thematic bookId) (getOr0 semantic bookId) in
        if totalScore > fl (1 / 10) then
          (case find (\<lambda>b. bs_id b = bookId) (books mi) of
             Some book \<Rightarrow>
               bookScores @
                 [\<lparr>bsc_bookId = bs_id book, bsc_title = bs_title book, score = totalScore,
                   reason = explainBookRelevance book (getOr0 lexical bookId) (getOr0 thematic bookId)
                              (getOr0 semantic bookId)\<rparr>]
           | None \<Rightarrow> bookScores)
        else bookScores)"

definition searchMasterIndex ::
  "MasterIndex option \<Rightarrow> real list option \<Rightarrow> jsstring list \<Rightarrow> error + BookScore list" where
  "searchMasterIndex master queryEmbedding queryKeywords =
     (case master of
        None \<Rightarrow> Inl MasterIndexNotLoaded
      | Some mi \<Rightarrow>
          (case lexicalMatches mi queryKeywords of
             Inl e \<Rightarrow> Inl e
           | Inr lexical \<Rightarrow>
               (case thematicMatches mi queryKeywords of
                  Inl e \<Rightarrow> Inl e
                | Inr thematic \<Rightarrow>
                    (let semantic = semanticMatches mi queryEmbedding;
                         allBookIds = dedup (map fst lexical @ map fst thematic @ map fst semantic)
                     in Inr (take 3 (sortByScoreDesc score
                                       (combineLoop mi lexical thematic semantic allBookIds [])))))))"

subsection \<open>Level 2: the Book Indexes\<close>

text \<open>The score of a section: from 0, \<open>score += keywordOverlap * 0.2\<close>,
  \<open>score += themeOverlap * 0.3\<close>, with both embeddings \<open>score += similarity * 0.5\<close>, and
  \<open>score *= book.score\<close>.\<close>

definition sectionScore :: "SectionInfo \<Rightarrow> BookScore \<Rightarrow> real list option \<Rightarrow> jsstring list \<Rightarrow> real" where
  "sectionScore section book queryEmbedding queryKeywords =
     (let keywordOverlap = length (filter (\<lambda>kw. kw \<in> set (si_keywords section)) queryKeywords);
          themeOverlap = length (filter (\<lambda>kw. kw \<in> set (si_themes section)) queryKeywords);
          lexical = dadd (dadd 0 (dmul (real keywordOverlap) (fl (2 / 10))))
                      (dmul (real themeOverlap) (fl (3 / 10)));
          withSemantic =
            (case (queryEmbedding, si_embedding section) of
               (Some q, Some e) \<Rightarrow> dadd lexical (dmul (cosineSimilarity q e) (fl (5 / 10)))
             | _ \<Rightarrow> lexical)
      in dmul withSemantic (score book))"

fun sectionLoop ::
  "BookScore \<Rightarrow> real list option \<Rightarrow> jsstring list \<Rightarrow> SectionInfo list \<Rightarrow> real dict \<Rightarrow> real dict" where
  "sectionLoop book q kws [] m = m"
| "sectionLoop book q kws (section # rest) m =
     sectionLoop book q kws rest
       (if sectionScore section book q kws > fl (1 / 10)
        then mapSet (si_id section) (sectionScore section book q kws) m else m)"

fun candidateLoop ::
  "jsstring \<Rightarrow> SectionInfo list \<Rightarrow> (jsstring \<times> real) list \<Rightarrow> SectionCandidate list \<Rightarrow>
   SectionCandidate list" where
  "candidateLoop bookId secs [] candidates = candidates"
| "candidateLoop bookId secs ((sectionId, sc) # rest) candidates =
     candidateLoop bookId secs rest
       (case find (\<lambda>s. si_id s = sectionId) secs of
          Some section \<Rightarrow>
            candidates @
              [\<lparr>sc_bookId = bookId, sc_sectionId = sectionId, sc_score = sc,
                sc_chunkIds = si_chunkIds section\<rparr>]
        | None \<Rightarrow> candidates)"

fun bookLoop ::
  "(jsstring \<Rightarrow> BookIndex option) \<Rightarrow> real list option \<Rightarrow> jsstring list \<Rightarrow> BookScore list \<Rightarrow>
   SectionCandidate list \<Rightarrow> SectionCandidate list" where
  "bookLoop indexes q kws [] candidates = candidates"
| "bookLoop indexes q kws (book # rest) candidates =
     bookLoop indexes q kws rest
       (case indexes (bsc_bookId book) of
          None \<Rightarrow> candidates
        | Some bookIndex \<Rightarrow>
            (let sectionScores = sectionLoop book q kws (bi_sections bookIndex) [];
                 topSections = take 5 (sortByScoreDesc snd sectionScores)
             in candidateLoop (bsc_bookId book) (bi_sections bookIndex) topSections candidates))"

definition searchBookIndexes ::
  "(jsstring \<Rightarrow> BookIndex option) \<Rightarrow> BookScore list \<Rightarrow> real list option \<Rightarrow> jsstring list \<Rightarrow>
   SectionCandidate list" where
  "searchBookIndexes indexes relevantBooks queryEmbedding queryKeywords =
     take 10 (sortByScoreDesc sc_score (bookLoop indexes queryEmbedding queryKeywords relevantBooks []))"

subsection \<open>Level 3: the chunks\<close>

text \<open>\<open>loadChunksForSection\<close>: the in-memory cache first, then the file; a chunk that
  cannot be loaded is skipped. The result is the list of chunks and the new cache.\<close>

fun loadChunksForSection ::
  "(jsstring \<Rightarrow> jsstring \<Rightarrow> Chunk option) \<Rightarrow> (jsstring \<Rightarrow> Chunk option) \<Rightarrow> jsstring \<Rightarrow> jsstring list \<Rightarrow>
   Chunk list \<Rightarrow> Chunk list \<times> (jsstring \<Rightarrow> Chunk option)" where
  "loadChunksForSection files cache bookId [] chunks = (chunks, cache)"
| "loadChunksForSection files cache bookId (chunkId # rest) chunks =
     (case cache chunkId of
        Some c \<Rightarrow> loadChunksForSection files cache bookId rest (chunks @ [c])
      | None \<Rightarrow>
          (case files bookId chunkId of
             Some c \<Rightarrow> loadChunksForSection files (cache(chunkId \<mapsto> c)) bookId rest (chunks @ [c])
           | None \<Rightarrow> loadChunksForSection files cache bookId rest chunks))"

text \<open>\<open>truncateChunk\<close>: the texts are cut at
  \<open>Math.floor(hebrew.length * (maxTokens / tokenCount))\<close> and the token count becomes the
  remaining budget.\<close>

definition truncateChunk :: "Chunk \<Rightarrow> int \<Rightarrow> Chunk" where
  "truncateChunk chunk budget =
     (let ratio = ddiv (real_of_int budget) (real_of_int (tokenCount chunk));
          hebrewLength = nat \<lfloor>dmul (real (length (hebrew chunk))) ratio\<rfloor>;
          cut = (\<lambda>t. if t = [] then None else Some (take hebrewLength t @ ascii ''...''))
      in chunk\<lparr>hebrew := take hebrewLength (hebrew chunk) @ ascii ''...'',
                english := (case english chunk of Some t \<Rightarrow> cut t | None \<Rightarrow> None),
                french := (case french chunk of Some t \<Rightarrow> cut t | None \<Rightarrow> None),
                tokenCount := budget\<rparr>)"

text \<open>
  The inner loop of \<open>retrieveChunks\<close> over the chunks of one candidate. The flag of the
  result says that the function returned from inside the loop. The argument \<open>maxTokens\<close>,
  here \<open>limit\<close>, is \<open>None\<close> when \<open>opts.maxTokens\<close> is \<open>undefined\<close>: the comparisons with it are then false, every
  chunk is added and no candidate ends the outer loop.
\<close>

fun addChunks :: "int option \<Rightarrow> Chunk list \<Rightarrow> Chunk list \<Rightarrow> int \<Rightarrow> bool \<times> Chunk list \<times> int" where
  "addChunks limit [] chunks running = (False, chunks, running)"
| "addChunks limit (chunk # rest) chunks running =
     (case limit of
        None \<Rightarrow> addChunks limit rest (chunks @ [chunk]) (running + tokenCount chunk)
      | Some budget \<Rightarrow>
          if running + tokenCount chunk > budget then
            (if budget - running > 10000
             then (True, chunks @ [truncateChunk chunk (budget - running)],
                   running + tokenCount (truncateChunk chunk (budget - running)))
             else (True, chunks, running))
          else addChunks limit rest (chunks @ [chunk]) (running + tokenCount chunk))"

text \<open>The outer loop over the candidates, which ends when
  \<open>totalTokens > maxTokens * 0.8\<close>.\<close>

definition enoughContext :: "int \<Rightarrow> int option \<Rightarrow> bool" where
  "enoughContext running limit =
     (case limit of
        None \<Rightarrow> False
      | Some budget \<Rightarrow> real_of_int running > dmul (real_of_int budget) (fl (8 / 10)))"

fun retrieveLoop ::
  "(jsstring \<Rightarrow> jsstring \<Rightarrow> Chunk option) \<Rightarrow> int option \<Rightarrow> SectionCandidate list \<Rightarrow>
   (jsstring \<Rightarrow> Chunk option) \<Rightarrow> Chunk list \<Rightarrow> int \<Rightarrow> Chunk list \<times> (jsstring \<Rightarrow> Chunk option)" where
  "retrieveLoop files limit [] cache chunks running = (chunks, cache)"
| "retrieveLoop files limit (candidate # rest) cache chunks running =
     (case loadChunksForSection files cache (sc_bookId candidate) (sc_chunkIds candidate) [] of
        (candidateChunks, cache') \<Rightarrow>
          (case addChunks limit candidateChunks chunks running of
             (returned, chunks', running') \<Rightarrow>
               if returned then (chunks', cache')
               else if enoughContext running' limit then (chunks', cache')
               else retrieveLoop files limit rest cache' chunks' running'))"

definition retrieveChunks ::
  "(jsstring \<Rightarrow> jsstring \<Rightarrow> Chunk option) \<Rightarrow> (jsstring \<Rightarrow> Chunk option) \<Rightarrow> SectionCandidate list \<Rightarrow>
   int option \<Rightarrow> Chunk list \<times> (jsstring \<Rightarrow> Chunk option)" where
  "retrieveChunks files cache candidates limit = retrieveLoop files limit candidates cache [] 0"

subsection \<open>Confidence\<close>

text \<open>\<open>calculateConfidence\<close>: three terms are added to 0 in turn. \<open>NaN\<close> is absorbing
  for \<open>+\<close> and \<open>*\<close>, and \<open>Math.min(NaN, 1)\<close> is \<open>NaN\<close>.\<close>

definition calculateConfidence ::
  "(jsstring \<Rightarrow> jsstring) \<Rightarrow> Chunk list \<Rightarrow> jsstring \<Rightarrow> jsstring list \<Rightarrow> real option" where
  "calculateConfidence toLowerCase chunks query queryKeywords =
     (if chunks = [] then Some 0
      else
        (let fromChunks = dadd 0 (dmul (min (ddiv (real (length chunks)) 10) 1) (fl (3 / 10)));
             allChunkKeywords = concat (map (\<lambda>c. extractQueryKeywords toLowerCase (hebrew c)) chunks);
             keywordCoverage =
               countRatio (length (filter (\<lambda>kw. kw \<in> set allChunkKeywords) queryKeywords))
                 (length queryKeywords);
             allThemes = concat (map themes chunks);
             themeAlignment =
               ddiv (real (length (filter (\<lambda>kw. kw \<in> set allThemes) queryKeywords)))
                 (real (max (length queryKeywords) 1))
         in case keywordCoverage of
              None \<Rightarrow> None
            | Some coverage \<Rightarrow>
                Some (min (dadd (dadd fromChunks (dmul coverage (fl (4 / 10))))
                             (dmul themeAlignment (fl (3 / 10)))) 1)))"

subsection \<open>Routing\<close>

definition createEmptyResult :: "jsstring \<Rightarrow> RouteResult" where
  "createEmptyResult query =
     \<lparr>rr_query = query, rr_books = [], rr_sections = [], rr_chunks = [], totalTokens = 0,
      confidence = Some 0, fromCache = False, strategy = ascii ''NoResults''\<rparr>"

text \<open>The options after the spread over the defaults: \<open>opts.maxTokens\<close>, which is
  \<open>None\<close> when it is \<open>undefined\<close>, and the truth value of \<open>opts.useCache\<close>.\<close>

definition maxTokensOf :: "SearchOptions \<Rightarrow> int option" where
  "maxTokensOf options =
     (case so_maxTokens options of
        Absent \<Rightarrow> Some MAX_CONTEXT_TOKENS | IsUndefined \<Rightarrow> None | Given m \<Rightarrow> Some m)"

definition useCacheOf :: "SearchOptions \<Rightarrow> bool" where
  "useCacheOf options =
     (case so_useCache options of Absent \<Rightarrow> True | IsUndefined \<Rightarrow> False | Given b \<Rightarrow> b)"

text \<open>The cache is consulted and written only under \<open>opts.useCache && this.redis\<close>.\<close>

definition getCachedResult :: "RouterState \<Rightarrow> jsstring \<Rightarrow> SearchOptions \<Rightarrow> RouteResult option" where
  "getCachedResult st query options =
     (if useCacheOf options then (case redis st of Some cache \<Rightarrow> cache query | None \<Rightarrow> None)
      else None)"

definition cacheResult :: "RouterState \<Rightarrow> jsstring \<Rightarrow> SearchOptions \<Rightarrow> RouteResult \<Rightarrow> RouterState" where
  "cacheResult st query options result =
     (if useCacheOf options
      then (case redis st of Some cache \<Rightarrow> st\<lparr>redis := Some (cache(query \<mapsto> result))\<rparr> | None \<Rightarrow> st)
      else st)"

text \<open>\<open>route\<close>: the result and the state after the call, or the exception that leaves
  the call.\<close>

definition route ::
  "(jsstring \<Rightarrow> jsstring) \<Rightarrow> RouterState \<Rightarrow> jsstring \<Rightarrow> SearchOptions \<Rightarrow> error + RouteResult \<times> RouterState" where
  "route toLowerCase st query options =
     (case getCachedResult st query options of
        Some cached \<Rightarrow> Inr (cached\<lparr>fromCache := True\<rparr>, st)
      | None \<Rightarrow>
          (let queryEmbedding = embedder st query;
               queryKeywords = extractQueryKeywords toLowerCase query
           in case searchMasterIndex (masterIndex st) queryEmbedding queryKeywords of
                Inl e \<Rightarrow> Inl e
              | Inr relevantBooks \<Rightarrow>
                  if relevantBooks = [] then Inr (createEmptyResult query, st)
                  else
                    (let sectionCandidates =
                           searchBookIndexes (bookIndexes st) relevantBooks queryEmbedding queryKeywords
                     in if sectionCandidates = [] then Inr (createEmptyResult query, st)
                        else
                          (case retrieveChunks (chunkFiles st) (chunksCache st) sectionCandidates
                                  (maxTokensOf options) of
                             (chunks, cache') \<Rightarrow>
                               (let result =
                                      \<lparr>rr_query = query, rr_books = relevantBooks,
                                       rr_sections = sectionCandidates, rr_chunks = chunks,
                                       totalTokens = foldl (\<lambda>sum c. sum + tokenCount c) 0 chunks,
                                       confidence = calculateConfidence toLowerCase chunks query queryKeywords,
                                       fromCache = False, strategy = ascii ''HierarchicalRouting''\<rparr>
                                in Inr (result,
                                        cacheResult (st\<lparr>chunksCache := cache'\<rparr>) query options result))))))"

subsection \<open>Quantities used in the statements about the router\<close>

text \<open>The total token count of a chunk list, as \<open>route\<close> computes it.\<close>

definition chunkTokens :: "Chunk list \<Rightarrow> int" where
  "chunkTokens chunks = foldl (\<lambda>sum c. sum + tokenCount c) 0 chunks"

section \<open>Example inputs\<close>

subsection \<open>Books\<close>

text \<open>A section the way the extractor numbers it, with a Hebrew text of \<open>len\<close> code units
  (the letter alef repeated).\<close>

definition exSection :: "nat \<Rightarrow> jsstring \<Rightarrow> nat \<Rightarrow> Section" where
  "exSection i title len =
     \<lparr>sec_id = ascii ''section_'' @ showNat i, sec_title = title, hebrewText = replicate len 1488,
      englishText = [], frenchText = [], reference = ascii ''Ref '' @ showNat (i + 1),
      sec_index = int i\<rparr>"

definition exBook :: "Section list \<Rightarrow> Book" where
  "exBook secs =
     \<lparr>book_id = ascii ''likutey_moharan_1'', book_title = ascii ''Likutey Moharan Part I'',
      book_hebrewTitle = [], sections = secs\<rparr>"

text \<open>Sections titled \<open>Section n\<close>, as every extraction strategy titles them.\<close>

definition exUnmarkedBook :: Book where
  "exUnmarkedBook = exBook [exSection 0 (ascii ''Section 1'') 24, exSection 1 (ascii ''Section 2'') 24]"

text \<open>An introduction followed by the first numbered teaching.\<close>

definition exLeadingBook :: Book where
  "exLeadingBook = exBook [exSection 0 (ascii ''Introduction'') 24, exSection 1 (ascii ''Torah 1'') 24]"


definition exSmallBook :: Book where
  "exSmallBook =
     exBook [exSection 0 (ascii ''Torah 1'') 24, exSection 1 (ascii ''Torah 2'') 20,
             exSection 2 (ascii ''Torah 3'') 24]"


definition exOpts :: ChunkingOptions where
  "exOpts = \<lparr>maxTokens = 10, minTokens = 6, overlapRatio = fl (1 / 10), preserveSemanticUnits = True\<rparr>"

definition noOptions :: PartialOptions where
  "noOptions =
     \<lparr>opt_maxTokens = None, opt_minTokens = None, opt_overlapRatio = None,
      opt_preserveSemanticUnits = None\<rparr>"

text \<open>A unit of one section of 12 estimated tokens, and a unit of three sections of 4.\<close>

definition exOversizeUnit :: SemanticUnit where
  "exOversizeUnit = newTorah 1 (exSection 0 (ascii ''Torah 1'') 48)"

definition exLongUnit :: SemanticUnit where
  "exLongUnit =
     \<lparr>unit_id = ascii ''unit_1'', unit_type = SectionUnit,
      unit_sections = [exSection 0 [] 16, exSection 1 [] 16, exSection 2 [] 16],
      unit_tokenCount = 12, unit_themes = []\<rparr>"

subsection \<open>Router states\<close>

text \<open>\<open>String.prototype.toLowerCase\<close> on texts of Latin-1 and Hebrew code units, which
  the queries and chunks of the examples are: the capital letters of Latin-1 move up by 32,
  every other unit is unchanged.\<close>

definition lowerUnit :: "nat \<Rightarrow> nat" where
  "lowerUnit c = (if (65 \<le> c \<and> c \<le> 90) \<or> (192 \<le> c \<and> c \<le> 222 \<and> c \<noteq> 215) then c + 32 else c)"

definition toLowerCaseLatin1 :: "jsstring \<Rightarrow> jsstring" where
  "toLowerCaseLatin1 s = map lowerUnit s"

text \<open>The Hebrew word for joy, a chunk of 60 tokens that consists of it, and the indexes
  of a corpus of one book, \<open>bookA\<close>, with one section and that chunk.\<close>

definition simcha :: jsstring where
  "simcha = [1513, 1502, 1495, 1492]"

definition exChunk :: Chunk where
  "exChunk =
     \<lparr>chunk_id = ascii ''bookA_chunk_0'', chunk_bookId = ascii ''bookA'',
      chunk_sectionId = ascii ''unit_1'', hebrew = simcha, english = None, french = None,
      chunk_reference = ascii ''Ref 1'', startIndex = 0, endIndex = 0, tokenCount = 60,
      themes = [simcha], citations = [], context_before = None, context_after = None,
      embedding = None\<rparr>"

definition exSummary :: "jsstring \<Rightarrow> real list list option \<Rightarrow> BookSummary" where
  "exSummary bookId embs =
     \<lparr>bs_id = bookId, bs_title = bookId, bs_hebrewTitle = [], bs_sections = 1, bs_chunks = 1,
      bs_totalTokens = 60, bs_themes = [simcha], bs_summary = [], keywordEmbeddings = embs\<rparr>"

definition exMaster :: "BookSummary list \<Rightarrow> MasterIndex" where
  "exMaster summaries =
     \<lparr>version = ascii ''1.0.0'', mi_created = 0, totalBooks = length summaries, mi_totalTokens = 60,
      books = summaries,
      searchIndex = [(simcha, [(ascii ''bookA'', 60)])],
      thematicMap = [(simcha, [\<lparr>ref_bookId = ascii ''bookA'', weight = 1\<rparr>])]\<rparr>"

definition exSectionInfo :: "real list option \<Rightarrow> SectionInfo" where
  "exSectionInfo emb =
     \<lparr>si_id = ascii ''unit_1'', si_title = ascii ''Section unit_1'', si_themes = [simcha],
      si_summary = [], si_chunkIds = [ascii ''bookA_chunk_0''], si_tokenCount = 60,
      si_keywords = [simcha], si_embedding = emb\<rparr>"

definition exBookIndex :: "real list option \<Rightarrow> BookIndex" where
  "exBookIndex emb =
     \<lparr>bi_bookId = ascii ''bookA'', bi_title = ascii ''bookA'', bi_hebrewTitle = [], bi_created = 0,
      bi_sections = [exSectionInfo emb], bi_hierarchy = [], bi_chunks = [], bi_thematicMap = [],
      crossReferences = [], bi_totalTokens = 60\<rparr>"

text \<open>A router with Redis connected and empty, no embedding provider, and indexes without
  embeddings as the index builder writes them.\<close>

definition exRouter :: RouterState where
  "exRouter =
     \<lparr>masterIndex = Some (exMaster [exSummary (ascii ''bookA'') (Some [])]),
      bookIndexes = [ascii ''bookA'' \<mapsto> exBookIndex None],
      chunkFiles = (\<lambda>bookId. if bookId = ascii ''bookA'' then [ascii ''bookA_chunk_0'' \<mapsto> exChunk] else Map.empty),
      chunksCache = Map.empty,
      redis = Some Map.empty,
      embedder = (\<lambda>q. None)\<rparr>"

text \<open>The same corpus after an embedding service has filled in the embeddings, with an
  embedding provider that maps every query to the vector \<open>(1, 0)\<close>, and without Redis.\<close>

definition exSemanticRouter :: RouterState where
  "exSemanticRouter =
     \<lparr>masterIndex = Some (exMaster [exSummary (ascii ''bookA'') (Some [[1, 0]])]),
      bookIndexes = [ascii ''bookA'' \<mapsto> exBookIndex (Some [1, 0])],
      chunkFiles = (\<lambda>bookId. if bookId = ascii ''bookA'' then [ascii ''bookA_chunk_0'' \<mapsto> exChunk] else Map.empty),
      chunksCache = Map.empty,
      redis = None,
      embedder = (\<lambda>q. Some [1, 0])\<rparr>"

text \<open>A Master Index of two books: the first has an empty \<open>keywordEmbeddings\<close> list, the
  second one embedding; and one where the first book has no \<open>keywordEmbeddings\<close> field.\<close>

definition exTwoBooks :: MasterIndex where
  "exTwoBooks = exMaster [exSummary (ascii ''bookA'') (Some []), exSummary (ascii ''bookB'') (Some [[1, 0]])]"

definition exFirstWithout :: MasterIndex where
  "exFirstWithout = exMaster [exSummary (ascii ''bookA'') None, exSummary (ascii ''bookB'') (Some [[1, 0]])]"

definition budget :: "int \<Rightarrow> SearchOptions" where
  "budget n =
     \<lparr>so_maxTokens = Given n, so_minConfidence = Absent, so_language = Absent, so_useCache = Absent\<rparr>"

definition noSearchOptions :: SearchOptions where
  "noSearchOptions =
     \<lparr>so_maxTokens = Absent, so_minConfidence = Absent, so_language = Absent, so_useCache = Absent\<rparr>"

text \<open>The Level-1 and Level-2 entries of \<open>bookA\<close> and the result and state of the first
  routed query \<open>joie\<close> on \<open>exRouter\<close>.\<close>

definition bookScoreA :: "real \<Rightarrow> jsstring \<Rightarrow> BookScore" where
  "bookScoreA s r = \<lparr>bsc_bookId = ascii ''bookA'', bsc_title = ascii ''bookA'', score = s, reason = r\<rparr>"

definition candA :: "real \<Rightarrow> SectionCandidate" where
  "candA s =
     \<lparr>sc_bookId = ascii ''bookA'', sc_sectionId = ascii ''unit_1'', sc_score = s,
      sc_chunkIds = [ascii ''bookA_chunk_0'']\<rparr>"

definition exRouteResult :: RouteResult where
  "exRouteResult =
     \<lparr>rr_query = ascii ''joie'',
      rr_books = [bookScoreA (fl (12 / 25)) (ascii ''Strong keyword match; Relevant themes: '' @ simcha)],
      rr_sections = [candA (fl (6 / 25))], rr_chunks = [exChunk], totalTokens = 60,
      confidence = Some (fl (79 / 300)), fromCache = False, strategy = ascii ''HierarchicalRouting''\<rparr>"

definition exRouterAfter :: RouterState where
  "exRouterAfter =
     exRouter\<lparr>chunksCache := [ascii ''bookA_chunk_0'' \<mapsto> exChunk],
              redis := Some [ascii ''joie'' \<mapsto> exRouteResult]\<rparr>"

subsection \<open>Index builds\<close>

text \<open>Two books \<open>bookA\<close> and \<open>bookB\<close> with one chunk each; both chunks consist of the
  same word and carry the same theme. Two clocks a day apart.\<close>

definition exChunkB :: Chunk where
  "exChunkB = exChunk\<lparr>chunk_id := ascii ''bookB_chunk_0'', chunk_bookId := ascii ''bookB''\<rparr>"

definition exChunksMap :: "Chunk list dict" where
  "exChunksMap = [(ascii ''bookA'', [exChunk]), (ascii ''bookB'', [exChunkB])]"

definition exBooks :: "Book list" where
  "exBooks =
     [\<lparr>book_id = ascii ''bookA'', book_title = ascii ''Book A'', book_hebrewTitle = [], sections = []\<rparr>,
      \<lparr>book_id = ascii ''bookB'', book_title = ascii ''Book B'', book_hebrewTitle = [], sections = []\<rparr>]"

definition exClock :: clock where
  "exClock k = 1700000000000 + k"

definition exLaterClock :: clock where
  "exLaterClock k = 1700086400000 + 2 * k"

text \<open>The Chunk Indexes of the two chunks after the related-chunk pass of a build at
  \<open>exClock\<close>.\<close>

definition exIndexA :: ChunkIndex where
  "exIndexA = (buildChunkIndex (exClock 0) exChunk)\<lparr>relatedChunks := [ascii ''bookB_chunk_0'']\<rparr>"

definition exIndexB :: ChunkIndex where
  "exIndexB = (buildChunkIndex (exClock 1) exChunkB)\<lparr>relatedChunks := [ascii ''bookA_chunk_0'']\<rparr>"








section \<open>Properties of the rounding\<close>

text \<open>The equations that evaluate \<open>fl\<close> on a given number.\<close>

lemmas fl_eval = fl_def expo_def expoUp.simps expoDown.simps pow2_def roundEven_def

lemmas double_eval = dadd_def dmul_def ddiv_def fl_eval

lemma fl_zero [simp]: "fl 0 = 0"
  by (simp add: fl_def)

lemma fl_one [simp]: "fl 1 = 1"
  by (simp add: fl_eval)

text \<open>The doubles of the decimal literals of the source: 0.1, 0.2, 0.3, 0.4, 0.5, 0.6 and
  0.8, with the fractions in lowest terms.\<close>

lemma fl_literals:
  "fl (1 / 10) = 3602879701896397 / 2 ^ 55"
  "fl (1 / 5) = 3602879701896397 / 2 ^ 54"
  "fl (3 / 10) = 5404319552844595 / 2 ^ 54"
  "fl (2 / 5) = 3602879701896397 / 2 ^ 53"
  "fl (1 / 2) = 1 / 2"
  "fl (3 / 5) = 5404319552844595 / 2 ^ 53"
  "fl (4 / 5) = 3602879701896397 / 2 ^ 52"
  by (simp_all add: fl_eval)

lemma pow2_pos [simp]: "0 < pow2 e"
  by (simp add: pow2_def)

lemma pow2_nonzero [simp]: "pow2 e \<noteq> 0"
  by (simp add: pow2_def)

lemma pow2_power_int: "pow2 e = power_int 2 e"
  by (simp add: pow2_def power_int_def power_inverse [symmetric] inverse_eq_divide power_one_over)

lemma pow2_diff: "pow2 (e - 52) = pow2 e / 2 ^ 52"
  by (simp add: pow2_power_int power_int_diff)

lemma roundEven_nonneg: "0 \<le> y \<Longrightarrow> 0 \<le> roundEven y"
  by (auto simp: roundEven_def)

lemma roundEven_le: "of_int (roundEven y) \<le> y + 1 / 2"
  unfolding roundEven_def by (auto simp: not_less) linarith+

text \<open>Rounding keeps the sign.\<close>

lemma fl_nonneg:
  assumes "0 \<le> x"
  shows "0 \<le> fl x"
proof (cases "x = 0")
  case True
  then show ?thesis by simp
next
  case False
  then have x: "0 < x" using assms by simp
  have "0 \<le> real_of_int (roundEven (x / pow2 (expo x - 52))) * pow2 (expo x - 52)"
    using x by (intro mult_nonneg_nonneg) (simp_all add: roundEven_nonneg less_imp_le)
  then show ?thesis using x by (simp add: fl_def)
qed

text \<open>\<open>expo\<close> finds a power of two that is not above its argument, so rounding moves a
  positive number up by at most the fraction \<open>2^-53\<close> of it.\<close>

lemma expoUp_le: "2 ^ k \<le> a \<Longrightarrow> 2 ^ expoUp a k \<le> a"
proof (induction a k rule: expoUp.induct)
  case (1 a k)
  show ?case
  proof (cases "a < 2 ^ (k + 1)")
    case True
    then show ?thesis using "1.prems" by (subst expoUp.simps) simp
  next
    case False
    then have "2 ^ expoUp a (k + 1) \<le> a" by (intro "1.IH") auto
    then show ?thesis using False by (subst expoUp.simps) simp
  qed
qed

lemma expoDown_le: "0 < a \<Longrightarrow> 1 \<le> a * 2 ^ expoDown a k"
proof (induction a k rule: expoDown.induct)
  case (1 a k)
  show ?case
  proof (cases "1 \<le> a * 2 ^ k")
    case True
    then show ?thesis by (subst expoDown.simps) simp
  next
    case False
    then have "1 \<le> a * 2 ^ expoDown a (k + 1)" using "1.prems" by (intro "1.IH") auto
    then show ?thesis using False "1.prems" by (subst expoDown.simps) simp
  qed
qed

lemma pow2_expo_le:
  assumes "0 < a"
  shows "pow2 (expo a) \<le> a"
proof (cases "1 \<le> a")
  case True
  then show ?thesis using expoUp_le[of 0 a] by (simp add: expo_def pow2_def)
next
  case False
  have "1 \<le> a * 2 ^ expoDown a 1" by (rule expoDown_le[OF assms])
  then have "1 / 2 ^ expoDown a 1 \<le> a" by (simp add: field_simps)
  moreover have "pow2 (- int (expoDown a 1)) = 1 / 2 ^ expoDown a 1"
    by (simp add: pow2_power_int power_int_minus inverse_eq_divide)
  ultimately show ?thesis using False by (simp add: expo_def)
qed

lemma fl_le:
  assumes "0 < x"
  shows "fl x \<le> x * (1 + 1 / 2 ^ 53)"
proof -
  let ?q = "pow2 (expo x - 52)"
  have q: "?q \<le> x / 2 ^ 52"
    using pow2_expo_le[OF assms] by (simp add: pow2_diff field_simps)
  have "of_int (roundEven (x / ?q)) * ?q \<le> (x / ?q + 1 / 2) * ?q"
    by (intro mult_right_mono roundEven_le) (simp add: less_imp_le)
  also have "\<dots> = x + ?q / 2"
    by (simp add: field_simps)
  also have "\<dots> \<le> x * (1 + 1 / 2 ^ 53)"
    using q by (simp add: field_simps)
  finally show ?thesis using assms by (simp add: fl_def less_imp_le)
qed

text \<open>
  \<open>expo\<close> is the exponent: for \<open>a > 0\<close> it is the one whole number \<open>e\<close> with
  \<open>2^e \<le> a < 2^(e + 1)\<close>. Hence a number with a significand of 53 bits is rounded to
  itself, and so is every value of \<open>fl\<close>.
\<close>

lemma pow2_mono: "m \<le> n \<Longrightarrow> pow2 m \<le> pow2 n"
  unfolding pow2_power_int by (rule power_int_increasing) simp_all

lemma pow2_less_imp: "pow2 m < pow2 n \<Longrightarrow> m < n"
  using pow2_mono[of n m] by (cases "m < n") auto

lemma pow2_Suc: "pow2 (e + 1) = 2 * pow2 e"
  by (simp add: pow2_power_int power_int_add)

lemma expoUp_upper: "a < 2 ^ (expoUp a k + 1)"
proof (induction a k rule: expoUp.induct)
  case (1 a k)
  show ?case
  proof (cases "a < 2 ^ (k + 1)")
    case True
    then show ?thesis by (subst expoUp.simps) simp
  next
    case False
    then have "a < 2 ^ (expoUp a (k + 1) + 1)" by (intro "1.IH") auto
    then show ?thesis using False by (subst expoUp.simps) simp
  qed
qed

lemma expoDown_upper: "0 < a \<Longrightarrow> 1 \<le> k \<Longrightarrow> a * 2 ^ (k - 1) < 1 \<Longrightarrow> a * 2 ^ (expoDown a k - 1) < 1"
proof (induction a k rule: expoDown.induct)
  case (1 a k)
  show ?case
  proof (cases "1 \<le> a * 2 ^ k")
    case True
    then show ?thesis using "1.prems" by (subst expoDown.simps) simp
  next
    case False
    then have "a * 2 ^ (expoDown a (k + 1) - 1) < 1"
      using "1.prems" by (intro "1.IH") auto
    then show ?thesis using False "1.prems" by (subst expoDown.simps) simp
  qed
qed

lemma expoDown_pos: "1 \<le> k \<Longrightarrow> 1 \<le> expoDown a k"
proof (induction a k rule: expoDown.induct)
  case (1 a k)
  show ?case
  proof (cases "a \<le> 0 \<or> 1 \<le> a * 2 ^ k")
    case True
    then show ?thesis using "1.prems" by (subst expoDown.simps) simp
  next
    case False
    then have "1 \<le> expoDown a (k + 1)" by (intro "1.IH") auto
    then show ?thesis using False by (subst expoDown.simps) simp
  qed
qed

lemma pow2_expo_upper:
  assumes "0 < a"
  shows "a < pow2 (expo a + 1)"
proof (cases "1 \<le> a")
  case True
  have "a < 2 ^ (expoUp a 0 + 1)" by (rule expoUp_upper)
  moreover have "pow2 (int (expoUp a 0) + 1) = 2 ^ (expoUp a 0 + 1)"
    by (simp add: pow2_def nat_add_distrib)
  ultimately show ?thesis using True by (simp add: expo_def)
next
  case False
  let ?k = "expoDown a 1"
  have k: "1 \<le> ?k" by (rule expoDown_pos) simp
  have "a * 2 ^ (?k - 1) < 1"
    using assms False by (intro expoDown_upper) auto
  then have "a < 1 / 2 ^ (?k - 1)" by (simp add: field_simps)
  moreover have "pow2 (- int ?k + 1) = 1 / 2 ^ (?k - 1)"
  proof (cases "?k = 1")
    case True
    then show ?thesis by (simp add: pow2_def)
  next
    case False
    then have "nat (int ?k - 1) = ?k - 1" "\<not> int ?k \<le> 1"
      using k by auto
    then show ?thesis by (simp add: pow2_def)
  qed
  ultimately show ?thesis using False by (simp add: expo_def)
qed

lemma expo_unique:
  assumes "pow2 e \<le> a" and "a < pow2 (e + 1)"
  shows "expo a = e"
proof -
  have a: "0 < a" using assms(1) pow2_pos[of e] by linarith
  have "pow2 (expo a) < pow2 (e + 1)"
    using pow2_expo_le[OF a] assms(2) by linarith
  then have 1: "expo a < e + 1" by (rule pow2_less_imp)
  have "pow2 e < pow2 (expo a + 1)"
    using pow2_expo_upper[OF a] assms(1) by linarith
  then have 2: "e < expo a + 1" by (rule pow2_less_imp)
  show ?thesis using 1 2 by simp
qed

lemma roundEven_of_int [simp]: "roundEven (of_int n) = n"
  by (simp add: roundEven_def)

lemma roundEven_zero [simp]: "roundEven 0 = 0"
  by (simp add: roundEven_def)

lemma roundEven_ge: "of_int n \<le> y \<Longrightarrow> n \<le> roundEven y"
  unfolding roundEven_def by (auto simp: le_floor_iff) linarith+

lemma roundEven_le_int:
  assumes "y \<le> of_int n"
  shows "roundEven y \<le> n"
proof (cases "y = of_int \<lfloor>y\<rfloor>")
  case True
  then have "roundEven y = \<lfloor>y\<rfloor>" by (simp add: roundEven_def)
  then show ?thesis using assms by (simp add: floor_le_iff)
next
  case False
  then have "of_int \<lfloor>y\<rfloor> < y" by (metis of_int_floor_le order_less_le)
  then have "of_int \<lfloor>y\<rfloor> < (of_int n :: real)" using assms by linarith
  then have "\<lfloor>y\<rfloor> < n" by simp
  then show ?thesis by (auto simp: roundEven_def)
qed

lemma fl_significand_less:
  assumes "2 ^ 52 \<le> n" and "n < 2 ^ 53"
  shows "fl (of_int n * pow2 (e - 52)) = of_int n * pow2 (e - 52)"
proof -
  let ?q = "pow2 (e - 52)" and ?a = "real_of_int n * pow2 (e - 52)"
  have n: "(2 :: real) ^ 52 \<le> of_int n" "real_of_int n < 2 ^ 53"
    using assms by (simp_all add: numeral_power_le_of_int_cancel_iff of_int_less_numeral_power_cancel_iff)
  have a: "0 < ?a" using n by (simp add: zero_less_mult_iff)
  have lo: "pow2 e \<le> ?a"
  proof -
    have "pow2 e = 2 ^ 52 * ?q" by (simp add: pow2_diff)
    also have "\<dots> \<le> ?a" using n by (intro mult_right_mono) (simp_all add: less_imp_le)
    finally show ?thesis .
  qed
  have hi: "?a < pow2 (e + 1)"
  proof -
    have "?a < 2 ^ 53 * ?q" using n by (intro mult_strict_right_mono) simp_all
    also have "\<dots> = pow2 (e + 1)" by (simp add: pow2_diff pow2_Suc)
    finally show ?thesis .
  qed
  have e: "expo ?a = e" by (rule expo_unique[OF lo hi])
  have "fl ?a = sgn ?a * (of_int (roundEven (\<bar>?a\<bar> / pow2 (expo \<bar>?a\<bar> - 52))) * pow2 (expo \<bar>?a\<bar> - 52))"
    using a by (simp add: fl_def)
  also have "\<bar>?a\<bar> = ?a" using a by simp
  also have "sgn ?a = 1" using a by simp
  finally show ?thesis by (simp add: e)
qed

lemma fl_significand:
  assumes "2 ^ 52 \<le> n" and "n \<le> 2 ^ 53"
  shows "fl (of_int n * pow2 (e - 52)) = of_int n * pow2 (e - 52)"
proof (cases "n = 2 ^ 53")
  case False
  then show ?thesis using assms by (intro fl_significand_less) auto
next
  case True
  have "fl (of_int (2 ^ 52) * pow2 (e + 1 - 52)) = of_int (2 ^ 52) * pow2 (e + 1 - 52)"
    by (rule fl_significand_less) simp_all
  moreover have "of_int n * pow2 (e - 52) = of_int (2 ^ 52) * pow2 (e + 1 - 52)"
    using pow2_Suc[of "e - 52"] by (simp add: True algebra_simps)
  ultimately show ?thesis by simp
qed

lemma fl_fl_pos:
  assumes "0 < x"
  shows "fl (fl x) = fl x"
proof -
  let ?q = "pow2 (expo x - 52)"
  let ?n = "roundEven (x / ?q)"
  have lo: "2 ^ 52 \<le> x / ?q"
    using pow2_expo_le[OF assms] by (simp add: pow2_diff field_simps)
  have hi: "x / ?q \<le> 2 ^ 53"
    using pow2_expo_upper[OF assms] pow2_Suc[of "expo x"] by (simp add: pow2_diff field_simps)
  have "2 ^ 52 \<le> ?n"
    by (rule roundEven_ge) (use lo in simp)
  moreover have "?n \<le> 2 ^ 53"
    by (rule roundEven_le_int) (use hi in simp)
  ultimately have "fl (of_int ?n * ?q) = of_int ?n * ?q"
    by (rule fl_significand)
  moreover have "fl x = of_int ?n * ?q"
    using assms by (simp add: fl_def)
  ultimately show ?thesis by simp
qed

lemma fl_minus: "fl (- x) = - fl x"
  by (simp add: fl_def sgn_minus)

text \<open>Rounding leaves a double as it is.\<close>

lemma fl_fl [simp]: "fl (fl x) = fl x"
proof (cases "0 < x")
  case True
  then show ?thesis by (rule fl_fl_pos)
next
  case False
  show ?thesis
  proof (cases "x = 0")
    case True
    then show ?thesis by simp
  next
    case False
    then have "0 < - x" using \<open>\<not> 0 < x\<close> by simp
    then have "fl (fl (- x)) = fl (- x)" by (rule fl_fl_pos)
    then show ?thesis by (simp add: fl_minus)
  qed
qed

lemma dmul_zero [simp]: "dmul 0 y = 0" "dmul x 0 = 0"
  by (simp_all add: dmul_def)

lemma dadd_zero [simp]: "dadd (fl x) 0 = fl x" "dadd 0 (fl x) = fl x"
  by (simp_all add: dadd_def)

text \<open>\<open>Math.floor(maxTokens * 0.8)\<close> is not above \<open>maxTokens\<close>.\<close>

lemma targetSize_le:
  assumes "0 \<le> maxTokens opts"
  shows "targetSize opts \<le> maxTokens opts"
proof (cases "maxTokens opts = 0")
  case True
  then show ?thesis by (simp add: targetSize_def dmul_def)
next
  case False
  let ?m = "real_of_int (maxTokens opts)"
  have m: "0 < ?m" using assms False by simp
  then have "fl (?m * fl (8 / 10)) \<le> ?m * fl (8 / 10) * (1 + 1 / 2 ^ 53)"
    by (intro fl_le) (simp add: fl_literals)
  also have "\<dots> \<le> ?m"
    using m by (simp add: fl_literals)
  finally have "\<lfloor>fl (?m * fl (8 / 10))\<rfloor> \<le> maxTokens opts"
    by (simp add: floor_le_iff)
  then show ?thesis by (simp add: targetSize_def dmul_def)
qed


section \<open>Verification of the semantic chunker\<close>

subsection \<open>Evaluation on the example inputs\<close>

lemma exSection_simps [simp]:
  "sec_title (exSection i title len) = title"
  "hebrewText (exSection i title len) = replicate len 1488"
  by (simp_all add: exSection_def)

lemma estimateTokens_replicate [simp]: "estimateTokens (replicate n c) = (int n + 3) div 4"
  by (simp add: estimateTokens_def)

lemma likutey_moharan_id [simp]:
  "js_includes (ascii ''likutey_moharan_1'') (ascii ''likutey_moharan'')"
  by (simp add: ascii_def)

lemma isTorahStart_numbered [simp]:
  "isTorahStart (exSection i (ascii ''Torah 1'') len)"
  "isTorahStart (exSection i (ascii ''Torah 2'') len)"
  "isTorahStart (exSection i (ascii ''Torah 3'') len)"
  "isTorahStart (exSection i (ascii ''Torah 4'') len)"
  by (simp_all add: isTorahStart_def testHeading_def ascii_def isSpace_def isDigit_def)

lemma isTorahStart_unnumbered [simp]:
  "\<not> isTorahStart (exSection i (ascii ''Section 1'') len)"
  "\<not> isTorahStart (exSection i (ascii ''Section 2'') len)"
  "\<not> isTorahStart (exSection i (ascii ''Introduction'') len)"
  by (simp_all add: isTorahStart_def testHeading_def ascii_def)

text \<open>The cut position of an overlap context is computed in doubles: for a text of 88
  code units (22 tokens) and 15 tokens left, \<open>15 / 22\<close> is rounded down and
  \<open>88 * (15 / 22)\<close> is 59.99999999999999, so 59 units are taken, not 60.\<close>

lemma cutLength_rounding: "cutLength (replicate 88 1488) 15 0 = 59"
  by (simp add: cutLength_def double_eval)

subsection \<open>Splitting a large unit\<close>

lemma estimateTokens_nonneg: "0 \<le> estimateTokens t"
  by (simp add: estimateTokens_def)

lemma sectionTokens_nonneg: "0 \<le> sectionTokens secs"
  by (induction secs) (auto simp: sectionTokens_def estimateTokens_nonneg)

lemma sectionTokens_append: "sectionTokens (xs @ ys) = sectionTokens xs + sectionTokens ys"
  by (simp add: sectionTokens_def)

lemma sectionTokens_single: "sectionTokens [s] = estimateTokens (hebrewText s)"
  by (simp add: sectionTokens_def)

lemma splitLoop_sections:
  "splitLoop u t secs chunks cur tok = (chunks', cur', tok') \<Longrightarrow>
   concat (map unit_sections chunks') @ cur' = concat (map unit_sections chunks) @ cur @ secs"
proof (induction secs arbitrary: chunks cur tok)
  case Nil
  then show ?case by simp
next
  case (Cons s rest)
  then show ?case
    by (auto simp: Let_def splitPart_def split: if_splits)
qed

lemma splitLargeUnit_sections:
  "concat (map unit_sections (splitLargeUnit u opts)) = unit_sections u"
proof -
  obtain chunks cur tok where r: "splitLoop u (targetSize opts) (unit_sections u) [] [] 0 = (chunks, cur, tok)"
    by (metis prod_cases3)
  from splitLoop_sections[OF r] show ?thesis
    by (auto simp add: splitLargeUnit_def r splitPart_def)
qed

lemma splitLoop_parts:
  "splitLoop u t secs chunks cur tok = (chunks', cur', tok') \<Longrightarrow>
   list_all (partOk t) chunks \<Longrightarrow> tok = sectionTokens cur \<Longrightarrow> (tok \<le> t \<or> length cur \<le> 1) \<Longrightarrow>
   list_all (partOk t) chunks' \<and> tok' = sectionTokens cur' \<and> (tok' \<le> t \<or> length cur' \<le> 1)"
proof (induction secs arbitrary: chunks cur tok)
  case Nil
  then show ?case by auto
next
  case (Cons s rest)
  let ?n = "estimateTokens (hebrewText s)"
  show ?case
  proof (cases "tok + ?n > t \<and> cur \<noteq> []")
    case True
    then have r: "splitLoop u t rest (chunks @ [splitPart u (length chunks + 1) cur tok]) [s] ?n = (chunks', cur', tok')"
      using Cons.prems(1) by (simp add: Let_def)
    have p: "partOk t (splitPart u (length chunks + 1) cur tok)"
      using True Cons.prems(3,4) by (cases cur) (auto simp: partOk_def splitPart_def)
    show ?thesis
      by (rule Cons.IH[OF r]) (use p Cons.prems(2) in \<open>auto simp: sectionTokens_single\<close>)
  next
    case False
    then have r: "splitLoop u t rest chunks (cur @ [s]) (tok + ?n) = (chunks', cur', tok')"
      using Cons.prems(1) by (auto simp add: Let_def)
    have b: "tok + ?n \<le> t \<or> length (cur @ [s]) \<le> 1"
      using False by auto
    show ?thesis
      by (rule Cons.IH[OF r]) (use b Cons.prems(2,3) in \<open>auto simp: sectionTokens_append sectionTokens_single\<close>)
  qed
qed

lemma splitLargeUnit_parts: "list_all (partOk (targetSize opts)) (splitLargeUnit u opts)"
proof -
  obtain chunks cur tok where r: "splitLoop u (targetSize opts) (unit_sections u) [] [] 0 = (chunks, cur, tok)"
    by (metis prod_cases3)
  have "list_all (partOk (targetSize opts)) chunks \<and> tok = sectionTokens cur \<and> (tok \<le> targetSize opts \<or> length cur \<le> 1)"
    by (rule splitLoop_parts[OF r]) (auto simp: sectionTokens_def)
  then show ?thesis
    by (cases cur) (auto simp add: splitLargeUnit_def r splitPart_def partOk_def)
qed

lemma sectionTokens_concat: "sectionTokens (concat xss) = sum_list (map sectionTokens xss)"
  by (induction xss) (auto simp: sectionTokens_append sectionTokens_def)

lemma splitLargeUnit_total:
  "sum_list (map unit_tokenCount (splitLargeUnit u opts)) = sectionTokens (unit_sections u)"
proof -
  have "map unit_tokenCount (splitLargeUnit u opts) = map sectionTokens (map unit_sections (splitLargeUnit u opts))"
    using splitLargeUnit_parts[of opts u] by (auto simp: list_all_iff partOk_def)
  then have "sum_list (map unit_tokenCount (splitLargeUnit u opts)) 
      = sectionTokens (concat (map unit_sections (splitLargeUnit u opts)))"
    by (simp only: sectionTokens_concat)
  then show ?thesis
    by (simp only: splitLargeUnit_sections)
qed

text \<open>
  \<open>splitLargeUnit\<close> cuts between sections. For a unit whose token count is the summed
  estimate of its sections and exceeds \<open>maxTokens\<close>, and none of whose sections alone
  exceeds the target \<open>Math.floor(maxTokens * 0.8)\<close>, it yields at least two sub-units, each
  within the target, whose sections concatenated in order are the sections of the unit.
\<close>

lemma splitLargeUnit_small_sections:
  assumes small: "\<forall>s \<in> set (unit_sections u). estimateTokens (hebrewText s) \<le> targetSize opts"
    and wf: "unit_tokenCount u = sectionTokens (unit_sections u)"
    and large: "unit_tokenCount u > maxTokens opts"
    and pos: "0 \<le> maxTokens opts"
  shows "2 \<le> length (splitLargeUnit u opts)
       \<and> (\<forall>p \<in> set (splitLargeUnit u opts). unit_tokenCount p \<le> targetSize opts)
       \<and> concat (map unit_sections (splitLargeUnit u opts)) = unit_sections u"
proof -
  let ?ps = "splitLargeUnit u opts"
  have secs: "concat (map unit_sections ?ps) = unit_sections u"
    by (rule splitLargeUnit_sections)
  have cap: "unit_tokenCount p \<le> targetSize opts" if p: "p \<in> set ?ps" for p
  proof -
    have ok: "partOk (targetSize opts) p"
      using splitLargeUnit_parts[of opts u] p by (simp add: list_all_iff)
    show ?thesis
    proof (cases "unit_tokenCount p \<le> targetSize opts")
      case True then show ?thesis .
    next
      case False
      then obtain s where s: "unit_sections p = [s]"
        using ok by (auto simp: partOk_def length_Suc_conv)
      have "s \<in> set (concat (map unit_sections ?ps))"
        using p s by (auto intro!: bexI[of _ p])
      then have "estimateTokens (hebrewText s) \<le> targetSize opts"
        using small secs by simp
      then show ?thesis
        using ok s by (simp add: partOk_def sectionTokens_single)
    qed
  qed
  have tle: "targetSize opts \<le> maxTokens opts"
    by (rule targetSize_le[OF pos])
  have total: "sum_list (map unit_tokenCount ?ps) > maxTokens opts"
    using splitLargeUnit_total[of u opts] wf large by simp
  have "2 \<le> length ?ps"
  proof (cases ?ps)
    case Nil
    then show ?thesis using total pos by simp
  next
    case (Cons p qs)
    show ?thesis
    proof (cases qs)
      case Nil
      then have "unit_tokenCount p > maxTokens opts"
        using total Cons by simp
      moreover have "unit_tokenCount p \<le> targetSize opts"
        using cap[of p] Cons by simp
      ultimately show ?thesis using tle by simp
    next
      case (Cons q rs)
      then show ?thesis using \<open>?ps = p # qs\<close> by simp
    qed
  qed
  then show ?thesis using cap secs by blast
qed

lemma targetSize_exOpts [simp]: "targetSize exOpts = 8"
  by (simp add: targetSize_def exOpts_def double_eval)

text \<open>
  Claim C4 (the code departs from it). \<open>exOversizeUnit\<close> is a unit of one section whose
  token estimate, 12, exceeds \<open>maxTokens = 10\<close>; the target of a sub-unit is 8. The loop of
  \<open>splitLargeUnit\<close> ends a sub-unit only before a section and never cuts inside one: the
  unit comes back as a single sub-unit with the whole section and 12 tokens, renamed
  \<open>torah_1_part1\<close>.
\<close>

theorem splitLargeUnit_returns_oversize_section:
  "unit_sections exOversizeUnit = [exSection 0 (ascii ''Torah 1'') 48]
   \<and> unit_tokenCount exOversizeUnit = 12
   \<and> maxTokens exOpts = 10
   \<and> targetSize exOpts = 8
   \<and> splitLargeUnit exOversizeUnit exOpts =
       [exOversizeUnit\<lparr>unit_id := unit_id exOversizeUnit @ ascii ''_part1''\<rparr>]"
  by (simp add: exOversizeUnit_def newTorah_def splitLargeUnit_def splitPart_def Let_def showNat.simps
      ascii_def)
    (simp add: exOpts_def)

text \<open>A unit of three 4-token sections with \<open>maxTokens = 10\<close>: the sub-units hold 8 and 4
  tokens.\<close>

lemma splitLargeUnit_small_sections_example:
  "2 \<le> length (splitLargeUnit exLongUnit exOpts)
   \<and> list_all (\<lambda>p. unit_tokenCount p \<le> 8) (splitLargeUnit exLongUnit exOpts)
   \<and> map unit_tokenCount (splitLargeUnit exLongUnit exOpts) = [8, 4]
   \<and> concat (map unit_sections (splitLargeUnit exLongUnit exOpts)) = unit_sections exLongUnit"
proof -
  have small: "\<forall>s \<in> set (unit_sections exLongUnit). estimateTokens (hebrewText s) \<le> targetSize exOpts"
    by (simp add: exLongUnit_def)
  have wf: "unit_tokenCount exLongUnit = sectionTokens (unit_sections exLongUnit)"
    by (simp add: exLongUnit_def sectionTokens_def)
  have large: "unit_tokenCount exLongUnit > maxTokens exOpts"
    by (simp add: exLongUnit_def exOpts_def)
  have pos: "0 \<le> maxTokens exOpts"
    by (simp add: exOpts_def)
  have counts: "map unit_tokenCount (splitLargeUnit exLongUnit exOpts) = [8, 4]"
    by (simp add: exLongUnit_def splitLargeUnit_def splitPart_def Let_def)
  show ?thesis
    using splitLargeUnit_small_sections [OF small wf large pos] counts by (simp add: list_all_iff)
qed

subsection \<open>Grouping units\<close>

lemma extractCitations_throws: "extractCitations text = Inl TypeError"
  by (simp add: extractCitations_def matchAll_def)

lemma createChunk_throws: "createChunk md5hex bookId units i prevUnits nextUnits opts = Inl TypeError"
  by (simp add: createChunk_def extractCitations_throws Let_def)

lemma chunkBook_result:
  "chunkBook md5hex book options =
     (if groupedUnits book (mergeOptions options) = [] then Inr [] else Inl TypeError)"
  by (simp add: chunkBook_def chunkLoop.simps[of _ _ _ _ 0] createChunk_throws)

text \<open>\<open>chunkBook\<close> returns a chunk for no book: it returns the empty list when there is
  no group and throws otherwise.\<close>

lemma chunkBook_returns_no_chunk:
  "chunkBook md5hex book options = Inr chunks \<Longrightarrow> chunks = []"
  by (simp add: chunkBook_result split: if_splits)

lemma groupTokens_sum: "groupTokens g = sum_list (map unit_tokenCount g)"
proof -
  have "foldl (\<lambda>sum u. sum + unit_tokenCount u) a g = a + sum_list (map unit_tokenCount g)" for a
    by (induction g arbitrary: a) auto
  then show ?thesis by (simp add: groupTokens_def)
qed

lemma groupTokens_simps [simp]:
  "groupTokens [] = 0" "groupTokens [u] = unit_tokenCount u"
  "groupTokens (g @ h) = groupTokens g + groupTokens h"
  by (simp_all add: groupTokens_sum)

lemma splitLargeUnit_within:
  assumes small: "\<forall>s \<in> set (unit_sections u). estimateTokens (hebrewText s) \<le> maxTokens opts"
    and pos: "0 \<le> maxTokens opts"
  shows "list_all (\<lambda>p. unit_tokenCount p \<le> maxTokens opts) (splitLargeUnit u opts)"
proof -
  have tle: "targetSize opts \<le> maxTokens opts"
    by (rule targetSize_le[OF pos])
  have "unit_tokenCount p \<le> maxTokens opts" if p: "p \<in> set (splitLargeUnit u opts)" for p
  proof -
    have ok: "partOk (targetSize opts) p"
      using splitLargeUnit_parts[of opts u] p by (simp add: list_all_iff)
    show ?thesis
    proof (cases "unit_tokenCount p \<le> targetSize opts")
      case True then show ?thesis using tle by simp
    next
      case False
      then obtain s where s: "unit_sections p = [s]"
        using ok by (auto simp: partOk_def length_Suc_conv)
      have "s \<in> set (concat (map unit_sections (splitLargeUnit u opts)))"
        using p s by (auto intro!: bexI[of _ p])
      then have "estimateTokens (hebrewText s) \<le> maxTokens opts"
        using small by (simp add: splitLargeUnit_sections)
      then show ?thesis
        using ok s by (simp add: partOk_def sectionTokens_single)
    qed
  qed
  then show ?thesis by (simp add: list_all_iff)
qed

lemma groupLoop_within:
  "groupLoop opts units groups cur tok = (groups', cur', tok') \<Longrightarrow>
   \<forall>u \<in> set units. \<forall>s \<in> set (unit_sections u). estimateTokens (hebrewText s) \<le> maxTokens opts \<Longrightarrow>
   0 \<le> maxTokens opts \<Longrightarrow>
   list_all (fitsBudget opts) groups \<Longrightarrow> tok = groupTokens cur \<Longrightarrow> tok \<le> maxTokens opts \<Longrightarrow>
   list_all (fitsBudget opts) groups' \<and> tok' = groupTokens cur' \<and> tok' \<le> maxTokens opts"
proof (induction units arbitrary: groups cur tok)
  case Nil
  then show ?case by auto
next
  case (Cons u rest)
  have rest: "\<forall>u \<in> set rest. \<forall>s \<in> set (unit_sections u). estimateTokens (hebrewText s) \<le> maxTokens opts"
    using Cons.prems(2) by simp
  have cur: "fitsBudget opts cur" using Cons.prems(5,6) by (simp add: fitsBudget_def)
  consider (large) "unit_tokenCount u > maxTokens opts"
    | (full) "\<not> unit_tokenCount u > maxTokens opts" "tok + unit_tokenCount u > maxTokens opts"
    | (fits) "\<not> unit_tokenCount u > maxTokens opts" "\<not> tok + unit_tokenCount u > maxTokens opts"
    by blast
  then show ?case
  proof cases
    case large
    let ?g = "(if cur \<noteq> [] then groups @ [cur] else groups) @ map (\<lambda>p. [p]) (splitLargeUnit u opts)"
    let ?t = "if cur \<noteq> [] then 0 else tok"
    have r: "groupLoop opts rest ?g [] ?t = (groups', cur', tok')"
      using Cons.prems(1) large by simp
    have parts: "list_all (\<lambda>p. unit_tokenCount p \<le> maxTokens opts) (splitLargeUnit u opts)"
      using splitLargeUnit_within[of u opts] Cons.prems(2,3) by simp
    have g: "list_all (fitsBudget opts) ?g"
      using Cons.prems(4) cur parts by (auto simp: list_all_iff fitsBudget_def)
    have t: "?t = groupTokens []" "?t \<le> maxTokens opts"
      using Cons.prems(3,5) by auto
    show ?thesis
      by (rule Cons.IH[OF r rest Cons.prems(3) g t])
  next
    case full
    have r: "groupLoop opts rest (if cur \<noteq> [] then groups @ [cur] else groups) [u] (unit_tokenCount u) = (groups', cur', tok')"
      using Cons.prems(1) full by simp
    have g: "list_all (fitsBudget opts) (if cur \<noteq> [] then groups @ [cur] else groups)"
      using Cons.prems(4) cur by simp
    show ?thesis
      by (rule Cons.IH[OF r rest Cons.prems(3) g]) (use full in auto)
  next
    case fits
    have r: "groupLoop opts rest groups (cur @ [u]) (tok + unit_tokenCount u) = (groups', cur', tok')"
      using Cons.prems(1) fits by simp
    show ?thesis
      by (rule Cons.IH[OF r rest Cons.prems(3,4)]) (use fits Cons.prems(5) in auto)
  qed
qed

lemma groupUnitsIntoChunks_within:
  assumes small: "\<forall>u \<in> set units. \<forall>s \<in> set (unit_sections u). estimateTokens (hebrewText s) \<le> maxTokens opts"
    and pos: "0 \<le> maxTokens opts"
  shows "list_all (fitsBudget opts) (groupUnitsIntoChunks units opts)"
proof -
  obtain groups cur tok where r: "groupLoop opts units [] [] 0 = (groups, cur, tok)"
    by (metis prod_cases3)
  have inv: "list_all (fitsBudget opts) groups \<and> tok = groupTokens cur \<and> tok \<le> maxTokens opts"
    by (rule groupLoop_within[OF r small pos]) (use pos in auto)
  have last: "fitsBudget opts (last groups)" if "groups \<noteq> []"
    using inv that by (simp add: list_all_iff)
  have butlast: "list_all (fitsBudget opts) (butlast groups)"
    using inv by (auto simp: list_all_iff dest: in_set_butlastD)
  show ?thesis
    using inv butlast by (auto simp: groupUnitsIntoChunks_def r fitsBudget_def)
qed

lemma unitLoop_subset:
  assumes new: "\<And>n s. unit_sections (newUnit n s) = [s]"
  shows "\<forall>u \<in> set units. set (unit_sections u) \<subseteq> A \<Longrightarrow>
   (case current of Some c \<Rightarrow> set (unit_sections c) \<subseteq> A | None \<Rightarrow> True) \<Longrightarrow>
   set secs \<subseteq> A \<Longrightarrow>
   \<forall>u \<in> set (unitLoop isStart newUnit secs units current). set (unit_sections u) \<subseteq> A"
proof (induction secs arbitrary: units current)
  case Nil
  then show ?case by (auto split: option.splits)
next
  case (Cons s rest)
  show ?case
  proof (cases "isStart s")
    case True
    let ?units' = "case current of Some c \<Rightarrow> units @ [c] | None \<Rightarrow> units"
    have u: "\<forall>u \<in> set ?units'. set (unit_sections u) \<subseteq> A"
      using Cons.prems(1,2) by (auto split: option.splits)
    have "\<forall>u \<in> set (unitLoop isStart newUnit rest ?units' (Some (newUnit (length ?units' + 1) s))). set (unit_sections u) \<subseteq> A"
      by (rule Cons.IH[OF u]) (use Cons.prems(3) new in auto)
    then show ?thesis using True by (simp add: Let_def)
  next
    case False
    show ?thesis
    proof (cases current)
      case None
      have "\<forall>u \<in> set (unitLoop isStart newUnit rest units None). set (unit_sections u) \<subseteq> A"
        by (rule Cons.IH[OF Cons.prems(1)]) (use Cons.prems(3) in auto)
      then show ?thesis using False None by simp
    next
      case (Some c)
      let ?c = "c\<lparr>unit_sections := unit_sections c @ [s],
                  unit_tokenCount := unit_tokenCount c + estimateTokens (hebrewText s)\<rparr>"
      have "\<forall>u \<in> set (unitLoop isStart newUnit rest units (Some ?c)). set (unit_sections u) \<subseteq> A"
        by (rule Cons.IH[OF Cons.prems(1)]) (use Cons.prems(2,3) Some in auto)
      then show ?thesis using False Some by simp
    qed
  qed
qed

lemma defaultLoop_Nil: "defaultLoop [] units = units"
  by (simp add: defaultLoop.simps[of "[]"])

lemma defaultLoop_step:
  "secs \<noteq> [] \<Longrightarrow> defaultLoop secs units =
     defaultLoop (drop 10 secs) (units @ [newDefaultUnit (length units + 1) (take 10 secs)])"
  by (subst defaultLoop.simps) simp

lemma allSections_simps [simp]:
  "allSections [] = []" "allSections (g @ h) = allSections g @ allSections h"
  "allSections [u] = unit_sections u"
  by (simp_all add: allSections_def)

lemma defaultLoop_subset:
  "\<forall>u \<in> set units. set (unit_sections u) \<subseteq> A \<Longrightarrow> set secs \<subseteq> A \<Longrightarrow>
   \<forall>u \<in> set (defaultLoop secs units). set (unit_sections u) \<subseteq> A"
proof (induction secs units rule: defaultLoop.induct)
  case (1 secs units)
  show ?case
  proof (cases "secs = []")
    case True
    then show ?thesis using "1.prems"(1) by (simp add: defaultLoop_Nil)
  next
    case False
    have t: "set (take 10 secs) \<subseteq> A" "set (drop 10 secs) \<subseteq> A"
      using "1.prems"(2) by (meson set_take_subset set_drop_subset subset_trans)+
    have "\<forall>u \<in> set (defaultLoop (drop 10 secs) (units @ [newDefaultUnit (length units + 1) (take 10 secs)])). set (unit_sections u) \<subseteq> A"
      by (rule "1.IH"[OF False]) (use "1.prems"(1) t in \<open>auto simp: newDefaultUnit_def\<close>)
    then show ?thesis using False by (simp add: defaultLoop_step)
  qed
qed

lemma identifySemanticUnits_subset:
  "\<forall>u \<in> set (identifySemanticUnits book). set (unit_sections u) \<subseteq> set (sections book)"
proof -
  have t: "\<forall>u \<in> set (identifyTorahUnits book). set (unit_sections u) \<subseteq> set (sections book)"
    unfolding identifyTorahUnits_def by (rule unitLoop_subset) (auto simp: newTorah_def)
  have s: "\<forall>u \<in> set (identifyStoryUnits book). set (unit_sections u) \<subseteq> set (sections book)"
    unfolding identifyStoryUnits_def by (rule unitLoop_subset) (auto simp: newStory_def)
  have p: "\<forall>u \<in> set (identifyPrayerUnits book). set (unit_sections u) \<subseteq> set (sections book)"
    unfolding identifyPrayerUnits_def by (rule unitLoop_subset) (auto simp: newPrayer_def)
  have d: "\<forall>u \<in> set (identifyDefaultUnits book). set (unit_sections u) \<subseteq> set (sections book)"
    unfolding identifyDefaultUnits_def by (rule defaultLoop_subset) auto
  show ?thesis
    using t s p d by (simp add: identifySemanticUnits_def)
qed

lemma identifySemanticUnits_empty_book:
  "sections book = [] \<Longrightarrow> identifySemanticUnits book = []"
  by (simp add: identifySemanticUnits_def identifyTorahUnits_def identifyStoryUnits_def
      identifyPrayerUnits_def identifyDefaultUnits_def defaultLoop_Nil)

text \<open>Where no section alone exceeds \<open>maxTokens\<close>, no group of units does.\<close>

lemma groupedUnits_small_sections:
  assumes small: "\<forall>s \<in> set (sections book). estimateTokens (hebrewText s) \<le> maxTokens opts"
  shows "\<forall>g \<in> set (groupedUnits book opts). groupTokens g \<le> maxTokens opts"
proof (cases "sections book")
  case Nil
  then show ?thesis
    by (simp add: groupedUnits_def identifySemanticUnits_empty_book groupUnitsIntoChunks_def)
next
  case (Cons s rest)
  have "0 \<le> estimateTokens (hebrewText s)" by (rule estimateTokens_nonneg)
  moreover have "estimateTokens (hebrewText s) \<le> maxTokens opts"
    using small Cons by simp
  ultimately have pos: "0 \<le> maxTokens opts" by simp
  have units: "\<forall>u \<in> set (identifySemanticUnits book). \<forall>s \<in> set (unit_sections u).
      estimateTokens (hebrewText s) \<le> maxTokens opts"
    using identifySemanticUnits_subset[of book] small by blast
  have "list_all (fitsBudget opts) (groupUnitsIntoChunks (identifySemanticUnits book) opts)"
    by (rule groupUnitsIntoChunks_within[OF units pos])
  then show ?thesis
    by (simp add: groupedUnits_def list_all_iff fitsBudget_def)
qed

text \<open>A book of three teachings of 6, 5 and 6 tokens.\<close>

lemma groupedUnits_small_sections_example:
  "list_all (\<lambda>s. estimateTokens (hebrewText s) \<le> maxTokens exOpts) (sections exSmallBook)
   \<and> map groupTokens (groupedUnits exSmallBook exOpts) = [6, 5, 6]
   \<and> list_all (\<lambda>g. groupTokens g \<le> maxTokens exOpts) (groupedUnits exSmallBook exOpts)"
proof -
  have small: "\<forall>s \<in> set (sections exSmallBook). estimateTokens (hebrewText s) \<le> maxTokens exOpts"
    by (simp add: exSmallBook_def exBook_def exOpts_def)
  have counts: "map groupTokens (groupedUnits exSmallBook exOpts) = [6, 5, 6]"
    by (simp add: groupedUnits_def identifySemanticUnits_def identifyTorahUnits_def exSmallBook_def
        exBook_def groupUnitsIntoChunks_def newTorah_def Let_def)
      (simp add: exOpts_def)
  show ?thesis
    using groupedUnits_small_sections [OF small] small counts by (simp add: list_all_iff)
qed




subsection \<open>Coverage of the sections\<close>

lemma groupLoop_sections:
  "groupLoop opts units groups cur tok = (groups', cur', tok') \<Longrightarrow>
   concat (map allSections groups') @ allSections cur' =
   concat (map allSections groups) @ allSections cur @ allSections units"
proof (induction units arbitrary: groups cur tok)
  case Nil
  then show ?case by auto
next
  case (Cons u rest)
  have split: "concat (map allSections (map (\<lambda>p. [p]) (splitLargeUnit u opts))) = unit_sections u"
    using splitLargeUnit_sections[of u opts] by (simp add: comp_def)
  have cons: "allSections (u # rest) = unit_sections u @ allSections rest"
    by (simp add: allSections_def)
  consider (large) "unit_tokenCount u > maxTokens opts"
    | (full) "\<not> unit_tokenCount u > maxTokens opts" "tok + unit_tokenCount u > maxTokens opts"
    | (fits) "\<not> unit_tokenCount u > maxTokens opts" "\<not> tok + unit_tokenCount u > maxTokens opts"
    by blast
  then show ?case
  proof cases
    case large
    then have r: "groupLoop opts rest ((if cur \<noteq> [] then groups @ [cur] else groups) @ map (\<lambda>p. [p]) (splitLargeUnit u opts)) [] (if cur \<noteq> [] then 0 else tok) = (groups', cur', tok')"
      using Cons.prems by simp
    show ?thesis
      using Cons.IH[OF r] split cons by auto
  next
    case full
    then have r: "groupLoop opts rest (if cur \<noteq> [] then groups @ [cur] else groups) [u] (unit_tokenCount u) = (groups', cur', tok')"
      using Cons.prems by simp
    show ?thesis
      using Cons.IH[OF r] cons by auto
  next
    case fits
    then have r: "groupLoop opts rest groups (cur @ [u]) (tok + unit_tokenCount u) = (groups', cur', tok')"
      using Cons.prems by simp
    show ?thesis
      using Cons.IH[OF r] cons by auto
  qed
qed

lemma groupUnitsIntoChunks_sections:
  "concat (map allSections (groupUnitsIntoChunks units opts)) = allSections units"
proof -
  obtain groups cur tok where r: "groupLoop opts units [] [] 0 = (groups, cur, tok)"
    by (metis prod_cases3)
  have e: "concat (map allSections groups) @ allSections cur = allSections units"
    using groupLoop_sections[OF r] by simp
  have m: "concat (map allSections (butlast groups @ [last groups @ cur])) =
      concat (map allSections groups) @ allSections cur" if "groups \<noteq> []"
  proof -
    have "groups = butlast groups @ [last groups]" using that by simp
    then have "concat (map allSections groups) = concat (map allSections (butlast groups @ [last groups]))"
      by simp
    then show ?thesis by simp
  qed
  show ?thesis
    using e m by (auto simp: groupUnitsIntoChunks_def r)
qed

lemma defaultLoop_sections:
  "allSections (defaultLoop secs units) = allSections units @ secs"
proof (induction secs units rule: defaultLoop.induct)
  case (1 secs units)
  show ?case
  proof (cases "secs = []")
    case True
    then show ?thesis by (simp add: defaultLoop_Nil)
  next
    case False
    then show ?thesis
      using "1.IH"[OF False] by (simp add: defaultLoop_step newDefaultUnit_def)
  qed
qed

lemma defaultLoop_nonempty: "secs \<noteq> [] \<Longrightarrow> defaultLoop secs units \<noteq> []"
  using defaultLoop_sections[of secs units] by (cases "defaultLoop secs units") auto

text \<open>For a book whose id names none of the three families, the groups partition the
  sections of the book in order, and a book with a section yields a group.\<close>

lemma default_groups_cover_sections:
  assumes "\<not> js_includes (book_id book) (ascii ''likutey_moharan'')"
    and "\<not> js_includes (book_id book) (ascii ''sippurei_maasiyot'')"
    and "\<not> js_includes (book_id book) (ascii ''tefilot'')"
  shows "concat (map allSections (groupedUnits book opts)) = sections book"
  using assms
  by (simp add: groupedUnits_def groupUnitsIntoChunks_sections identifySemanticUnits_def
      identifyDefaultUnits_def defaultLoop_sections)

lemma default_groups_nonempty:
  assumes "\<not> js_includes (book_id book) (ascii ''likutey_moharan'')"
    and "\<not> js_includes (book_id book) (ascii ''sippurei_maasiyot'')"
    and "\<not> js_includes (book_id book) (ascii ''tefilot'')"
    and "sections book \<noteq> []"
  shows "groupedUnits book opts \<noteq> []"
  using default_groups_cover_sections [OF assms(1-3), of opts] assms(4) by auto

text \<open>
  Claim C2 (the code departs from it). The book \<open>exLeadingBook\<close> of the Likutey Moharan
  family has an introduction before its first numbered teaching. The unit loop stores a
  section only when it starts a unit or a unit is open, so the introduction is in no
  group: the only group holds the second section alone. \<open>chunkBook\<close> then throws, because
  \<open>createChunk\<close> reaches \<open>extractCitations\<close>, whose second \<open>matchAll\<close> is called with a
  regular expression without the \<open>g\<close> flag.
\<close>

theorem chunkBook_drops_leading_section:
  "sections exLeadingBook = [exSection 0 (ascii ''Introduction'') 24, exSection 1 (ascii ''Torah 1'') 24]
   \<and> map allSections (groupedUnits exLeadingBook (mergeOptions noOptions))
       = [[exSection 1 (ascii ''Torah 1'') 24]]
   \<and> chunkBook md5hex exLeadingBook noOptions = Inl TypeError"
  by (simp add: chunkBook_result groupedUnits_def identifySemanticUnits_def identifyTorahUnits_def
      exLeadingBook_def exBook_def groupUnitsIntoChunks_def mergeOptions_def noOptions_def
      DEFAULT_OPTIONS_def newTorah_def Let_def)

text \<open>
  Claim C5 (the code departs from it). The book \<open>exUnmarkedBook\<close> of the Likutey Moharan
  family has two sections titled \<open>Section 1\<close> and \<open>Section 2\<close>; no title matches a
  numbering pattern. \<open>identifySemanticUnits\<close> returns the result of the family's heuristic,
  the empty list, without falling back to the fixed-size grouping, and \<open>chunkBook\<close>
  returns the empty chunk list for a book that has sections.
\<close>

theorem chunkBook_no_fallback:
  "sections exUnmarkedBook \<noteq> []
   \<and> identifySemanticUnits exUnmarkedBook = []
   \<and> chunkBook md5hex exUnmarkedBook noOptions = Inr []"
  by (simp add: chunkBook_result groupedUnits_def identifySemanticUnits_def identifyTorahUnits_def
      exUnmarkedBook_def exBook_def groupUnitsIntoChunks_def)

section \<open>Verification of the hierarchical router\<close>

subsection \<open>The token budget of Level 3\<close>

lemma chunkTokens_sum: "chunkTokens chunks = sum_list (map tokenCount chunks)"
proof -
  have "foldl (\<lambda>sum c. sum + tokenCount c) a chunks = a + sum_list (map tokenCount chunks)" for a
    by (induction chunks arbitrary: a) auto
  then show ?thesis by (simp add: chunkTokens_def)
qed

lemma chunkTokens_simps [simp]:
  "chunkTokens [] = 0" "chunkTokens (xs @ ys) = chunkTokens xs + chunkTokens ys"
  "chunkTokens [c] = tokenCount c"
  by (simp_all add: chunkTokens_sum)

lemma tokenCount_truncateChunk [simp]: "tokenCount (truncateChunk c b) = b"
  by (simp add: truncateChunk_def Let_def)

lemma addChunks_budget:
  "addChunks (Some b) cs chunks running = (ret, chunks', running') \<Longrightarrow>
   running = chunkTokens chunks \<Longrightarrow> running \<le> b \<Longrightarrow>
   running' = chunkTokens chunks' \<and> running' \<le> b"
proof (induction cs arbitrary: chunks running)
  case Nil
  then show ?case by auto
next
  case (Cons c cs)
  show ?case
  proof (cases "running + tokenCount c > b")
    case True
    then show ?thesis using Cons.prems by (auto split: if_splits)
  next
    case False
    then have r: "addChunks (Some b) cs (chunks @ [c]) (running + tokenCount c) = (ret, chunks', running')"
      using Cons.prems(1) by simp
    show ?thesis
      by (rule Cons.IH[OF r]) (use False Cons.prems(2) in auto)
  qed
qed

lemma retrieveLoop_budget:
  "retrieveLoop files (Some b) cands cache chunks running = (chunks', cache') \<Longrightarrow>
   running = chunkTokens chunks \<Longrightarrow> running \<le> b \<Longrightarrow> chunkTokens chunks' \<le> b"
proof (induction cands arbitrary: cache chunks running)
  case Nil
  then show ?case by auto
next
  case (Cons cand rest)
  obtain loaded c1 where l: "loadChunksForSection files cache (sc_bookId cand) (sc_chunkIds cand) [] = (loaded, c1)"
    by (metis prod.exhaust)
  obtain ret ch1 t1 where a: "addChunks (Some b) loaded chunks running = (ret, ch1, t1)"
    by (metis prod_cases3)
  have inv: "t1 = chunkTokens ch1 \<and> t1 \<le> b"
    by (rule addChunks_budget[OF a Cons.prems(2,3)])
  show ?case
  proof (cases "ret \<or> enoughContext t1 (Some b)")
    case True
    then have "chunks' = ch1" using Cons.prems(1) l a by (auto split: if_splits)
    then show ?thesis using inv by simp
  next
    case False
    then have r: "retrieveLoop files (Some b) rest c1 ch1 t1 = (chunks', cache')"
      using Cons.prems(1) l a by simp
    show ?thesis
      by (rule Cons.IH[OF r]) (use inv in auto)
  qed
qed

lemma retrieveChunks_within_budget:
  "0 \<le> b \<Longrightarrow> retrieveChunks files cache cands (Some b) = (chunks, cache') \<Longrightarrow> chunkTokens chunks \<le> b"
  unfolding retrieveChunks_def by (erule retrieveLoop_budget[rotated 2]) auto

text \<open>On the path that is not served from the cache, a budget that is a number and not
  negative bounds the total of the result.\<close>

lemma route_uncached_within_budget:
  assumes miss: "getCachedResult st query options = None"
    and budget: "maxTokensOf options = Some b" and pos: "0 \<le> b"
    and r: "route toLowerCase st query options = Inr (result, st')"
  shows "totalTokens result = chunkTokens (rr_chunks result) \<and> totalTokens result \<le> b"
proof -
  let ?qe = "embedder st query" and ?kw = "extractQueryKeywords toLowerCase query"
  obtain bs where l1: "searchMasterIndex (masterIndex st) ?qe ?kw = Inr bs"
    using r miss by (auto simp: route_def Let_def split: sum.splits)
  let ?cands = "searchBookIndexes (bookIndexes st) bs ?qe ?kw"
  show ?thesis
  proof (cases "bs = [] \<or> ?cands = []")
    case True
    then have "result = createEmptyResult query"
      using r miss l1 by (auto simp: route_def Let_def split: if_splits)
    then show ?thesis using pos by (simp add: createEmptyResult_def)
  next
    case False
    obtain chunks cache' where l3: "retrieveChunks (chunkFiles st) (chunksCache st) ?cands (Some b) = (chunks, cache')"
      by (metis prod.exhaust)
    have res: "rr_chunks result = chunks" "totalTokens result = chunkTokens chunks"
      using r miss l1 l3 False budget by (auto simp: route_def Let_def chunkTokens_def split: if_splits)
    show ?thesis
      using retrieveChunks_within_budget[OF pos l3] res by simp
  qed
qed

text \<open>With \<open>maxTokens\<close> given as \<open>undefined\<close> every chunk of a candidate is taken.\<close>

lemma addChunks_undefined:
  "addChunks None cs chunks running = (False, chunks @ cs, running + chunkTokens cs)"
  by (induction cs arbitrary: chunks running) (simp_all add: chunkTokens_sum)

subsection \<open>Evaluation on the example router\<close>

lemma kw_joie:
  "extractQueryKeywords toLowerCaseLatin1 (ascii ''joie'') = [ascii ''joie'', simcha, ascii ''simcha'']"
  by (simp add: extractQueryKeywords_def splitWhitespace_def toLowerCaseLatin1_def lowerUnit_def isSpace_def
      isHebrewBlock_def detectThematicKeywords_def themeMap_def ascii_def simcha_def Let_def)

lemma kw_hi: "extractQueryKeywords toLowerCaseLatin1 (ascii ''hi'') = []"
  by (simp add: extractQueryKeywords_def splitWhitespace_def toLowerCaseLatin1_def lowerUnit_def isSpace_def
      isHebrewBlock_def detectThematicKeywords_def themeMap_def ascii_def Let_def)

lemma kw_simcha: "extractQueryKeywords toLowerCaseLatin1 simcha = [simcha]"
  by (simp add: extractQueryKeywords_def splitWhitespace_def toLowerCaseLatin1_def lowerUnit_def isSpace_def
      isHebrewBlock_def detectThematicKeywords_def themeMap_def ascii_def simcha_def Let_def)

lemma word_ineq [simp]: "ascii ''joie'' \<noteq> simcha" "ascii ''simcha'' \<noteq> simcha" "ascii ''joie'' \<noteq> ascii ''simcha''"
  by (simp_all add: ascii_def simcha_def)

text \<open>The index of the examples has the one key \<open>simcha\<close>; the other keywords of the
  examples are no property names of \<open>Object.prototype\<close>.\<close>

lemma recordGet_ex:
  "recordGet [(simcha, v)] simcha = Own v"
  "recordGet [(simcha, v)] (ascii ''joie'') = Undefined"
  "recordGet [(simcha, v)] (ascii ''simcha'') = Undefined"
  "recordGet [(simcha, v)] (ascii ''xyz'') = Undefined"
  "recordGet [(simcha, v)] (ascii ''constructor'') = Inherited"
  by (simp_all add: recordGet_def mapGet_def objectPrototypeNames_def ascii_def simcha_def)

lemma lexical_ex:
  "lexicalMatches (exMaster bs) [ascii ''joie'', simcha, ascii ''simcha''] = Inr [(ascii ''bookA'', fl (3 / 5))]"
  "lexicalMatches (exMaster bs) [simcha] = Inr [(ascii ''bookA'', fl (3 / 5))]"
  "lexicalMatches (exMaster bs) [ascii ''xyz''] = Inr []"
  "lexicalMatches (exMaster bs) [ascii ''constructor''] = Inl TypeError"
  "lexicalMatches mi [] = Inr []"
  by (simp_all add: lexicalMatches_def exMaster_def recordGet_ex getOr0_def mapGet_def)
    (simp_all add: double_eval)

lemma thematic_ex:
  "thematicMatches (exMaster bs) [ascii ''joie'', simcha, ascii ''simcha''] = Inr [(ascii ''bookA'', 1)]"
  "thematicMatches (exMaster bs) [simcha] = Inr [(ascii ''bookA'', 1)]"
  "thematicMatches (exMaster bs) [ascii ''xyz''] = Inr []"
  "thematicMatches mi [] = Inr []"
  by (simp_all add: thematicMatches_def exMaster_def recordGet_ex getOr0_def mapGet_def)
    (simp_all add: double_eval)

lemma level1Score_ex:
  "level1Score (fl (3 / 5)) 1 0 = fl (12 / 25)"
  "level1Score 0 0 1 = fl (2 / 5)"
  by (simp_all add: level1Score_def double_eval)

lemma getOr0_ex [simp]: "getOr0 [(k, v)] k = v" "getOr0 [] k = 0"
  by (simp_all add: getOr0_def mapGet_def)

lemma threshold_ex: "fl (1 / 10) < fl (12 / 25)" "fl (1 / 10) < fl (2 / 5)"
  "fl (1 / 10) < fl (6 / 25)" "fl (1 / 10) < fl (1 / 5)"
  by (simp_all add: fl_eval)

lemma explainBookRelevance_ex:
  "explainBookRelevance (exSummary b e) (fl (3 / 5)) 1 0
     = ascii ''Strong keyword match; Relevant themes: '' @ simcha"
  "explainBookRelevance (exSummary b e) 0 0 1 = ascii ''High semantic similarity''"
  by (simp_all add: explainBookRelevance_def exSummary_def fl_literals Let_def)
    (simp_all add: ascii_def simcha_def)

lemma l1_joie: "searchMasterIndex (masterIndex exRouter) None [ascii ''joie'', simcha, ascii ''simcha'']
   = Inr [bookScoreA (fl (12 / 25)) (ascii ''Strong keyword match; Relevant themes: '' @ simcha)]"
proof -
  have bks: "books (exMaster [exSummary (ascii ''bookA'') e]) = [exSummary (ascii ''bookA'') e]" for e
    by (simp add: exMaster_def)
  have s: "bs_id (exSummary b e) = b" "bs_title (exSummary b e) = b" for b e
    by (simp_all add: exSummary_def)
  show ?thesis
    by (simp add: searchMasterIndex_def exRouter_def lexical_ex thematic_ex semanticMatches_def
        level1Score_ex threshold_ex explainBookRelevance_ex sortByScoreDesc_def bookScoreA_def bks s
        Let_def)
qed

lemma sectionScore_ex:
  "sectionScore (exSectionInfo None) (bookScoreA (fl (12 / 25)) r) None [ascii ''joie'', simcha, ascii ''simcha'']
     = fl (6 / 25)"
  "sectionScore (exSectionInfo (Some [1, 0])) (bookScoreA (fl (2 / 5)) r) (Some [1, 0]) [] = fl (1 / 5)"
  by (simp_all add: sectionScore_def exSectionInfo_def bookScoreA_def cosineSimilarity_def dotProduct_def
      Let_def)
    (simp_all add: double_eval)

lemma l2_joie:
  "searchBookIndexes (bookIndexes exRouter) [bookScoreA (fl (12 / 25)) r] None [ascii ''joie'', simcha, ascii ''simcha'']
   = [candA (fl (6 / 25))]"
proof -
  have "fl (1 / 10) < fl (6 / 25)" by (simp add: fl_eval)
  then show ?thesis
    by (simp add: searchBookIndexes_def exRouter_def exBookIndex_def sectionScore_ex sortByScoreDesc_def
        candA_def Let_def)
      (simp add: bookScoreA_def exSectionInfo_def)
qed

lemma l3_joie: "b \<ge> 60 \<Longrightarrow> retrieveChunks (chunkFiles exRouter) (chunksCache exRouter) [candA s] (Some b)
   = ([exChunk], [ascii ''bookA_chunk_0'' \<mapsto> exChunk])"
  by (simp add: retrieveChunks_def exRouter_def candA_def exChunk_def)

lemma conf_joie:
  "calculateConfidence toLowerCaseLatin1 [exChunk] q [ascii ''joie'', simcha, ascii ''simcha''] = Some (fl (79 / 300))"
proof -
  have th: "themes exChunk = [simcha]" and he: "hebrew exChunk = simcha"
    by (simp_all add: exChunk_def)
  show ?thesis
    by (simp add: calculateConfidence_def th he kw_simcha countRatio_def Let_def)
      (simp add: double_eval)
qed

text \<open>
  Claim C1 (the code departs from it). The cache key of \<open>route\<close> is the query alone. On
  \<open>exRouter\<close> the query \<open>joie\<close> with \<open>maxTokens = 100\<close> is routed, returns the chunk of 60
  tokens and is cached; the same query with \<open>maxTokens = 20\<close> is then served from the cache
  and returns the same chunk list, 60 tokens against a requested budget of 20.
\<close>

theorem route_cached_result_exceeds_budget:
  "route toLowerCaseLatin1 exRouter (ascii ''joie'') (budget 100) = Inr (exRouteResult, exRouterAfter)
   \<and> route toLowerCaseLatin1 exRouterAfter (ascii ''joie'') (budget 20)
       = Inr (exRouteResult\<lparr>fromCache := True\<rparr>, exRouterAfter)
   \<and> so_maxTokens (budget 20) = Given 20
   \<and> totalTokens (exRouteResult\<lparr>fromCache := True\<rparr>) = 60
   \<and> chunkTokens (rr_chunks (exRouteResult\<lparr>fromCache := True\<rparr>)) = 60"
proof -
  have miss: "getCachedResult exRouter (ascii ''joie'') (budget 100) = None"
    by (simp add: getCachedResult_def exRouter_def budget_def useCacheOf_def)
  have emb: "embedder exRouter (ascii ''joie'') = None"
    by (simp add: exRouter_def)
  have tok: "tokenCount exChunk = 60" by (simp add: exChunk_def)
  have red: "redis exRouter = Some Map.empty" by (simp add: exRouter_def)
  have opt: "maxTokensOf (budget 100) = Some 100" "useCacheOf (budget 100)"
    by (simp_all add: budget_def useCacheOf_def maxTokensOf_def)
  have first: "route toLowerCaseLatin1 exRouter (ascii ''joie'') (budget 100) = Inr (exRouteResult, exRouterAfter)"
    unfolding route_def
    by (simp add: miss emb kw_joie l1_joie l2_joie l3_joie conf_joie opt tok cacheResult_def red
        Let_def exRouteResult_def exRouterAfter_def)
  have second: "route toLowerCaseLatin1 exRouterAfter (ascii ''joie'') (budget 20)
      = Inr (exRouteResult\<lparr>fromCache := True\<rparr>, exRouterAfter)"
    by (simp add: route_def getCachedResult_def useCacheOf_def budget_def exRouterAfter_def)
  show ?thesis
    using first second by (simp add: budget_def exRouteResult_def tok)
qed

subsection \<open>No match\<close>

text \<open>
  Claim C6. When \<open>route\<close> runs Level 1 (the query is not answered from the cache) and
  Level 1 returns no candidate book, or Level 2 returns no candidate section for the books
  of Level 1, \<open>route\<close> returns without an exception the empty Route Result: no books, no
  sections, no chunks, 0 tokens, confidence 0 and strategy \<open>NoResults\<close>. The state of the
  router is unchanged.
\<close>

theorem route_no_match:
  assumes miss: "getCachedResult st query options = None"
    and none:
      "searchMasterIndex (masterIndex st) (embedder st query) (extractQueryKeywords toLowerCase query) = Inr []
       \<or> (\<exists>bs. searchMasterIndex (masterIndex st) (embedder st query)
                   (extractQueryKeywords toLowerCase query) = Inr bs
             \<and> searchBookIndexes (bookIndexes st) bs (embedder st query)
                   (extractQueryKeywords toLowerCase query) = [])"
  shows "route toLowerCase st query options = Inr (createEmptyResult query, st)
       \<and> rr_books (createEmptyResult query) = [] \<and> rr_sections (createEmptyResult query) = []
       \<and> rr_chunks (createEmptyResult query) = [] \<and> totalTokens (createEmptyResult query) = 0
       \<and> confidence (createEmptyResult query) = Some 0
       \<and> strategy (createEmptyResult query) = ascii ''NoResults''"
  using miss none by (auto simp: route_def Let_def createEmptyResult_def)

text \<open>Claim C6 at the query \<open>xyz\<close>, which shares no keyword or theme with the corpus of
  \<open>exRouter\<close>.\<close>

theorem route_no_match_witness:
  "route toLowerCaseLatin1 exRouter (ascii ''xyz'') (budget 100)
     = Inr (createEmptyResult (ascii ''xyz''), exRouter)
   \<and> searchMasterIndex (masterIndex exRouter) (embedder exRouter (ascii ''xyz''))
        (extractQueryKeywords toLowerCaseLatin1 (ascii ''xyz'')) = Inr []
   \<and> rr_chunks (createEmptyResult (ascii ''xyz'')) = []
   \<and> confidence (createEmptyResult (ascii ''xyz'')) = Some 0
   \<and> strategy (createEmptyResult (ascii ''xyz'')) = ascii ''NoResults''"
proof -
  have miss: "getCachedResult exRouter (ascii ''xyz'') (budget 100) = None"
    by (simp add: getCachedResult_def exRouter_def budget_def useCacheOf_def)
  have kw: "extractQueryKeywords toLowerCaseLatin1 (ascii ''xyz'') = [ascii ''xyz'']"
    by (simp add: extractQueryKeywords_def splitWhitespace_def toLowerCaseLatin1_def lowerUnit_def
        isSpace_def isHebrewBlock_def detectThematicKeywords_def themeMap_def ascii_def Let_def)
  have "searchMasterIndex (masterIndex exRouter) (embedder exRouter (ascii ''xyz'')) [ascii ''xyz'']
      = Inr []"
    by (simp add: searchMasterIndex_def exRouter_def lexical_ex thematic_ex semanticMatches_def
        sortByScoreDesc_def Let_def)
  then have l1: "searchMasterIndex (masterIndex exRouter) (embedder exRouter (ascii ''xyz''))
      (extractQueryKeywords toLowerCaseLatin1 (ascii ''xyz'')) = Inr []"
    by (simp only: kw)
  show ?thesis
    using route_no_match [OF miss disjI1 [OF l1]] l1 by simp
qed

text \<open>
  A keyword that is a property name of \<open>Object.prototype\<close> and no key of the search index
  is outside the premise of the claim: Level 1 does not return. For the query
  \<open>constructor\<close> the lexical pass reads the inherited \<open>constructor\<close> of the search index and
  throws, and the exception leaves \<open>route\<close>.
\<close>

lemma route_inherited_property:
  "route toLowerCaseLatin1 exRouter (ascii ''constructor'') (budget 100) = Inl TypeError"
proof -
  have miss: "getCachedResult exRouter (ascii ''constructor'') (budget 100) = None"
    by (simp add: getCachedResult_def exRouter_def budget_def useCacheOf_def)
  have kw: "extractQueryKeywords toLowerCaseLatin1 (ascii ''constructor'') = [ascii ''constructor'']"
    by (simp add: extractQueryKeywords_def splitWhitespace_def toLowerCaseLatin1_def lowerUnit_def
        isSpace_def isHebrewBlock_def detectThematicKeywords_def themeMap_def ascii_def Let_def)
  have l1: "searchMasterIndex (masterIndex exRouter) q [ascii ''constructor''] = Inl TypeError" for q
    by (simp add: searchMasterIndex_def exRouter_def lexical_ex)
  show ?thesis
    by (simp add: route_def miss kw l1 Let_def)
qed

subsection \<open>Confidence\<close>

lemma calculateConfidence_no_keywords: "calculateConfidence toLowerCase (c # cs) query [] = None"
  by (simp add: calculateConfidence_def countRatio_def Let_def)

text \<open>With at least one keyword the confidence is a number of \<open>[0, 1]\<close>.\<close>

lemma calculateConfidence_unit_interval:
  assumes "queryKeywords \<noteq> []"
  shows "\<exists>v. calculateConfidence toLowerCase chunks query queryKeywords = Some v \<and> 0 \<le> v \<and> v \<le> 1"
proof (cases "chunks = []")
  case True
  then show ?thesis by (simp add: calculateConfidence_def)
next
  case False
  have nn: "0 \<le> dadd (dadd (dadd 0 (dmul (min (ddiv a 10) 1) w1)) (dmul (ddiv b c) w2)) (dmul (ddiv d e) w3)"
    if "0 \<le> a" "0 \<le> b" "0 \<le> c" "0 \<le> d" "0 \<le> e" "0 \<le> w1" "0 \<le> w2" "0 \<le> w3"
    for a b c d e w1 w2 w3 :: real
  proof -
    have "0 \<le> min (fl (a / 10)) 1"
      using fl_nonneg[of "a / 10"] that by simp
    then show ?thesis
      unfolding dadd_def dmul_def ddiv_def
      by (intro fl_nonneg add_nonneg_nonneg mult_nonneg_nonneg divide_nonneg_nonneg that) simp_all
  qed
  show ?thesis
    using False assms by (simp add: calculateConfidence_def countRatio_def Let_def nn fl_nonneg)
qed

lemma l1_hi: "searchMasterIndex (masterIndex exSemanticRouter) (Some [1, 0]) []
   = Inr [bookScoreA (fl (2 / 5)) (ascii ''High semantic similarity'')]"
  by (simp add: searchMasterIndex_def exSemanticRouter_def lexical_ex thematic_ex semanticMatches_def
      semanticGate_def exMaster_def exSummary_def cosineSimilarity_def dotProduct_def maxOf_def double_eval
      Let_def)
    (simp add: mapGet_def getOr0_def level1Score_ex sortByScoreDesc_def explainBookRelevance_def
      bookScoreA_def Let_def ascii_def fl_literals)

lemma l2_hi:
  "searchBookIndexes (bookIndexes exSemanticRouter) [bookScoreA (fl (2 / 5)) r] (Some [1, 0]) []
   = [candA (fl (1 / 5))]"
proof -
  have "fl (1 / 10) < fl (1 / 5)" by (simp add: fl_eval)
  then show ?thesis
    by (simp add: searchBookIndexes_def exSemanticRouter_def exBookIndex_def sectionScore_ex
        sortByScoreDesc_def candA_def Let_def)
      (simp add: bookScoreA_def exSectionInfo_def)
qed

lemma l3_hi: "b \<ge> 60 \<Longrightarrow> retrieveChunks (chunkFiles exSemanticRouter) (chunksCache exSemanticRouter) [candA s] (Some b)
   = ([exChunk], [ascii ''bookA_chunk_0'' \<mapsto> exChunk])"
  by (simp add: retrieveChunks_def exSemanticRouter_def candA_def exChunk_def)

text \<open>
  Claim C7 (the code departs from it). \<open>exSemanticRouter\<close> has embeddings in its indexes and
  an embedding provider. The query \<open>hi\<close> has no word longer than two code units, so its
  keyword list is empty; Level 1 and Level 2 select \<open>bookA\<close> and its section through the
  embeddings and Level 3 returns one chunk. \<open>calculateConfidence\<close> then divides the number
  of covered keywords by \<open>queryKeywords.length\<close>, 0 by 0, and the confidence of the result
  is \<open>NaN\<close> (\<open>None\<close>), not a number of \<open>[0, 1]\<close>.
\<close>

theorem route_confidence_not_a_number:
  "extractQueryKeywords toLowerCaseLatin1 (ascii ''hi'') = []
   \<and> route toLowerCaseLatin1 exSemanticRouter (ascii ''hi'') noSearchOptions =
       Inr (\<lparr>rr_query = ascii ''hi'',
             rr_books = [bookScoreA (fl (2 / 5)) (ascii ''High semantic similarity'')],
             rr_sections = [candA (fl (1 / 5))], rr_chunks = [exChunk], totalTokens = 60,
             confidence = None, fromCache = False, strategy = ascii ''HierarchicalRouting''\<rparr>,
            exSemanticRouter\<lparr>chunksCache := [ascii ''bookA_chunk_0'' \<mapsto> exChunk]\<rparr>)"
proof -
  have miss: "getCachedResult exSemanticRouter (ascii ''hi'') noSearchOptions = None"
    by (simp add: getCachedResult_def exSemanticRouter_def)
  have emb: "embedder exSemanticRouter (ascii ''hi'') = Some [1, 0]"
    by (simp add: exSemanticRouter_def)
  have tok: "tokenCount exChunk = 60" by (simp add: exChunk_def)
  have red: "redis exSemanticRouter = None" by (simp add: exSemanticRouter_def)
  have opt: "maxTokensOf noSearchOptions = Some MAX_CONTEXT_TOKENS"
    by (simp_all add: noSearchOptions_def maxTokensOf_def)
  have "route toLowerCaseLatin1 exSemanticRouter (ascii ''hi'') noSearchOptions =
       Inr (\<lparr>rr_query = ascii ''hi'',
             rr_books = [bookScoreA (fl (2 / 5)) (ascii ''High semantic similarity'')],
             rr_sections = [candA (fl (1 / 5))], rr_chunks = [exChunk], totalTokens = 60,
             confidence = None, fromCache = False, strategy = ascii ''HierarchicalRouting''\<rparr>,
            exSemanticRouter\<lparr>chunksCache := [ascii ''bookA_chunk_0'' \<mapsto> exChunk]\<rparr>)"
    unfolding route_def
    by (simp add: miss emb kw_hi l1_hi l2_hi calculateConfidence_no_keywords opt tok
        cacheResult_def red Let_def l3_hi [of MAX_CONTEXT_TOKENS, unfolded MAX_CONTEXT_TOKENS_def, simplified]
        MAX_CONTEXT_TOKENS_def)
  then show ?thesis using kw_hi by simp
qed

subsection \<open>The semantic signal of Level 1\<close>

lemma sem_two: "semanticMatches exTwoBooks (Some [1, 0]) = [(ascii ''bookB'', 1)]"
  by (simp add: semanticMatches_def semanticGate_def exTwoBooks_def exMaster_def exSummary_def
      cosineSimilarity_def dotProduct_def maxOf_def double_eval Let_def)

lemma l1_two: "searchMasterIndex (Some exTwoBooks) (Some [1, 0]) [] =
   Inr [\<lparr>bsc_bookId = ascii ''bookB'', bsc_title = ascii ''bookB'', score = fl (2 / 5),
         reason = ascii ''High semantic similarity''\<rparr>]"
proof -
  have bks: "books exTwoBooks = [exSummary (ascii ''bookA'') (Some []), exSummary (ascii ''bookB'') (Some [[1, 0]])]"
    by (simp add: exTwoBooks_def exMaster_def)
  show ?thesis
    by (simp add: searchMasterIndex_def sem_two lexical_ex thematic_ex bks mapGet_def getOr0_def
        level1Score_ex sortByScoreDesc_def explainBookRelevance_def Let_def ascii_def exSummary_def
        fl_literals)
qed

lemma combineLoop_scores:
  "list_all P acc \<Longrightarrow>
   (\<And>b. bsc_bookId b \<in> set ids \<Longrightarrow>
      score b = level1Score (getOr0 lexical (bsc_bookId b)) (getOr0 thematic (bsc_bookId b))
                  (getOr0 semantic (bsc_bookId b)) \<Longrightarrow> P b) \<Longrightarrow>
   list_all P (combineLoop mi lexical thematic semantic ids acc)"
proof (induction ids arbitrary: acc)
  case Nil
  then show ?case by simp
next
  case (Cons bookId rest)
  let ?s = "level1Score (getOr0 lexical bookId) (getOr0 thematic bookId) (getOr0 semantic bookId)"
  let ?acc' = "(if ?s > fl (1 / 10) then
          (case find (\<lambda>b. bs_id b = bookId) (books mi) of
             Some book \<Rightarrow>
               acc @
                 [\<lparr>bsc_bookId = bs_id book, bsc_title = bs_title book, score = ?s,
                   reason = explainBookRelevance book (getOr0 lexical bookId) (getOr0 thematic bookId)
                              (getOr0 semantic bookId)\<rparr>]
           | None \<Rightarrow> acc)
        else acc)"
  have "list_all P ?acc'"
    using Cons.prems by (auto split: option.splits simp: find_Some_iff)
  then have "list_all P (combineLoop mi lexical thematic semantic rest ?acc')"
    by (rule Cons.IH) (use Cons.prems(2) in auto)
  then show ?case by (simp add: Let_def)
qed

text \<open>With the semantic score 0 the term \<open>0 * 0.4\<close> is 0, and adding it to a double
  gives that double.\<close>

lemma level1Score_no_semantic:
  "level1Score lexicalScore thematicScore 0 =
     dadd (dmul lexicalScore (fl (3 / 10))) (dmul thematicScore (fl (3 / 10)))"
proof -
  have "dadd (dadd a b) 0 = dadd a b" for a b
    by (simp add: dadd_def)
  then show ?thesis by (simp add: level1Score_def)
qed

text \<open>The two passes before the semantic one throw nothing but a \<open>TypeError\<close>, and an
  exception of theirs leaves Level 1.\<close>

lemma lexicalLoop_error: "lexicalLoop mi kws m = Inl e \<Longrightarrow> e = TypeError"
  by (induction kws arbitrary: m) (auto split: property.splits)

lemma thematicLoop_error: "thematicLoop mi kws m = Inl e \<Longrightarrow> e = TypeError"
  by (induction kws arbitrary: m) (auto split: property.splits)

lemma searchMasterIndex_throws:
  "lexicalMatches mi queryKeywords = Inl e \<or> thematicMatches mi queryKeywords = Inl e \<Longrightarrow>
   searchMasterIndex (Some mi) queryEmbedding queryKeywords = Inl TypeError"
  by (auto simp: searchMasterIndex_def lexicalMatches_def thematicMatches_def
      dest: lexicalLoop_error thematicLoop_error split: sum.splits)

text \<open>
  Claim C10, as amended. The semantic pass of Level 1 runs only when a query embedding was
  obtained and the first book summary of the Master Index has a \<open>keywordEmbeddings\<close> field,
  which may be an empty list. When the gate is closed (no query embedding, no book, or a
  first summary without the field) no book has a semantic score, whatever embeddings the
  other books carry. Level 1 then returns books whose score is the double
  \<open>(lexical * 0.3) + (thematic * 0.3)\<close>, unless the lexical or the thematic pass throws,
  which is a \<open>TypeError\<close> that leaves Level 1.
\<close>

theorem level1_without_semantic_gate:
  assumes gate: "\<not> semanticGate mi queryEmbedding"
  shows "semanticMatches mi queryEmbedding = []
       \<and> (case (lexicalMatches mi queryKeywords, thematicMatches mi queryKeywords) of
            (Inr lexical, Inr thematic) \<Rightarrow>
              (\<exists>bs. searchMasterIndex (Some mi) queryEmbedding queryKeywords = Inr bs
                 \<and> (\<forall>b \<in> set bs. score b =
                        dadd (dmul (getOr0 lexical (bsc_bookId b)) (fl (3 / 10)))
                             (dmul (getOr0 thematic (bsc_bookId b)) (fl (3 / 10)))))
          | _ \<Rightarrow> searchMasterIndex (Some mi) queryEmbedding queryKeywords = Inl TypeError)"
proof -
  have sem: "semanticMatches mi queryEmbedding = []"
    using gate by (cases queryEmbedding) (auto simp: semanticMatches_def)
  have returns: "\<exists>bs. searchMasterIndex (Some mi) queryEmbedding queryKeywords = Inr bs
                 \<and> (\<forall>b \<in> set bs. score b =
                        dadd (dmul (getOr0 lexical (bsc_bookId b)) (fl (3 / 10)))
                             (dmul (getOr0 thematic (bsc_bookId b)) (fl (3 / 10))))"
    if lexical: "lexicalMatches mi queryKeywords = Inr lexical"
      and thematic: "thematicMatches mi queryKeywords = Inr thematic" for lexical thematic
  proof -
    let ?P = "\<lambda>b. score b =
                    dadd (dmul (getOr0 lexical (bsc_bookId b)) (fl (3 / 10)))
                         (dmul (getOr0 thematic (bsc_bookId b)) (fl (3 / 10)))"
    let ?ids = "dedup (map fst lexical @ map fst thematic @ map fst ([] :: real dict))"
    have all: "list_all ?P (combineLoop mi lexical thematic [] ?ids [])"
      by (rule combineLoop_scores) (simp_all add: level1Score_no_semantic)
    have "list_all ?P (take 3 (sortByScoreDesc score (combineLoop mi lexical thematic [] ?ids [])))"
      using all by (auto simp: list_all_iff sortByScoreDesc_def dest: in_set_takeD)
    then show ?thesis
      using sem by (simp add: searchMasterIndex_def lexical thematic Let_def list_all_iff)
  qed
  have throws: "searchMasterIndex (Some mi) queryEmbedding queryKeywords = Inl TypeError"
    if "lexicalMatches mi queryKeywords = Inl e \<or> thematicMatches mi queryKeywords = Inl e" for e
    using that by (rule searchMasterIndex_throws)
  show ?thesis
    using sem returns throws by (auto split: sum.splits)
qed

text \<open>
  The claim as stated fails for a first summary whose \<open>keywordEmbeddings\<close> is the empty
  list, the value the index builder writes: the gate is open, the second book gets the
  semantic score 1 and, with no lexical or thematic match, the Level-1 score 0.4.
\<close>

theorem semantic_gate_empty_list_counterexample:
  "keywordEmbeddings (hd (books exTwoBooks)) = Some []
   \<and> semanticMatches exTwoBooks (Some [1, 0]) = [(ascii ''bookB'', 1)]
   \<and> lexicalMatches exTwoBooks [] = Inr [] \<and> thematicMatches exTwoBooks [] = Inr []
   \<and> searchMasterIndex (Some exTwoBooks) (Some [1, 0]) [] =
       Inr [\<lparr>bsc_bookId = ascii ''bookB'', bsc_title = ascii ''bookB'', score = fl (2 / 5),
             reason = ascii ''High semantic similarity''\<rparr>]"
  using sem_two l1_two
  by (simp add: lexical_ex thematic_ex exTwoBooks_def exMaster_def exSummary_def)

text \<open>The amended claim at a Master Index whose first summary has no \<open>keywordEmbeddings\<close>
  field while the second has an embedding equal to the query embedding: the score of
  \<open>bookA\<close> is the double 0.48.\<close>

theorem level1_without_semantic_gate_witness:
  "\<not> semanticGate exFirstWithout (Some [1, 0])
   \<and> keywordEmbeddings (books exFirstWithout ! 1) = Some [[1, 0]]
   \<and> semanticMatches exFirstWithout (Some [1, 0]) = []
   \<and> lexicalMatches exFirstWithout [simcha] = Inr [(ascii ''bookA'', fl (3 / 5))]
   \<and> thematicMatches exFirstWithout [simcha] = Inr [(ascii ''bookA'', 1)]
   \<and> map score (projr (searchMasterIndex (Some exFirstWithout) (Some [1, 0]) [simcha])) = [fl (12 / 25)]"
proof -
  have gate: "\<not> semanticGate exFirstWithout (Some [1, 0])"
    by (simp add: semanticGate_def exFirstWithout_def exMaster_def exSummary_def)
  have bks: "books exFirstWithout = [exSummary (ascii ''bookA'') None, exSummary (ascii ''bookB'') (Some [[1, 0]])]"
    by (simp add: exFirstWithout_def exMaster_def)
  have lt: "lexicalMatches exFirstWithout [simcha] = Inr [(ascii ''bookA'', fl (3 / 5))]"
    "thematicMatches exFirstWithout [simcha] = Inr [(ascii ''bookA'', 1)]"
    by (simp_all add: exFirstWithout_def lexical_ex thematic_ex)
  have sem: "semanticMatches exFirstWithout (Some [1, 0]) = []"
    using level1_without_semantic_gate [OF gate] by simp
  have s: "bs_id (exSummary b e) = b" "bs_title (exSummary b e) = b" for b e
    by (simp_all add: exSummary_def)
  have neq: "ascii ''bookB'' \<noteq> ascii ''bookA''"
    by (simp add: ascii_def)
  have l1: "searchMasterIndex (Some exFirstWithout) (Some [1, 0]) [simcha] =
      Inr [bookScoreA (fl (12 / 25)) (ascii ''Strong keyword match; Relevant themes: '' @ simcha)]"
    by (simp add: searchMasterIndex_def lt sem level1Score_ex threshold_ex explainBookRelevance_ex
        sortByScoreDesc_def bookScoreA_def bks s neq Let_def)
  show ?thesis
    using gate sem l1 lt by (simp add: bks bookScoreA_def exSummary_def)
qed

section \<open>Verification of the index builder\<close>

subsection \<open>Related chunks\<close>

lemma sortByScoreDesc_set [simp]: "set (sortByScoreDesc f xs) = set xs"
  by (simp add: sortByScoreDesc_def)








lemma similarity_relatedChunks [simp]:
  "similarity (a\<lparr>relatedChunks := r\<rparr>) (b\<lparr>relatedChunks := r'\<rparr>) = similarity a b"
  by (simp add: similarity_def themeScore_def keywordScore_def)


lemma extractKeywords_simcha: "extractKeywords simcha = [simcha]"
  by (simp add: extractKeywords_def splitWhitespace_def countOccurrences_def recordSet_def mapGet_def countOf_def
     isArrayIndex_def isDigit_def isSpace_def stopWords_def sortByScoreDesc_def simcha_def)

lemma ex_indexes_full:
  "buildChunkIndexes exClock 0 exChunksMap =
     [(ascii ''bookA_chunk_0'', exIndexA), (ascii ''bookB_chunk_0'', exIndexB)]"
  by (simp add: buildChunkIndexes_def allChunks_def exChunksMap_def exChunk_def exChunkB_def
      buildChunkIndex_def extractKeywords_simcha findRelatedChunks_def topRelated_def similarity_def
      themeScore_def keywordScore_def countRatio_def sortByScoreDesc_def enumerate_eq_zip ascii_def
      exIndexA_def exIndexB_def)
    (simp add: double_eval)

lemma ex_indexes:
  "map (\<lambda>(key, ci). (key, ci_bookId ci, relatedChunks ci)) (buildChunkIndexes exClock 0 exChunksMap) =
     [(ascii ''bookA_chunk_0'', ascii ''bookA'', [ascii ''bookB_chunk_0'']),
      (ascii ''bookB_chunk_0'', ascii ''bookB'', [ascii ''bookA_chunk_0''])]"
  by (simp add: buildChunkIndexes_def allChunks_def exChunksMap_def exChunk_def exChunkB_def buildChunkIndex_def
      extractKeywords_simcha findRelatedChunks_def topRelated_def similarity_def themeScore_def
      keywordScore_def countRatio_def sortByScoreDesc_def enumerate_eq_zip ascii_def)
    (simp add: double_eval)











subsection \<open>Rebuilding\<close>

lemma buildBookIndex_created:
  "buildBookIndex now book chunks = (buildBookIndex 0 book chunks)\<lparr>bi_created := now\<rparr>"
  by (simp add: buildBookIndex_def Let_def case_prod_unfold)

lemma compressBookIndex_created:
  "compressBookIndex (b\<lparr>bi_created := d\<rparr>) = (compressBookIndex b)\<lparr>bi_created := d\<rparr>"
  by (simp add: compressBookIndex_def)

lemma eraseBook_created [simp]: "eraseBook (b\<lparr>bi_created := d\<rparr>) = eraseBook b"
  by (simp add: eraseBook_def)

lemma eraseBooks_mapSet:
  "eraseBooks (mapSet k b m) = mapSet k (eraseBook b) (eraseBooks m)"
  by (induction m) (auto simp: eraseBooks_def)

lemma mapGet_eraseBooks: "mapGet (eraseBooks m) k = map_option eraseBook (mapGet m k)"
  by (induction m) (auto simp: eraseBooks_def mapGet_def)

lemma bookStep_erase:
  assumes bj: "\<And>b d. jsonLength (b\<lparr>bi_created := d\<rparr>) = jsonLength b"
    and m: "eraseBooks m1 = eraseBooks m2"
  shows "eraseBooks (bookStep jsonLength clock1 t chunksMap m1 kb)
       = eraseBooks (bookStep jsonLength clock2 t chunksMap m2 kb)"
proof -
  obtain k book where kb: "kb = (k, book)" by (cases kb)
  let ?chunks = "case mapGet chunksMap (book_id book) of Some cs \<Rightarrow> cs | None \<Rightarrow> []"
  let ?b1 = "buildBookIndex (clock1 (t + k)) book ?chunks"
  let ?b2 = "buildBookIndex (clock2 (t + k)) book ?chunks"
  have b: "?b1 = ?b2\<lparr>bi_created := clock1 (t + k)\<rparr>"
    by (subst buildBookIndex_created, subst (2) buildBookIndex_created) simp
  have size: "estimateIndexSize jsonLength ?b1 = estimateIndexSize jsonLength ?b2"
    by (simp only: b estimateIndexSize_def bj)
  have er: "eraseBook ?b1 = eraseBook ?b2"
    by (simp only: b eraseBook_created)
  have erc: "eraseBook (compressBookIndex ?b1) = eraseBook (compressBookIndex ?b2)"
    by (simp only: b compressBookIndex_created eraseBook_created)
  show ?thesis
    unfolding kb bookStep_def
    by (simp add: Let_def eraseBooks_mapSet size er erc m)
qed

lemma foldl_bookStep_erase:
  assumes bj: "\<And>b d. jsonLength (b\<lparr>bi_created := d\<rparr>) = jsonLength b"
  shows "eraseBooks m1 = eraseBooks m2 \<Longrightarrow>
    eraseBooks (foldl (bookStep jsonLength clock1 t chunksMap) m1 kbs)
    = eraseBooks (foldl (bookStep jsonLength clock2 t chunksMap) m2 kbs)"
proof (induction kbs arbitrary: m1 m2)
  case Nil
  then show ?case by simp
next
  case (Cons kb kbs)
  show ?case
    unfolding foldl_Cons
    by (rule Cons.IH) (rule bookStep_erase[OF bj Cons.prems])
qed

lemma buildBookIndexes_erase:
  assumes bj: "\<And>b d. jsonLength (b\<lparr>bi_created := d\<rparr>) = jsonLength b"
  shows "eraseBooks (buildBookIndexes jsonLength clock1 t bookList chunksMap)
       = eraseBooks (buildBookIndexes jsonLength clock2 t bookList chunksMap)"
proof -
  show ?thesis
    unfolding buildBookIndexes_def by (rule foldl_bookStep_erase [OF bj]) simp
qed

lemma master_fields_created [simp]:
  "extractTopThemes (b\<lparr>bi_created := d\<rparr>) = extractTopThemes b"
  "generateBookSummary book (b\<lparr>bi_created := d\<rparr>) = generateBookSummary book b"
  "updateGlobalSearchIndex idx bookId (b\<lparr>bi_created := d\<rparr>) = updateGlobalSearchIndex idx bookId b"
  "updateGlobalThematicMap tm bookId (b\<lparr>bi_created := d\<rparr>) = updateGlobalThematicMap tm bookId b"
  by (simp_all add: extractTopThemes_def generateBookSummary_def updateGlobalSearchIndex_def
      updateGlobalThematicMap_def)

lemma masterLoop_erase:
  "masterLoop (eraseBooks bis) bookList state = masterLoop bis bookList state"
proof (induction bookList arbitrary: state)
  case Nil
  then show ?case by simp
next
  case (Cons book rest)
  obtain a b c d where st: "state = (a, b, c, d)" by (cases state)
  show ?case
    unfolding st masterLoop.simps Cons.IH mapGet_eraseBooks
    by (cases "mapGet bis (book_id book)") (simp_all add: eraseBook_def)
qed

lemma compressMasterIndex_created:
  "compressMasterIndex (m\<lparr>mi_created := d\<rparr>) = (compressMasterIndex m)\<lparr>mi_created := d\<rparr>"
  by (simp add: compressMasterIndex_def)

lemma buildMasterIndex_erase:
  assumes mj: "\<And>m d. jsonLength (m\<lparr>mi_created := d\<rparr>) = jsonLength m"
    and bis: "eraseBooks bis1 = eraseBooks bis2"
  shows "eraseMaster (buildMasterIndex jsonLength now1 bookList bis1)
       = eraseMaster (buildMasterIndex jsonLength now2 bookList bis2)"
proof -
  have loop: "masterLoop bis1 bookList st = masterLoop bis2 bookList st" for st
    using masterLoop_erase[of bis1 bookList st] masterLoop_erase[of bis2 bookList st] bis by simp
  obtain a b c d where r: "masterLoop bis2 bookList ([], [], [], 0) = (a, b, c, d)"
    by (metis prod_cases4)
  let ?m = "\<lambda>now. \<lparr>version = ascii ''1.0.0'', mi_created = now, totalBooks = length bookList,
                  mi_totalTokens = d, books = a, searchIndex = b, thematicMap = c\<rparr>"
  have upd: "?m now1 = (?m now2)\<lparr>mi_created := now1\<rparr>" by simp
  have size: "estimateIndexSize jsonLength (?m now1) = estimateIndexSize jsonLength (?m now2)"
    by (subst upd) (simp only: estimateIndexSize_def mj)
  have er: "eraseMaster (?m now1) = eraseMaster (?m now2)"
    by (simp add: eraseMaster_def)
  have erc: "eraseMaster (compressMasterIndex (?m now1)) = eraseMaster (compressMasterIndex (?m now2))"
    by (subst upd) (simp only: compressMasterIndex_created, simp add: eraseMaster_def)
  show ?thesis
    by (simp add: buildMasterIndex_def loop r Let_def size er erc del: MasterIndex.simps)
qed

text \<open>
  Claim C8. For fixed books and chunks, two runs of \<open>buildAllIndexes\<close>, which differ in
  what the clock shows, produce the same Master Index and the same Book Indexes up to the
  \<open>created\<close> fields. The length of the JSON text of an index, which decides whether the
  index is compressed, is assumed not to depend on the time stamp: \<open>JSON.stringify\<close>
  prints a \<open>Date\<close> as an ISO string of 24 characters for every year from 0 to 9999.
\<close>

theorem buildAllIndexes_rebuild:
  assumes mj: "\<And>m d. masterJsonLength (m\<lparr>mi_created := d\<rparr>) = masterJsonLength m"
    and bj: "\<And>b d. bookJsonLength (b\<lparr>bi_created := d\<rparr>) = bookJsonLength b"
  shows "eraseMaster (ai_masterIndex (buildAllIndexes masterJsonLength bookJsonLength clock1 bookList chunksMap))
       = eraseMaster (ai_masterIndex (buildAllIndexes masterJsonLength bookJsonLength clock2 bookList chunksMap))
     \<and> eraseBooks (ai_bookIndexes (buildAllIndexes masterJsonLength bookJsonLength clock1 bookList chunksMap))
       = eraseBooks (ai_bookIndexes (buildAllIndexes masterJsonLength bookJsonLength clock2 bookList chunksMap))"
proof -
  let ?t = "length (allChunks chunksMap)"
  have b: "eraseBooks (buildBookIndexes bookJsonLength clock1 ?t bookList chunksMap)
       = eraseBooks (buildBookIndexes bookJsonLength clock2 ?t bookList chunksMap)"
    by (rule buildBookIndexes_erase[OF bj])
  have m: "eraseMaster (buildMasterIndex masterJsonLength (clock1 (?t + length bookList)) bookList
              (buildBookIndexes bookJsonLength clock1 ?t bookList chunksMap))
         = eraseMaster (buildMasterIndex masterJsonLength (clock2 (?t + length bookList)) bookList
              (buildBookIndexes bookJsonLength clock2 ?t bookList chunksMap))"
    by (rule buildMasterIndex_erase[OF mj b])
  show ?thesis
    using b m by (simp add: buildAllIndexes_def Let_def)
qed

text \<open>Claim C8 at the corpus of two books, built at two clocks a day apart, with JSON
  lengths that grow with the content of the index.\<close>

theorem buildAllIndexes_rebuild_witness:
  "eraseMaster (ai_masterIndex (buildAllIndexes (\<lambda>m. 500 * length (books m)) (\<lambda>b. 500 * length (bi_chunks b))
        exClock exBooks exChunksMap))
   = eraseMaster (ai_masterIndex (buildAllIndexes (\<lambda>m. 500 * length (books m))
        (\<lambda>b. 500 * length (bi_chunks b)) exLaterClock exBooks exChunksMap))
   \<and> eraseBooks (ai_bookIndexes (buildAllIndexes (\<lambda>m. 500 * length (books m))
        (\<lambda>b. 500 * length (bi_chunks b)) exClock exBooks exChunksMap))
   = eraseBooks (ai_bookIndexes (buildAllIndexes (\<lambda>m. 500 * length (books m))
        (\<lambda>b. 500 * length (bi_chunks b)) exLaterClock exBooks exChunksMap))
   \<and> exClock 4 \<noteq> exLaterClock 4"
proof -
  have mj: "\<And>m d. (\<lambda>m. 500 * length (books m)) (m\<lparr>mi_created := d\<rparr>) = (\<lambda>m. 500 * length (books m)) m"
    by simp
  have bj: "\<And>b d. (\<lambda>b. 500 * length (bi_chunks b)) (b\<lparr>bi_created := d\<rparr>) = (\<lambda>b. 500 * length (bi_chunks b)) b"
    by simp
  show ?thesis
    using buildAllIndexes_rebuild [of "\<lambda>m. 500 * length (books m)" "\<lambda>b. 500 * length (bi_chunks b)",
        OF mj bj, of exClock exBooks exChunksMap exLaterClock]
    by (simp add: exClock_def exLaterClock_def)
qed

end
